theory Spec2Isabelle
  imports Complex_Main
begin

section \<open>Rigid-body inertia utilities of the Taks\_T1 robot description\<close>

text \<open>
  The theory embeds \<^verbatim>\<open>assets/Taks_T1/calculate_inertia.py\<close> and
  \<^verbatim>\<open>assets/Taks_T1/calculate_inertia_from_stl.py\<close>.
  Python floats are idealised as the real numbers: every arithmetic operation of the
  source is read as the exact operation. Where a statement turns on the rounding of a
  result, the operations involved are read a second time as operations on doubles
  (subsection Double precision).
  A numpy vector of three floats is a triple, a 3x3 array is a triple of rows.
\<close>

subsection \<open>Vectors and matrices\<close>

type_synonym vec3 = "real \<times> real \<times> real"
type_synonym mat3 = "vec3 \<times> vec3 \<times> vec3"

text \<open>\<^verbatim>\<open>np.diag(v)\<close> of a vector of three entries.\<close>

definition np_diag :: "vec3 \<Rightarrow> mat3" where
  "np_diag v = (case v of (a, b, c) \<Rightarrow> ((a, 0, 0), (0, b, 0), (0, 0, c)))"

text \<open>\<^verbatim>\<open>A.T\<close>.\<close>

definition transpose3 :: "mat3 \<Rightarrow> mat3" where
  "transpose3 A = (case A of ((a00, a01, a02), (a10, a11, a12), (a20, a21, a22)) \<Rightarrow>
     ((a00, a10, a20), (a01, a11, a21), (a02, a12, a22)))"

definition dot3 :: "vec3 \<Rightarrow> vec3 \<Rightarrow> real" where
  "dot3 u v = (case u of (u0, u1, u2) \<Rightarrow> case v of (v0, v1, v2) \<Rightarrow>
     u0 * v0 + u1 * v1 + u2 * v2)"

text \<open>\<^verbatim>\<open>A @ B\<close>: entry (i, j) is row i of A times column j of B.\<close>

definition matmul :: "mat3 \<Rightarrow> mat3 \<Rightarrow> mat3" where
  "matmul A B = (case A of (r0, r1, r2) \<Rightarrow> case transpose3 B of (c0, c1, c2) \<Rightarrow>
     ((dot3 r0 c0, dot3 r0 c1, dot3 r0 c2),
      (dot3 r1 c0, dot3 r1 c1, dot3 r1 c2),
      (dot3 r2 c0, dot3 r2 c1, dot3 r2 c2)))"

definition trace3 :: "mat3 \<Rightarrow> real" where
  "trace3 A = (case A of ((a00, a01, a02), (a10, a11, a12), (a20, a21, a22)) \<Rightarrow>
     a00 + a11 + a22)"

definition symmetric3 :: "mat3 \<Rightarrow> bool" where
  "symmetric3 A = (transpose3 A = A)"

text \<open>\<^verbatim>\<open>np.linalg.det\<close> of a 3x3 array.\<close>

definition det3 :: "mat3 \<Rightarrow> real" where
  "det3 A = (case A of ((a00, a01, a02), (a10, a11, a12), (a20, a21, a22)) \<Rightarrow>
     a00 * (a11 * a22 - a12 * a21) - a01 * (a10 * a22 - a12 * a20)
       + a02 * (a10 * a21 - a11 * a20))"

definition identity3 :: mat3 where
  "identity3 = ((1, 0, 0), (0, 1, 0), (0, 0, 1))"

text \<open>Entry \<open>i\<close> of a vector, for \<open>i\<close> among 0, 1, 2.\<close>

definition nth3 :: "vec3 \<Rightarrow> nat \<Rightarrow> real" where
  "nth3 v i = (case v of (v0, v1, v2) \<Rightarrow> if i = 0 then v0 else if i = 1 then v1 else v2)"

text \<open>\<^verbatim>\<open>v[idx]\<close> for an index array of three entries.\<close>

definition take3 :: "vec3 \<Rightarrow> nat list \<Rightarrow> vec3" where
  "take3 v idx = (nth3 v (idx ! 0), nth3 v (idx ! 1), nth3 v (idx ! 2))"

text \<open>\<^verbatim>\<open>A[:, idx]\<close>: column \<open>k\<close> of the result is column \<open>idx[k]\<close> of \<open>A\<close>.\<close>

definition select_columns :: "mat3 \<Rightarrow> nat list \<Rightarrow> mat3" where
  "select_columns A idx = (case A of (r0, r1, r2) \<Rightarrow> (take3 r0 idx, take3 r1 idx, take3 r2 idx))"

text \<open>\<^verbatim>\<open>A[:, 0] *= -1\<close>.\<close>

definition negate_column0 :: "mat3 \<Rightarrow> mat3" where
  "negate_column0 A = (case A of ((a00, a01, a02), (a10, a11, a12), (a20, a21, a22)) \<Rightarrow>
     ((- a00, a01, a02), (- a10, a11, a12), (- a20, a21, a22)))"

text \<open>
  \<^verbatim>\<open>np.argsort\<close> of three values: the indices in ascending order of their values;
  equal values are taken to keep their order.
\<close>

definition argsort3 :: "vec3 \<Rightarrow> nat list" where
  "argsort3 v = sort_key (nth3 v) [0, 1, 2]"

definition ascending3 :: "vec3 \<Rightarrow> bool" where
  "ascending3 v = (case v of (v0, v1, v2) \<Rightarrow> v0 \<le> v1 \<and> v1 \<le> v2)"

text \<open>The columns of \<open>V\<close> are orthonormal: \<open>V\<^sup>T V\<close> is the identity.\<close>

definition orthonormal_columns :: "mat3 \<Rightarrow> bool" where
  "orthonormal_columns V = (matmul (transpose3 V) V = identity3)"

text \<open>The three pairwise inequalities on a triple of principal moments.\<close>

definition triangle_ok :: "vec3 \<Rightarrow> bool" where
  "triangle_ok I = (case I of (ixx, iyy, izz) \<Rightarrow>
     ixx + iyy \<ge> izz \<and> iyy + izz \<ge> ixx \<and> izz + ixx \<ge> iyy)"

subsection \<open>Errors\<close>

text \<open>
  The exceptions the modelled code can raise: the \<^verbatim>\<open>ValueError\<close> of
  \<^verbatim>\<open>calculate_inertia\<close> for an unknown shape (with the shape it names), the
  \<^verbatim>\<open>IndexError\<close> of a list read out of range, the \<^verbatim>\<open>ValueError\<close> of unpacking
  \<^verbatim>\<open>w, x, y, z = quat\<close> from a sequence that has not four entries, the
  \<^verbatim>\<open>ValueError\<close> scipy raises for a quaternion of norm zero, the
  \<^verbatim>\<open>OverflowError\<close> of a float power beyond the range of a double, and any
  exception of \<^verbatim>\<open>trimesh.load\<close> on a file it cannot read.
\<close>

datatype py_error =
    UnknownShape string
  | IndexError
  | UnpackError
  | ZeroNormQuaternion
  | OverflowError
  | LoadError

definition index :: "'a list \<Rightarrow> nat \<Rightarrow> py_error + 'a" where
  "index xs i = (if i < length xs then Inr (xs ! i) else Inl IndexError)"

text \<open>
  The values of the floats are idealised, the two places where the range of a double
  decides between a result and an exception are not. Python raises
  \<^verbatim>\<open>OverflowError\<close> for \<^verbatim>\<open>x ** 2\<close> when the square rounds to infinity, that is
  from \<open>2\<^sup>1\<^sup>0\<^sup>2\<^sup>4 - 2\<^sup>9\<^sup>7\<^sup>0\<close> on. A product of two doubles rounds to zero when it is
  at most \<open>2\<^sup>-\<^sup>1\<^sup>0\<^sup>7\<^sup>5\<close>, half the smallest positive double.
\<close>

definition pow_overflows :: "real \<Rightarrow> bool" where
  "pow_overflows x = (x\<^sup>2 \<ge> 2 ^ 1024 - 2 ^ 970)"

definition rounds_to_zero :: "real \<Rightarrow> bool" where
  "rounds_to_zero x = (\<bar>x\<bar> \<le> 1 / 2 ^ 1075)"

subsection \<open>Quaternions and rotation (calculate\_inertia.py, lines 33 to 94)\<close>

text \<open>
  \<^verbatim>\<open>scipy.spatial.transform.Rotation\<close> is a library outside the repository. The two
  operations the scripts use are modelled by what the library documents:
  \<^verbatim>\<open>from_quat\<close> takes the quaternion in scalar-last order, rejects norm zero and
  stores the normalised quaternion; \<^verbatim>\<open>as_matrix\<close> evaluates the usual quadratic
  form of the stored unit quaternion. The norm the library tests is the square root of
  the sum of the squares as doubles: it is zero exactly when each square rounds to
  zero.
\<close>

type_synonym quat_xyzw = "real \<times> real \<times> real \<times> real"

definition norm4 :: "quat_xyzw \<Rightarrow> real" where
  "norm4 q = (case q of (x, y, z, w) \<Rightarrow> sqrt (x\<^sup>2 + y\<^sup>2 + z\<^sup>2 + w\<^sup>2))"

definition norm_is_zero :: "quat_xyzw \<Rightarrow> bool" where
  "norm_is_zero q = (case q of (x, y, z, w) \<Rightarrow>
     rounds_to_zero (x\<^sup>2) \<and> rounds_to_zero (y\<^sup>2) \<and> rounds_to_zero (z\<^sup>2)
     \<and> rounds_to_zero (w\<^sup>2))"

definition from_quat :: "quat_xyzw \<Rightarrow> py_error + quat_xyzw" where
  "from_quat q = (case q of (x, y, z, w) \<Rightarrow>
     (let n = norm4 q in
      if norm_is_zero q then Inl ZeroNormQuaternion
      else Inr (x / n, y / n, z / n, w / n)))"

definition as_matrix :: "quat_xyzw \<Rightarrow> mat3" where
  "as_matrix q = (case q of (x, y, z, w) \<Rightarrow>
     ((x\<^sup>2 - y\<^sup>2 - z\<^sup>2 + w\<^sup>2, 2 * (x * y - z * w), 2 * (x * z + y * w)),
      (2 * (x * y + z * w), - x\<^sup>2 + y\<^sup>2 - z\<^sup>2 + w\<^sup>2, 2 * (y * z - x * w)),
      (2 * (x * z - y * w), 2 * (y * z + x * w), - x\<^sup>2 - y\<^sup>2 + z\<^sup>2 + w\<^sup>2)))"

definition quat_to_rotation_matrix :: "real list \<Rightarrow> py_error + mat3" where
  "quat_to_rotation_matrix quat =
     (case quat of
        [w, x, y, z] \<Rightarrow>
          (case from_quat (x, y, z, w) of
             Inl e \<Rightarrow> Inl e
           | Inr r \<Rightarrow> Inr (as_matrix r))
      | _ \<Rightarrow> Inl UnpackError)"

definition rotate_inertia :: "vec3 \<Rightarrow> real list \<Rightarrow> py_error + mat3" where
  "rotate_inertia diag_inertia quat =
     (let I_principal = np_diag diag_inertia in
      case quat_to_rotation_matrix quat of
        Inl e \<Rightarrow> Inl e
      | Inr R \<Rightarrow> Inr (matmul (matmul R I_principal) (transpose3 R)))"

definition inertia_tensor_to_urdf ::
  "mat3 \<Rightarrow> real \<times> real \<times> real \<times> real \<times> real \<times> real" where
  "inertia_tensor_to_urdf I =
     (case I of ((i00, i01, i02), (i10, i11, i12), (i20, i21, i22)) \<Rightarrow>
        (let ixx = i00; iyy = i11; izz = i22; ixy = i01; ixz = i02; iyz = i12
         in (ixx, ixy, ixz, iyy, iyz, izz)))"

text \<open>
  \<^verbatim>\<open>Rotation.from_matrix\<close> followed by \<^verbatim>\<open>as_quat\<close>, also of scipy: the library
  picks the largest of the three diagonal entries and the trace (the first one among
  equals), builds the quaternion from the branch of that choice and normalises it;
  \<^verbatim>\<open>as_quat\<close> returns the stored quaternion, scalar last.
\<close>

definition argmax4 :: "real \<Rightarrow> real \<Rightarrow> real \<Rightarrow> real \<Rightarrow> nat" where
  "argmax4 a0 a1 a2 a3 =
     (let (imax, vmax) = (0, a0);
          (imax, vmax) = (if a1 > vmax then (1, a1) else (imax, vmax));
          (imax, vmax) = (if a2 > vmax then (2, a2) else (imax, vmax));
          (imax, vmax) = (if a3 > vmax then (3, a3) else (imax, vmax))
      in imax)"

definition normalize4 :: "quat_xyzw \<Rightarrow> quat_xyzw" where
  "normalize4 q = (case q of (x, y, z, w) \<Rightarrow>
     (let n = norm4 q in (x / n, y / n, z / n, w / n)))"

definition from_matrix :: "mat3 \<Rightarrow> quat_xyzw" where
  "from_matrix M = (case M of ((m00, m01, m02), (m10, m11, m12), (m20, m21, m22)) \<Rightarrow>
     (let tr = m00 + m11 + m22;
          choice = argmax4 m00 m11 m22 tr
      in normalize4
           (if choice = 0 then (1 - tr + 2 * m00, m10 + m01, m20 + m02, m21 - m12)
            else if choice = 1 then (m01 + m10, 1 - tr + 2 * m11, m21 + m12, m02 - m20)
            else if choice = 2 then (m02 + m20, m12 + m21, 1 - tr + 2 * m22, m10 - m01)
            else (m21 - m12, m02 - m20, m10 - m01, 1 + tr))))"

definition as_quat :: "quat_xyzw \<Rightarrow> quat_xyzw" where
  "as_quat q = q"

subsection \<open>Primitive shapes (calculate\_inertia.py, lines 97 to 124)\<close>

definition inertia_box :: "real \<Rightarrow> real \<Rightarrow> real \<Rightarrow> real \<Rightarrow> vec3" where
  "inertia_box mass lx ly lz =
     (let Ixx = (1/12) * mass * (ly\<^sup>2 + lz\<^sup>2);
          Iyy = (1/12) * mass * (lx\<^sup>2 + lz\<^sup>2);
          Izz = (1/12) * mass * (lx\<^sup>2 + ly\<^sup>2)
      in (Ixx, Iyy, Izz))"

definition inertia_cylinder_z :: "real \<Rightarrow> real \<Rightarrow> real \<Rightarrow> vec3" where
  "inertia_cylinder_z mass radius height =
     (let Ixx = (1/12) * mass * (3 * radius\<^sup>2 + height\<^sup>2);
          Iyy = Ixx;
          Izz = (1/2) * mass * radius\<^sup>2
      in (Ixx, Iyy, Izz))"

definition inertia_cylinder_y :: "real \<Rightarrow> real \<Rightarrow> real \<Rightarrow> vec3" where
  "inertia_cylinder_y mass radius height =
     (let Iyy = (1/2) * mass * radius\<^sup>2;
          Ixx = (1/12) * mass * (3 * radius\<^sup>2 + height\<^sup>2);
          Izz = Ixx
      in (Ixx, Iyy, Izz))"

definition inertia_sphere :: "real \<Rightarrow> real \<Rightarrow> vec3" where
  "inertia_sphere mass radius =
     (let I = (2/5) * mass * radius\<^sup>2 in (I, I, I))"

subsection \<open>Triangle-inequality check\<close>

text \<open>
  Both scripts define \<^verbatim>\<open>validate_inertia(name, ixx, iyy, izz)\<close>. Each prints one
  warning line per violated inequality and returns the flag. A printed line is kept as a
  structured value: which inequality, the body name and the three printed numbers in
  the order of the format string.
\<close>

datatype warning =
    IxxIyy_lt_Izz string real real real
  | IyyIzz_lt_Ixx string real real real
  | IzzIxx_lt_Iyy string real real real

text \<open>calculate\_inertia.py, lines 127 to 139: exact comparisons.\<close>

definition validate_inertia :: "string \<Rightarrow> real \<Rightarrow> real \<Rightarrow> real \<Rightarrow> warning list \<times> bool" where
  "validate_inertia name ixx iyy izz =
     (let (out1, valid1) =
            (if ixx + iyy < izz then ([IxxIyy_lt_Izz name ixx iyy izz], False) else ([], True));
          (out2, valid2) =
            (if iyy + izz < ixx then (out1 @ [IyyIzz_lt_Ixx name iyy izz ixx], False)
             else (out1, valid1));
          (out3, valid3) =
            (if izz + ixx < iyy then (out2 @ [IzzIxx_lt_Iyy name izz ixx iyy], False)
             else (out2, valid2))
      in (out3, valid3))"

text \<open>calculate\_inertia\_from\_stl.py, lines 130 to 143: the same with \<^verbatim>\<open>eps = 1e-10\<close>.\<close>

definition eps :: real where
  "eps = 1 / 10 ^ 10"

definition validate_inertia_stl :: "string \<Rightarrow> real \<Rightarrow> real \<Rightarrow> real \<Rightarrow> warning list \<times> bool" where
  "validate_inertia_stl name ixx iyy izz =
     (let (out1, valid1) =
            (if ixx + iyy < izz - eps then ([IxxIyy_lt_Izz name ixx iyy izz], False)
             else ([], True));
          (out2, valid2) =
            (if iyy + izz < ixx - eps then (out1 @ [IyyIzz_lt_Ixx name iyy izz ixx], False)
             else (out1, valid1));
          (out3, valid3) =
            (if izz + ixx < iyy - eps then (out2 @ [IzzIxx_lt_Iyy name izz ixx iyy], False)
             else (out2, valid2))
      in (out3, valid3))"

subsection \<open>Double precision\<close>

text \<open>
  Two statements about the scripts turn on the last bit of a result, so the operations
  they involve are given a second reading, as IEEE 754 binary64 operations. A double is
  a finite value \<open>n * 2\<^sup>e\<close> with \<open>|n| < 2\<^sup>5\<^sup>3\<close> and \<open>-1074 \<le> e \<le> 971\<close>, an infinity or
  a NaN. Every operation returns the exact result rounded to the nearest double, ties
  to the even significand; a result that rounds to \<open>2\<^sup>1\<^sup>0\<^sup>2\<^sup>4\<close> or beyond is an
  infinity. The sign of a zero is not kept: no division by a zero of either sign is
  reached by the code modelled here.
\<close>

definition round_half_even :: "real \<Rightarrow> int" where
  "round_half_even x = (let f = \<lfloor>x\<rfloor>; d = x - of_int f in
     if d < 1/2 then f else if 1/2 < d then f + 1 else if even f then f else f + 1)"

text \<open>
  The exponent of the binade of \<open>x\<close>: the least \<open>e\<close> from \<open>-1022\<close> on with
  \<open>|x| < 2\<^sup>e\<^sup>+\<^sup>1\<close>; the doubles of that binade are the multiples of \<open>2\<^sup>e\<^sup>-\<^sup>5\<^sup>2\<close>.
\<close>

definition binade :: "real \<Rightarrow> int" where
  "binade x = (case find (\<lambda>e. \<bar>x\<bar> < 2 powi (e + 1)) [- 1022..1023] of
                 Some e \<Rightarrow> e | None \<Rightarrow> 1024)"

definition round_double :: "real \<Rightarrow> real" where
  "round_double x = (let u = 2 powi (binade x - 52) in of_int (round_half_even (x / u)) * u)"

datatype double = Finite real | PosInf | NegInf | NaN

definition to_double :: "real \<Rightarrow> double" where
  "to_double x = (let r = round_double x in
     if 2 ^ 1024 \<le> r then PosInf else if r \<le> - (2 ^ 1024) then NegInf else Finite r)"

fun double_neg :: "double \<Rightarrow> double" where
  "double_neg (Finite a) = Finite (- a)"
| "double_neg PosInf = NegInf"
| "double_neg NegInf = PosInf"
| "double_neg NaN = NaN"

fun double_add :: "double \<Rightarrow> double \<Rightarrow> double" where
  "double_add (Finite a) (Finite b) = to_double (a + b)"
| "double_add NaN _ = NaN"
| "double_add _ NaN = NaN"
| "double_add PosInf NegInf = NaN"
| "double_add NegInf PosInf = NaN"
| "double_add PosInf _ = PosInf"
| "double_add _ PosInf = PosInf"
| "double_add NegInf _ = NegInf"
| "double_add _ NegInf = NegInf"

definition double_sub :: "double \<Rightarrow> double \<Rightarrow> double" where
  "double_sub a b = double_add a (double_neg b)"

text \<open>The sign of a double that is not a NaN: \<open>-1\<close>, \<open>0\<close> or \<open>1\<close>.\<close>

fun double_sgn :: "double \<Rightarrow> real" where
  "double_sgn (Finite a) = sgn a"
| "double_sgn PosInf = 1"
| "double_sgn NegInf = - 1"
| "double_sgn NaN = 0"

definition signed_inf :: "real \<Rightarrow> double" where
  "signed_inf s = (if s = 0 then NaN else if 0 < s then PosInf else NegInf)"

fun double_mul :: "double \<Rightarrow> double \<Rightarrow> double" where
  "double_mul (Finite a) (Finite b) = to_double (a * b)"
| "double_mul NaN _ = NaN"
| "double_mul _ NaN = NaN"
| "double_mul a b = signed_inf (double_sgn a * double_sgn b)"

fun double_div :: "double \<Rightarrow> double \<Rightarrow> double" where
  "double_div (Finite a) (Finite b) =
     (if b = 0 then signed_inf (sgn a) else to_double (a / b))"
| "double_div NaN _ = NaN"
| "double_div _ NaN = NaN"
| "double_div (Finite a) _ = Finite 0"
| "double_div a (Finite b) = signed_inf (double_sgn a * (if b < 0 then - 1 else 1))"
| "double_div _ _ = NaN"

fun double_sqrt :: "double \<Rightarrow> double" where
  "double_sqrt (Finite a) = (if a < 0 then NaN else to_double (sqrt a))"
| "double_sqrt PosInf = PosInf"
| "double_sqrt _ = NaN"

text \<open>
  \<^verbatim>\<open>x ** 2\<close> on a Python float: the rounded square (the C library's \<^verbatim>\<open>pow\<close> is
  taken to round a square correctly), and \<^verbatim>\<open>OverflowError\<close> when a finite \<open>x\<close> has
  a square that rounds to infinity.
\<close>

fun double_pow2 :: "double \<Rightarrow> py_error + double" where
  "double_pow2 (Finite a) =
     (if to_double (a * a) = PosInf then Inl OverflowError else Inr (to_double (a * a)))"
| "double_pow2 NaN = Inr NaN"
| "double_pow2 _ = Inr PosInf"

text \<open>\<^verbatim>\<open>a >= b\<close> on doubles: false as soon as one side is a NaN.\<close>

fun double_ge :: "double \<Rightarrow> double \<Rightarrow> bool" where
  "double_ge (Finite a) (Finite b) = (b \<le> a)"
| "double_ge NaN _ = False"
| "double_ge _ NaN = False"
| "double_ge PosInf _ = True"
| "double_ge _ NegInf = True"
| "double_ge _ _ = False"

type_synonym dvec3 = "double \<times> double \<times> double"
type_synonym dmat3 = "dvec3 \<times> dvec3 \<times> dvec3"

text \<open>The three pairwise inequalities, on the doubles a calculator returns.\<close>

definition double_triangle_ok :: "dvec3 \<Rightarrow> bool" where
  "double_triangle_ok I = (case I of (ixx, iyy, izz) \<Rightarrow>
     double_ge (double_add ixx iyy) izz \<and> double_ge (double_add iyy izz) ixx
     \<and> double_ge (double_add izz ixx) iyy)"

text \<open>
  \<^verbatim>\<open>inertia_cylinder_z\<close> (calculate\_inertia.py, lines 107 to 111) on doubles: the
  operations of each line in the order Python evaluates them, \<^verbatim>\<open>1/12\<close> being the
  double nearest to one twelfth.
\<close>

definition double_inertia_cylinder_z :: "double \<Rightarrow> double \<Rightarrow> double \<Rightarrow> py_error + dvec3" where
  "double_inertia_cylinder_z mass radius height =
     (case double_pow2 radius of
        Inl e \<Rightarrow> Inl e
      | Inr r2 \<Rightarrow>
          (case double_pow2 height of
             Inl e \<Rightarrow> Inl e
           | Inr h2 \<Rightarrow>
               (let Ixx = double_mul (double_mul (to_double (1/12)) mass)
                            (double_add (double_mul (Finite 3) r2) h2);
                    Iyy = Ixx;
                    Izz = double_mul (double_mul (Finite (1/2)) mass) r2
                in Inr (Ixx, Iyy, Izz))))"

text \<open>
  \<^verbatim>\<open>rotate_inertia\<close> (lines 33 to 79) on doubles. The quaternion is normalised as
  scipy does it, by the square root of the sum of the four squares; the matrix entries
  are scipy's expressions over the ten products; \<^verbatim>\<open>A @ B\<close> is taken as the sums of
  rows times columns, every product and every sum rounded, added from left to right.
\<close>

type_synonym dquat_xyzw = "double \<times> double \<times> double \<times> double"

definition double_norm4 :: "dquat_xyzw \<Rightarrow> double" where
  "double_norm4 q = (case q of (x, y, z, w) \<Rightarrow>
     double_sqrt (double_add (double_add (double_add (double_mul x x) (double_mul y y))
                    (double_mul z z)) (double_mul w w)))"

definition double_from_quat :: "dquat_xyzw \<Rightarrow> py_error + dquat_xyzw" where
  "double_from_quat q = (case q of (x, y, z, w) \<Rightarrow>
     (let n = double_norm4 q in
      if n = Finite 0 then Inl ZeroNormQuaternion
      else Inr (double_div x n, double_div y n, double_div z n, double_div w n)))"

definition double_as_matrix :: "dquat_xyzw \<Rightarrow> dmat3" where
  "double_as_matrix q = (case q of (x, y, z, w) \<Rightarrow>
     (let x2 = double_mul x x; y2 = double_mul y y; z2 = double_mul z z; w2 = double_mul w w;
          xy = double_mul x y; zw = double_mul z w; xz = double_mul x z; yw = double_mul y w;
          yz = double_mul y z; xw = double_mul x w
      in ((double_add (double_sub (double_sub x2 y2) z2) w2,
           double_mul (Finite 2) (double_sub xy zw),
           double_mul (Finite 2) (double_add xz yw)),
          (double_mul (Finite 2) (double_add xy zw),
           double_add (double_sub (double_add (double_neg x2) y2) z2) w2,
           double_mul (Finite 2) (double_sub yz xw)),
          (double_mul (Finite 2) (double_sub xz yw),
           double_mul (Finite 2) (double_add yz xw),
           double_add (double_add (double_sub (double_neg x2) y2) z2) w2))))"

definition double_quat_to_rotation_matrix :: "double list \<Rightarrow> py_error + dmat3" where
  "double_quat_to_rotation_matrix quat =
     (case quat of
        [w, x, y, z] \<Rightarrow>
          (case double_from_quat (x, y, z, w) of
             Inl e \<Rightarrow> Inl e
           | Inr r \<Rightarrow> Inr (double_as_matrix r))
      | _ \<Rightarrow> Inl UnpackError)"

definition double_np_diag :: "dvec3 \<Rightarrow> dmat3" where
  "double_np_diag v = (case v of (a, b, c) \<Rightarrow>
     ((a, Finite 0, Finite 0), (Finite 0, b, Finite 0), (Finite 0, Finite 0, c)))"

definition double_transpose3 :: "dmat3 \<Rightarrow> dmat3" where
  "double_transpose3 A = (case A of ((a00, a01, a02), (a10, a11, a12), (a20, a21, a22)) \<Rightarrow>
     ((a00, a10, a20), (a01, a11, a21), (a02, a12, a22)))"

definition double_dot3 :: "dvec3 \<Rightarrow> dvec3 \<Rightarrow> double" where
  "double_dot3 u v = (case u of (u0, u1, u2) \<Rightarrow> case v of (v0, v1, v2) \<Rightarrow>
     double_add (double_add (double_mul u0 v0) (double_mul u1 v1)) (double_mul u2 v2))"

definition double_matmul :: "dmat3 \<Rightarrow> dmat3 \<Rightarrow> dmat3" where
  "double_matmul A B = (case A of (r0, r1, r2) \<Rightarrow> case double_transpose3 B of (c0, c1, c2) \<Rightarrow>
     ((double_dot3 r0 c0, double_dot3 r0 c1, double_dot3 r0 c2),
      (double_dot3 r1 c0, double_dot3 r1 c1, double_dot3 r1 c2),
      (double_dot3 r2 c0, double_dot3 r2 c1, double_dot3 r2 c2)))"

definition double_rotate_inertia :: "dvec3 \<Rightarrow> double list \<Rightarrow> py_error + dmat3" where
  "double_rotate_inertia diag_inertia quat =
     (let I_principal = double_np_diag diag_inertia in
      case double_quat_to_rotation_matrix quat of
        Inl e \<Rightarrow> Inl e
      | Inr R \<Rightarrow> Inr (double_matmul (double_matmul R I_principal) (double_transpose3 R)))"

text \<open>\<^verbatim>\<open>a == b\<close> on doubles: a NaN is equal to nothing.\<close>

fun double_eq :: "double \<Rightarrow> double \<Rightarrow> bool" where
  "double_eq NaN _ = False"
| "double_eq _ NaN = False"
| "double_eq a b = (a = b)"

definition double_symmetric3 :: "dmat3 \<Rightarrow> bool" where
  "double_symmetric3 A = (case A of ((a00, a01, a02), (a10, a11, a12), (a20, a21, a22)) \<Rightarrow>
     double_eq a01 a10 \<and> double_eq a02 a20 \<and> double_eq a12 a21)"

subsection \<open>Mesh-based computation (calculate\_inertia\_from\_stl.py)\<close>

text \<open>
  What the scripts print, kept as values: the warning lines of both scripts, the
  progress lines of the mesh loop and the summary line of the primitive loop. The
  banner lines are left out. \<open>NotWatertight\<close> carries the path of the file whose base
  name the line shows.
\<close>

datatype printed =
    Warn warning
  | Processing string
  | MassDefault string
  | NotWatertight string
  | VolumeInvalid
  | MassLine real
  | ComLine vec3
  | PrincipalLine vec3
  | AllValid
  | SomeInvalid

text \<open>
  A \<^verbatim>\<open>trimesh.Trimesh\<close> object, as far as the script reads and writes it. The
  geometry fixes \<^verbatim>\<open>volume\<close>, \<^verbatim>\<open>center_mass\<close>, \<^verbatim>\<open>bounds\<close> (the two corners of
  the axis-aligned bounding box) and the inertia tensor of the solid at density one;
  \<^verbatim>\<open>density\<close> is a writable attribute, and trimesh reports as
  \<^verbatim>\<open>moment_inertia\<close> the unit-density tensor times the density.
\<close>

record mesh =
  is_watertight :: bool
  volume :: real
  density :: real
  center_mass :: vec3
  unit_inertia :: mat3
  bounds :: "vec3 \<times> vec3"

definition scale3 :: "real \<Rightarrow> mat3 \<Rightarrow> mat3" where
  "scale3 k A = (case A of ((a00, a01, a02), (a10, a11, a12), (a20, a21, a22)) \<Rightarrow>
     ((k * a00, k * a01, k * a02), (k * a10, k * a11, k * a12), (k * a20, k * a21, k * a22)))"

definition moment_inertia :: "mesh \<Rightarrow> mat3" where
  "moment_inertia m = scale3 (density m) (unit_inertia m)"

text \<open>
  Lines 52 to 57. \<^verbatim>\<open>trimesh.load\<close> reads the file; it is a parameter here, and it
  may fail.
\<close>

definition load_stl ::
  "(string \<Rightarrow> py_error + mesh) \<Rightarrow> string \<Rightarrow> py_error + (printed list \<times> mesh)" where
  "load_stl trimesh_load filepath =
     (case trimesh_load filepath of
        Inl e \<Rightarrow> Inl e
      | Inr m \<Rightarrow> Inr (if \<not> is_watertight m then [NotWatertight filepath] else [], m))"

text \<open>
  Lines 60 to 93. The assignment to \<^verbatim>\<open>mesh.density\<close> changes the caller's object,
  so the mesh after the call is part of the result.
\<close>

definition compute_inertia_from_mesh ::
  "mesh \<Rightarrow> real \<Rightarrow> mesh \<times> printed list \<times> vec3 \<times> mat3" where
  "compute_inertia_from_mesh mesh0 mass =
     (let mesh1 = (if volume mesh0 > 0 then mesh0\<lparr>density := mass / volume mesh0\<rparr> else mesh0);
          com = center_mass mesh1;
          inertia = moment_inertia mesh1
      in if volume mesh1 \<le> 0 then
           (case bounds mesh1 of ((lo0, lo1, lo2), (hi0, hi1, hi2)) \<Rightarrow>
              (let size0 = hi0 - lo0; size1 = hi1 - lo1; size2 = hi2 - lo2;
                   com = ((lo0 + hi0) / 2, (lo1 + hi1) / 2, (lo2 + hi2) / 2);
                   ixx = (1/12) * mass * (size1\<^sup>2 + size2\<^sup>2);
                   iyy = (1/12) * mass * (size0\<^sup>2 + size2\<^sup>2);
                   izz = (1/12) * mass * (size0\<^sup>2 + size1\<^sup>2);
                   inertia = np_diag (ixx, iyy, izz)
               in (mesh1, [VolumeInvalid], com, inertia)))
         else (mesh1, [], com, inertia))"

text \<open>
  Lines 96 to 121. \<^verbatim>\<open>np.linalg.eigh\<close> is a parameter: the function that returns
  the eigenvalues and the matrix whose columns are the eigenvectors.
\<close>

definition diagonalize_inertia ::
  "(mat3 \<Rightarrow> vec3 \<times> mat3) \<Rightarrow> mat3 \<Rightarrow> vec3 \<times> mat3 \<times> real list" where
  "diagonalize_inertia eigh inertia =
     (case eigh inertia of (eigenvalues, eigenvectors0) \<Rightarrow>
        (let eigenvectors =
               (if det3 eigenvectors0 < 0 then negate_column0 eigenvectors0 else eigenvectors0);
             idx = argsort3 eigenvalues;
             principal_inertia = take3 eigenvalues idx;
             rotation_matrix = select_columns eigenvectors idx
         in case as_quat (from_matrix rotation_matrix) of (qx, qy, qz, qw) \<Rightarrow>
              (principal_inertia, rotation_matrix, [qw, qx, qy, qz])))"

text \<open>
  Lines 146 to 198. The loop runs over the mesh files in sorted order; it is given
  here the pairs of link name and file path. An entry of \<^verbatim>\<open>results\<close> has the keys
  \<^verbatim>\<open>mass\<close>, \<^verbatim>\<open>com\<close>, \<^verbatim>\<open>inertia_full\<close>, \<^verbatim>\<open>principal_inertia\<close>,
  \<^verbatim>\<open>rotation_matrix\<close> and \<^verbatim>\<open>quat\<close>.
\<close>

record stl_result =
  s_mass :: real
  s_com :: vec3
  inertia_full :: mat3
  principal_inertia :: vec3
  rotation_matrix :: mat3
  s_quat :: "real list"

record stl_state =
  s_out :: "printed list"
  s_results :: "string \<rightharpoonup> stl_result"

definition process_one ::
  "(string \<Rightarrow> py_error + mesh) \<Rightarrow> (mat3 \<Rightarrow> vec3 \<times> mat3) \<Rightarrow> (string \<rightharpoonup> real) \<Rightarrow>
   string \<times> string \<Rightarrow> stl_state \<Rightarrow> stl_state \<times> py_error option" where
  "process_one trimesh_load eigh masses file st =
     (case file of (link_name, filepath) \<Rightarrow>
        (let out1 = s_out st @ [Processing link_name];
             m = (case masses link_name of Some v \<Rightarrow> v | None \<Rightarrow> 1);
             out2 = (if masses link_name = None then out1 @ [MassDefault link_name] else out1)
         in case load_stl trimesh_load filepath of
              Inl e \<Rightarrow> (st\<lparr>s_out := out2\<rparr>, Some e)
            | Inr (out_load, mesh0) \<Rightarrow>
                (case compute_inertia_from_mesh mesh0 m of (mesh1, out_mesh, c, inertia) \<Rightarrow>
                 case diagonalize_inertia eigh inertia of (p_inertia, rot_matrix, q) \<Rightarrow>
                 case validate_inertia_stl link_name (nth3 p_inertia 0) (nth3 p_inertia 1)
                        (nth3 p_inertia 2) of (warnings, valid) \<Rightarrow>
                   (\<lparr>s_out = out2 @ out_load @ out_mesh @ map Warn warnings
                        @ [MassLine m, ComLine c, PrincipalLine p_inertia],
                     s_results = (s_results st)(link_name \<mapsto>
                        \<lparr>s_mass = m, s_com = c, inertia_full = inertia,
                         principal_inertia = p_inertia, rotation_matrix = rot_matrix,
                         s_quat = q\<rparr>)\<rparr>,
                    None))))"

fun process_stl_files ::
  "(string \<Rightarrow> py_error + mesh) \<Rightarrow> (mat3 \<Rightarrow> vec3 \<times> mat3) \<Rightarrow> (string \<rightharpoonup> real) \<Rightarrow>
   (string \<times> string) list \<Rightarrow> stl_state \<Rightarrow> stl_state \<times> py_error option" where
  "process_stl_files trimesh_load eigh masses [] st = (st, None)"
| "process_stl_files trimesh_load eigh masses (file # files) st =
     (case process_one trimesh_load eigh masses file st of
        (st', Some e) \<Rightarrow> (st', Some e)
      | (st', None) \<Rightarrow> process_stl_files trimesh_load eigh masses files st')"

subsection \<open>Per-link computation (calculate\_inertia.py, lines 365 to 393)\<close>

text \<open>
  An entry of the table \<^verbatim>\<open>all_links\<close>: every entry has the keys \<^verbatim>\<open>mass\<close>,
  \<^verbatim>\<open>shape\<close>, \<^verbatim>\<open>dims\<close> and \<^verbatim>\<open>com\<close>; the key \<^verbatim>\<open>quat\<close> is optional.
\<close>

record link_data =
  mass :: real
  shape :: string
  dims :: "real list"
  com :: "real list"
  quat :: "real list option"

type_synonym inertia_result = "real \<times> real \<times> real \<times> mat3 option \<times> real list option"

text \<open>
  The calculators square every dimension they are given, so a dimension whose square
  overflows makes the call raise; the test is made here, after the reads of
  \<^verbatim>\<open>dims\<close> (the arguments are evaluated before the call).
\<close>

definition shape_diag :: "link_data \<Rightarrow> py_error + vec3" where
  "shape_diag link =
     (let m = mass link; s = shape link; d = dims link in
      if s = ''box'' then
        (case index d 0 of Inl e \<Rightarrow> Inl e | Inr d0 \<Rightarrow>
          (case index d 1 of Inl e \<Rightarrow> Inl e | Inr d1 \<Rightarrow>
            (case index d 2 of Inl e \<Rightarrow> Inl e | Inr d2 \<Rightarrow>
               (if pow_overflows d0 \<or> pow_overflows d1 \<or> pow_overflows d2
                then Inl OverflowError
                else Inr (inertia_box m d0 d1 d2)))))
      else if s = ''cylinder_z'' then
        (case index d 0 of Inl e \<Rightarrow> Inl e | Inr d0 \<Rightarrow>
          (case index d 1 of Inl e \<Rightarrow> Inl e | Inr d1 \<Rightarrow>
             (if pow_overflows d0 \<or> pow_overflows d1 then Inl OverflowError
              else Inr (inertia_cylinder_z m d0 d1))))
      else if s = ''cylinder_y'' then
        (case index d 0 of Inl e \<Rightarrow> Inl e | Inr d0 \<Rightarrow>
          (case index d 1 of Inl e \<Rightarrow> Inl e | Inr d1 \<Rightarrow>
             (if pow_overflows d0 \<or> pow_overflows d1 then Inl OverflowError
              else Inr (inertia_cylinder_y m d0 d1))))
      else if s = ''sphere'' then
        (case index d 0 of Inl e \<Rightarrow> Inl e | Inr d0 \<Rightarrow>
           (if pow_overflows d0 then Inl OverflowError
            else Inr (inertia_sphere m d0)))
      else Inl (UnknownShape s))"

definition calculate_inertia :: "link_data \<Rightarrow> py_error + inertia_result" where
  "calculate_inertia link =
     (case shape_diag link of
        Inl e \<Rightarrow> Inl e
      | Inr diag \<Rightarrow>
          (case diag of (d0, d1, d2) \<Rightarrow>
             (case quat link of
                Some q \<Rightarrow>
                  (case rotate_inertia diag q of
                     Inl e \<Rightarrow> Inl e
                   | Inr I_full \<Rightarrow> Inr (d0, d1, d2, Some I_full, Some q))
              | None \<Rightarrow> Inr (d0, d1, d2, None, None))))"

text \<open>
  What an entry needs for \<^verbatim>\<open>calculate_inertia\<close> to return: the dimensions its shape
  reads (lines 144 to 148: three for a box, two for a cylinder, one for a sphere), each
  with a square inside the range of a double, and an orientation, when given, of four
  components whose norm is not zero.
\<close>

definition required_dims :: "string \<Rightarrow> nat" where
  "required_dims s =
     (if s = ''box'' then 3
      else if s = ''cylinder_z'' \<or> s = ''cylinder_y'' then 2
      else if s = ''sphere'' then 1
      else 0)"

definition well_formed :: "link_data \<Rightarrow> bool" where
  "well_formed link =
     (required_dims (shape link) \<le> length (dims link)
      \<and> list_all (\<lambda>d. \<not> pow_overflows d) (take (required_dims (shape link)) (dims link))
      \<and> (case quat link of
            None \<Rightarrow> True
          | Some q \<Rightarrow> length q = 4 \<and> \<not> norm_is_zero (q ! 1, q ! 2, q ! 3, q ! 0)))"

definition supported_shapes :: "string set" where
  "supported_shapes = {''box'', ''cylinder_y'', ''cylinder_z'', ''sphere''}"

subsection \<open>The batch over all links (calculate\_inertia.py, lines 396 to 424)\<close>

text \<open>
  An entry of \<^verbatim>\<open>results\<close> has the keys \<^verbatim>\<open>mass\<close>, \<^verbatim>\<open>com\<close>,
  \<^verbatim>\<open>diag_inertia\<close>, \<^verbatim>\<open>full_inertia\<close> and \<^verbatim>\<open>quat\<close>. The loop runs over the
  items of the table in order. The formatting of the results that follows it in
  \<^verbatim>\<open>main\<close> (from line 426) is not part of the model.
\<close>

record link_result =
  r_mass :: real
  r_com :: "real list"
  diag_inertia :: vec3
  full_inertia :: "mat3 option"
  r_quat :: "real list option"

record main_state =
  m_out :: "printed list"
  all_valid :: bool
  m_results :: "string \<rightharpoonup> link_result"

definition main_step :: "string \<times> link_data \<Rightarrow> main_state \<Rightarrow> main_state \<times> py_error option" where
  "main_step item st =
     (case item of (name, data) \<Rightarrow>
        (case calculate_inertia data of
           Inl e \<Rightarrow> (st, Some e)
         | Inr (ixx, iyy, izz, I_full, q) \<Rightarrow>
             (case validate_inertia name ixx iyy izz of (warnings, valid) \<Rightarrow>
                (\<lparr>m_out = m_out st @ map Warn warnings,
                  all_valid = (if \<not> valid then False else all_valid st),
                  m_results = (m_results st)(name \<mapsto>
                     \<lparr>r_mass = mass data, r_com = com data, diag_inertia = (ixx, iyy, izz),
                      full_inertia = I_full, r_quat = q\<rparr>)\<rparr>,
                 None))))"

fun main_loop :: "(string \<times> link_data) list \<Rightarrow> main_state \<Rightarrow> main_state \<times> py_error option" where
  "main_loop [] st = (st, None)"
| "main_loop (item # items) st =
     (case main_step item st of
        (st', Some e) \<Rightarrow> (st', Some e)
      | (st', None) \<Rightarrow> main_loop items st')"

definition main_init :: main_state where
  "main_init = \<lparr>m_out = [], all_valid = True, m_results = Map.empty\<rparr>"

definition stl_init :: stl_state where
  "stl_init = \<lparr>s_out = [], s_results = Map.empty\<rparr>"

text \<open>
  \<^verbatim>\<open>main\<close> up to line 424: the loop from the empty results, then the summary line.
  An exception of the loop leaves \<^verbatim>\<open>main\<close>, so no results are returned.
\<close>

definition main :: "(string \<times> link_data) list \<Rightarrow> printed list \<times> (py_error + (string \<rightharpoonup> link_result))" where
  "main all_links =
     (case main_loop all_links main_init of
        (st, Some e) \<Rightarrow> (m_out st, Inl e)
      | (st, None) \<Rightarrow>
          (m_out st @ [if all_valid st then AllValid else SomeInvalid], Inr (m_results st)))"

subsection \<open>Entries of the link table used as examples\<close>

definition pelvis :: link_data where
  "pelvis = \<lparr>mass = 3.34, shape = ''box'', dims = [0.18, 0.16, 0.12],
     com = [0.00454, 0.0, -0.07726], quat = None\<rparr>"

definition neck_pitch_link :: link_data where
  "neck_pitch_link = \<lparr>mass = 0.6, shape = ''box'', dims = [0.18, 0.18, 0.18],
     com = [0.00, -0.020599, 0.105269], quat = Some [0.966, 0.001, 0.087, 0.001]\<rparr>"

definition neck_roll_link :: link_data where
  "neck_roll_link = \<lparr>mass = 0.026, shape = ''sphere'', dims = [0.02],
     com = [0.05706, -0.000635, 0.0], quat = None\<rparr>"

text \<open>An entry with a shape the script does not know.\<close>

definition cone_link :: link_data where
  "cone_link = \<lparr>mass = 1, shape = ''cone'', dims = [0.1, 0.2],
     com = [0, 0, 0], quat = None\<rparr>"

text \<open>A box with two dimensions only.\<close>

definition short_box :: link_data where
  "short_box = \<lparr>mass = 1, shape = ''box'', dims = [1, 2], com = [0, 0, 0], quat = None\<rparr>"

subsection \<open>Meshes used as examples\<close>

text \<open>A flat mesh of no volume with bounding box \<open>(2, 2, 2)\<close>, and the unit cube.\<close>

definition flat_mesh :: mesh where
  "flat_mesh = \<lparr>is_watertight = False, volume = 0, density = 1, center_mass = (0, 0, 0),
     unit_inertia = ((0, 0, 0), (0, 0, 0), (0, 0, 0)), bounds = ((-1, -1, -1), (1, 1, 1))\<rparr>"

definition unit_cube :: mesh where
  "unit_cube = \<lparr>is_watertight = True, volume = 1, density = 1, center_mass = (0, 0, 0),
     unit_inertia = ((1/6, 0, 0), (0, 1/6, 0), (0, 0, 1/6)),
     bounds = ((-1/2, -1/2, -1/2), (1/2, 1/2, 1/2))\<rparr>"

text \<open>
  A directory in which only \<^verbatim>\<open>head.STL\<close> and \<^verbatim>\<open>torso.STL\<close> can be read, and an
  eigen-decomposition that is right for the tensor \<open>diag(2, 1, 3)\<close>: eigenvalues
  \<open>(1, 2, 3)\<close>, first eigenvector the second axis, second eigenvector the first axis.
\<close>

definition load_example :: "string \<Rightarrow> py_error + mesh" where
  "load_example filepath =
     (if filepath = ''meshes/head.STL'' \<or> filepath = ''meshes/torso.STL'' then Inr unit_cube
      else Inl LoadError)"

definition eigh_example :: "mat3 \<Rightarrow> vec3 \<times> mat3" where
  "eigh_example A = ((1, 2, 3), ((0, 1, 0), (1, 0, 0), (0, 0, 1)))"

section \<open>Properties\<close>

subsection \<open>Primitive formulas\<close>


subsection \<open>The two validity checkers\<close>

lemma validate_inertia_flag:
  "snd (validate_inertia n ixx iyy izz) \<longleftrightarrow> triangle_ok (ixx, iyy, izz)"
  by (auto simp: validate_inertia_def triangle_ok_def Let_def)

lemma validate_inertia_warnings:
  "fst (validate_inertia n ixx iyy izz) =
     (if ixx + iyy < izz then [IxxIyy_lt_Izz n ixx iyy izz] else [])
     @ (if iyy + izz < ixx then [IyyIzz_lt_Ixx n iyy izz ixx] else [])
     @ (if izz + ixx < iyy then [IzzIxx_lt_Iyy n izz ixx iyy] else [])"
  by (simp add: validate_inertia_def Let_def)

lemma validate_inertia_stl_flag:
  "snd (validate_inertia_stl n ixx iyy izz)
   \<longleftrightarrow> ixx + iyy \<ge> izz - eps \<and> iyy + izz \<ge> ixx - eps \<and> izz + ixx \<ge> iyy - eps"
  by (auto simp: validate_inertia_stl_def Let_def)

lemma validate_inertia_stl_warnings:
  "fst (validate_inertia_stl n ixx iyy izz) =
     (if ixx + iyy < izz - eps then [IxxIyy_lt_Izz n ixx iyy izz] else [])
     @ (if iyy + izz < ixx - eps then [IyyIzz_lt_Ixx n iyy izz ixx] else [])
     @ (if izz + ixx < iyy - eps then [IzzIxx_lt_Iyy n izz ixx iyy] else [])"
  by (simp add: validate_inertia_stl_def Let_def)

lemma validate_1_1_3:
  "validate_inertia n 1 1 3 = ([IxxIyy_lt_Izz n 1 1 3], False)
   \<and> validate_inertia_stl n 1 1 3 = ([IxxIyy_lt_Izz n 1 1 3], False)"
  by (simp add: validate_inertia_def validate_inertia_stl_def eps_def Let_def)

lemma validate_inertia_accepts:
  assumes "triangle_ok (ixx, iyy, izz)"
  shows "validate_inertia n ixx iyy izz = ([], True)"
  using assms by (simp add: validate_inertia_def triangle_ok_def Let_def)

subsection \<open>Evaluation of doubles\<close>

text \<open>
  A rounding is settled by naming the binade of the exact result and the integer
  multiple of the unit of that binade that is nearest to it.
\<close>

lemma find_append_None: "find P xs = None \<Longrightarrow> find P (xs @ ys) = find P ys"
  by (induction xs) (auto split: if_splits)

lemma find_upto_first:
  assumes "a \<le> e" and "e \<le> b" and "P e" and "\<And>k. a \<le> k \<Longrightarrow> k < e \<Longrightarrow> \<not> P k"
  shows "find P [a..b] = Some e"
proof -
  have s: "[a..b] = [a..e - 1] @ e # [e + 1..b]" using assms(1,2) by (rule upto_split3)
  have n: "find P [a..e - 1] = None" using assms(4) by (auto simp: find_None_iff)
  show ?thesis unfolding s find_append_None [OF n] using assms(3) by simp
qed

lemma binade_eq:
  assumes "2 powi e \<le> \<bar>x\<bar> \<or> e = - 1022" and "\<bar>x\<bar> < 2 powi (e + 1)"
    and "- 1022 \<le> e" and "e \<le> 1023"
  shows "binade x = e"
proof -
  have "\<not> \<bar>x\<bar> < 2 powi (k + 1)" if "- 1022 \<le> k" "k < e" for k
  proof -
    from that assms(1) have le: "2 powi e \<le> \<bar>x\<bar>" by auto
    have "(2::real) powi (k + 1) \<le> 2 powi e" using that by (intro power_int_increasing) auto
    with le show ?thesis by linarith
  qed
  then have "find (\<lambda>e. \<bar>x\<bar> < 2 powi (e + 1)) [- 1022..1023] = Some e"
    using assms by (intro find_upto_first) auto
  then show ?thesis by (simp add: binade_def)
qed

lemma round_half_even_near:
  assumes "\<bar>x - of_int n\<bar> < 1/2 \<or> (\<bar>x - of_int n\<bar> = 1/2 \<and> even n)"
  shows "round_half_even x = n"
proof (cases "of_int n \<le> x")
  case True
  with assms have "x < of_int n + 1" by (auto simp: abs_if split: if_splits)
  with True have f: "\<lfloor>x\<rfloor> = n" by (intro floor_unique) auto
  from assms True have "x - of_int n < 1/2 \<or> (x - of_int n = 1/2 \<and> even n)"
    by (auto simp: abs_if split: if_splits)
  then show ?thesis unfolding round_half_even_def Let_def f by auto
next
  case False
  with assms have "of_int (n - 1) \<le> x" by (auto simp: abs_if split: if_splits)
  with False have f: "\<lfloor>x\<rfloor> = n - 1" by (intro floor_unique) auto
  from assms False have "1/2 < x - of_int (n - 1) \<or> (x - of_int (n - 1) = 1/2 \<and> even n)"
    by (auto simp: abs_if split: if_splits)
  then show ?thesis unfolding round_half_even_def Let_def f by auto
qed

lemma to_double_near:
  assumes "2 powi e \<le> \<bar>x\<bar> \<or> e = - 1022" and "\<bar>x\<bar> < 2 powi (e + 1)"
    and "- 1022 \<le> e" and "e \<le> 1023"
    and "\<bar>x / 2 powi (e - 52) - of_int n\<bar> < 1/2
         \<or> (\<bar>x / 2 powi (e - 52) - of_int n\<bar> = 1/2 \<and> even n)"
    and "c = of_int n * 2 powi (e - 52)" and "\<bar>c\<bar> < 2 ^ 1024"
  shows "to_double x = Finite c"
proof -
  have b: "binade x = e" using assms(1-4) by (rule binade_eq)
  have r: "round_half_even (x / 2 powi (e - 52)) = n" using assms(5) by (rule round_half_even_near)
  have "round_double x = c" by (simp add: round_double_def b r Let_def assms(6))
  with assms(7) show ?thesis by (auto simp: to_double_def Let_def)
qed

lemma to_double_zero: "x = 0 \<Longrightarrow> to_double x = Finite 0"
  by (rule to_double_near [where e = "- 1022" and n = 0]) simp_all

lemma to_double_sqrt:
  assumes "0 < a" and "(2 powi e)\<^sup>2 \<le> a" and "a < (2 powi (e + 1))\<^sup>2"
    and "- 1022 \<le> e" and "e \<le> 1023" and "1 \<le> n"
    and "((of_int n - 1/2) * 2 powi (e - 52))\<^sup>2 < a"
    and "a < ((of_int n + 1/2) * 2 powi (e - 52))\<^sup>2"
    and "c = of_int n * 2 powi (e - 52)" and "\<bar>c\<bar> < 2 ^ 1024"
  shows "to_double (sqrt a) = Finite c"
proof (rule to_double_near [where e = e and n = n])
  let ?u = "(2::real) powi (e - 52)"
  have u: "0 < ?u" by simp
  have s: "0 < sqrt a" using assms(1) by simp
  have "2 powi e \<le> sqrt a" using assms(2) by (rule real_le_rsqrt)
  then show "2 powi e \<le> \<bar>sqrt a\<bar> \<or> e = - 1022" unfolding abs_of_pos [OF s] by (rule disjI1)
  have "sqrt a < 2 powi (e + 1)" using assms(3) by (intro real_less_lsqrt) auto
  then show "\<bar>sqrt a\<bar> < 2 powi (e + 1)" unfolding abs_of_pos [OF s] .
  have lo: "(of_int n - 1/2) * ?u < sqrt a"
    using assms(6,7) u by (intro real_less_rsqrt) auto
  have hi: "sqrt a < (of_int n + 1/2) * ?u"
    using assms(6,8) u by (intro real_less_lsqrt) auto
  from lo u have "of_int n - 1/2 < sqrt a / ?u" by (simp add: pos_less_divide_eq)
  moreover from hi u have "sqrt a / ?u < of_int n + 1/2" by (simp add: pos_divide_less_eq)
  ultimately have "\<bar>sqrt a / ?u - of_int n\<bar> < 1/2" by linarith
  then show "\<bar>sqrt a / ?u - of_int n\<bar> < 1/2
         \<or> (\<bar>sqrt a / ?u - of_int n\<bar> = 1/2 \<and> even n)" by (rule disjI1)
qed (use assms in auto)

lemma double_add_eval: "to_double (a + b) = Finite c \<Longrightarrow> double_add (Finite a) (Finite b) = Finite c"
  by simp

lemma double_mul_eval: "to_double (a * b) = Finite c \<Longrightarrow> double_mul (Finite a) (Finite b) = Finite c"
  by simp

lemma double_div_eval:
  "b \<noteq> 0 \<Longrightarrow> to_double (a / b) = Finite c \<Longrightarrow> double_div (Finite a) (Finite b) = Finite c"
  by simp

lemma double_sqrt_eval:
  "0 < a \<Longrightarrow> to_double (sqrt a) = Finite c \<Longrightarrow> double_sqrt (Finite a) = Finite c"
  by simp

lemma double_pow2_eval: "to_double (a * a) = Finite c \<Longrightarrow> double_pow2 (Finite a) = Inr (Finite c)"
  by simp

subsection \<open>Triangle inequalities of the primitive formulas\<close>

text \<open>
  The cylinder about Z of mass \<^verbatim>\<open>0.1\<close>, radius \<^verbatim>\<open>0.07\<close> and height \<^verbatim>\<open>1e-12\<close>,
  operation by operation on doubles.
\<close>

lemma cz_step_1: "to_double 0.1 = Finite (3602879701896397 / 2 ^ 55)"
  by (rule to_double_near [where e = "- 4" and n = "7205759403792794"])
    (simp_all add: power_int_minus)

lemma cz_step_2: "to_double 0.07 = Finite (1261007895663739 / 2 ^ 54)"
  by (rule to_double_near [where e = "- 4" and n = "5044031582654956"])
    (simp_all add: power_int_minus)

lemma cz_step_3: "to_double (1 / 10 ^ 12) = Finite (4951760157141521 / 2 ^ 92)"
  by (rule to_double_near [where e = "- 40" and n = "4951760157141521"])
    (simp_all add: power_int_minus)

lemma cz_step_4: "to_double (1 / 12) = Finite (6004799503160661 / 2 ^ 56)"
  by (rule to_double_near [where e = "- 4" and n = "6004799503160661"])
    (simp_all add: power_int_minus)

lemma cz_step_5:
  "double_pow2 (Finite (1261007895663739 / 2 ^ 54))
   = Inr (Finite (5649315372573551 / 2 ^ 60))"
  by (rule double_pow2_eval, rule to_double_near [where e = "- 8" and n = "5649315372573551"])
    (simp_all add: power_int_minus)

lemma cz_step_6:
  "double_pow2 (Finite (4951760157141521 / 2 ^ 92))
   = Inr (Finite (5444517870735015 / 2 ^ 132))"
  by (rule double_pow2_eval, rule to_double_near [where e = "- 80" and n = "5444517870735015"])
    (simp_all add: power_int_minus)

lemma cz_step_7:
  "double_mul (Finite (6004799503160661 / 2 ^ 56))
     (Finite (3602879701896397 / 2 ^ 55))
   = Finite (4803839602528529 / 2 ^ 59)"
  by (rule double_mul_eval, rule to_double_near [where e = "- 7" and n = "4803839602528529"])
    (simp_all add: power_int_minus)

lemma cz_step_8:
  "double_mul (Finite 3)
     (Finite (5649315372573551 / 2 ^ 60))
   = Finite (4236986529430163 / 2 ^ 58)"
  by (rule double_mul_eval, rule to_double_near [where e = "- 7" and n = "8473973058860326"])
    (simp_all add: power_int_minus)

lemma cz_step_9:
  "double_add (Finite (4236986529430163 / 2 ^ 58))
     (Finite (5444517870735015 / 2 ^ 132))
   = Finite (4236986529430163 / 2 ^ 58)"
  by (rule double_add_eval, rule to_double_near [where e = "- 7" and n = "8473973058860326"])
    (simp_all add: power_int_minus)

lemma cz_step_10:
  "double_mul (Finite (4803839602528529 / 2 ^ 59))
     (Finite (4236986529430163 / 2 ^ 58))
   = Finite (564931537257355 / 2 ^ 62)"
  by (rule double_mul_eval, rule to_double_near [where e = "- 13" and n = "4519452298058840"])
    (simp_all add: power_int_minus)

lemma cz_step_11:
  "double_mul (Finite (1 / 2))
     (Finite (3602879701896397 / 2 ^ 55))
   = Finite (3602879701896397 / 2 ^ 56)"
  by (rule double_mul_eval, rule to_double_near [where e = "- 5" and n = "7205759403792794"])
    (simp_all add: power_int_minus)

lemma cz_step_12:
  "double_mul (Finite (3602879701896397 / 2 ^ 56))
     (Finite (5649315372573551 / 2 ^ 60))
   = Finite (4519452298058841 / 2 ^ 64)"
  by (rule double_mul_eval, rule to_double_near [where e = "- 12" and n = "4519452298058841"])
    (simp_all add: power_int_minus)

lemma cz_step_13:
  "double_add (Finite (564931537257355 / 2 ^ 62))
     (Finite (564931537257355 / 2 ^ 62))
   = Finite (564931537257355 / 2 ^ 61)"
  by (rule double_add_eval, rule to_double_near [where e = "- 12" and n = "4519452298058840"])
    (simp_all add: power_int_minus)

lemma cz_step_14:
  "double_add (Finite (564931537257355 / 2 ^ 62))
     (Finite (4519452298058841 / 2 ^ 64))
   = Finite (6779178447088261 / 2 ^ 64)"
  by (rule double_add_eval, rule to_double_near [where e = "- 12" and n = "6779178447088261"])
    (simp_all add: power_int_minus)

lemma cz_step_15:
  "double_add (Finite (4519452298058841 / 2 ^ 64))
     (Finite (564931537257355 / 2 ^ 62))
   = Finite (6779178447088261 / 2 ^ 64)"
  by (rule double_add_eval, rule to_double_near [where e = "- 12" and n = "6779178447088261"])
    (simp_all add: power_int_minus)

lemmas cz_steps =
  cz_step_1 cz_step_2 cz_step_3 cz_step_4 cz_step_5 cz_step_6 cz_step_7 cz_step_8
  cz_step_9 cz_step_10 cz_step_11 cz_step_12 cz_step_13 cz_step_14 cz_step_15

lemma cylinder_z_doubles:
  "double_inertia_cylinder_z (Finite (3602879701896397 / 2 ^ 55)) (Finite (1261007895663739 / 2 ^ 54))
       (Finite (4951760157141521 / 2 ^ 92))
     = Inr (Finite (564931537257355 / 2 ^ 62),
            Finite (564931537257355 / 2 ^ 62),
            Finite (4519452298058841 / 2 ^ 64))"
  by (simp only: double_inertia_cylinder_z_def sum.case Let_def cz_steps)

text \<open>
  Claim C8, as stated: for positive mass and positive dimensions the moments each
  primitive calculator returns satisfy the three triangle inequalities exactly. It
  fails on the doubles the code computes: for the cylinder about Z of mass \<^verbatim>\<open>0.1\<close>,
  radius \<^verbatim>\<open>0.07\<close> and height \<^verbatim>\<open>1e-12\<close> the calculator returns
  \<open>Ixx = Iyy = 0.0001225\<close> and \<open>Izz = 0.00024500000000000005\<close>, and \<open>Ixx + Iyy\<close>, which
  is \<open>0.000245\<close>, is one unit in the last place below \<open>Izz\<close>.
\<close>

theorem cylinder_z_misses_triangle_inequality:
  "to_double 0.1 = Finite (3602879701896397 / 2 ^ 55)
   \<and> to_double 0.07 = Finite (1261007895663739 / 2 ^ 54)
   \<and> to_double (1 / 10 ^ 12) = Finite (4951760157141521 / 2 ^ 92)
   \<and> double_inertia_cylinder_z (to_double 0.1) (to_double 0.07) (to_double (1 / 10 ^ 12))
        = Inr (Finite (564931537257355 / 2 ^ 62),
               Finite (564931537257355 / 2 ^ 62),
               Finite (4519452298058841 / 2 ^ 64))
   \<and> double_add (Finite (564931537257355 / 2 ^ 62)) (Finite (564931537257355 / 2 ^ 62))
        = Finite (564931537257355 / 2 ^ 61)
   \<and> \<not> double_triangle_ok
          (Finite (564931537257355 / 2 ^ 62),
           Finite (564931537257355 / 2 ^ 62),
           Finite (4519452298058841 / 2 ^ 64))"
proof -
  have lt: "\<not> double_ge (Finite (564931537257355 / 2 ^ 61))
                (Finite (4519452298058841 / 2 ^ 64))"
    by simp
  show ?thesis
    unfolding cz_step_1 cz_step_2 cz_step_3 cylinder_z_doubles double_triangle_ok_def prod.case
      cz_step_13 cz_step_14 cz_step_15
    using lt by simp
qed

text \<open>
  Claim C8, amended. For positive mass and positive dimensions the closed forms of the
  four primitives, taken in exact arithmetic, satisfy the three triangle inequalities:
  the sum of any two moments is at least the third. The doubles the calculators return
  are roundings of these values, and a sum of two of them can fall below the third by a
  rounding error.
\<close>

theorem primitive_triangle_inequalities:
  assumes "0 < m" and "0 < lx" and "0 < ly" and "0 < lz" and "0 < r" and "0 < h"
  shows "triangle_ok (inertia_box m lx ly lz)
       \<and> triangle_ok (inertia_cylinder_z m r h)
       \<and> triangle_ok (inertia_cylinder_y m r h)
       \<and> triangle_ok (inertia_sphere m r)"
proof -
  have sq: "0 \<le> m * lx\<^sup>2" "0 \<le> m * ly\<^sup>2" "0 \<le> m * lz\<^sup>2" "0 \<le> m * r\<^sup>2" "0 \<le> m * h\<^sup>2"
    using assms by simp_all
  have box: "triangle_ok (inertia_box m lx ly lz)"
    using sq by (simp add: triangle_ok_def inertia_box_def Let_def algebra_simps)
  have cz: "triangle_ok (inertia_cylinder_z m r h)"
    using sq by (simp add: triangle_ok_def inertia_cylinder_z_def Let_def algebra_simps)
  have cy: "triangle_ok (inertia_cylinder_y m r h)"
    using sq by (simp add: triangle_ok_def inertia_cylinder_y_def Let_def algebra_simps)
  have sp: "triangle_ok (inertia_sphere m r)"
    using sq by (simp add: triangle_ok_def inertia_sphere_def Let_def algebra_simps)
  from box cz cy sp show ?thesis by (intro conjI)
qed

theorem primitive_triangle_inequalities_witness:
  "triangle_ok (inertia_box (3602879701896397 / 2 ^ 55) 1 2 3)
   \<and> triangle_ok (inertia_cylinder_z (3602879701896397 / 2 ^ 55)
         (1261007895663739 / 2 ^ 54) (4951760157141521 / 2 ^ 92))
   \<and> triangle_ok (inertia_cylinder_y (3602879701896397 / 2 ^ 55)
         (1261007895663739 / 2 ^ 54) (4951760157141521 / 2 ^ 92))
   \<and> triangle_ok (inertia_sphere (3602879701896397 / 2 ^ 55) (1261007895663739 / 2 ^ 54))"
  using primitive_triangle_inequalities [of "3602879701896397 / 2 ^ 55" 1 2 3
      "1261007895663739 / 2 ^ 54" "4951760157141521 / 2 ^ 92"]
  by simp

subsection \<open>Unknown shapes\<close>

lemma ex_Inr_iff: "(\<exists>r. x = Inr r) \<longleftrightarrow> \<not> isl x"
  by (cases x) auto

lemma pow_overflows_small: "\<bar>x\<bar> \<le> 1 \<Longrightarrow> \<not> pow_overflows x"
proof -
  assume "\<bar>x\<bar> \<le> 1"
  then have "x\<^sup>2 \<le> 1\<^sup>2" by (simp only: abs_le_square_iff [symmetric] abs_one)
  moreover have "(1::real) < 2 ^ 1024 - 2 ^ 970" by simp
  ultimately show ?thesis by (simp add: pow_overflows_def)
qed

lemma norm_is_zero_large: "1 / 2 ^ 500 \<le> \<bar>w\<bar> \<Longrightarrow> \<not> norm_is_zero (x, y, z, w)"
proof -
  assume a: "1 / 2 ^ 500 \<le> \<bar>w\<bar>"
  have "\<bar>1 / 2 ^ 500 :: real\<bar> \<le> \<bar>w\<bar>" using a by simp
  then have "(1 / 2 ^ 500)\<^sup>2 \<le> w\<^sup>2" by (simp only: abs_le_square_iff)
  moreover have "(1 / 2 ^ 1075 :: real) < (1 / 2 ^ 500)\<^sup>2" by (simp add: power_divide)
  ultimately show ?thesis by (simp add: norm_is_zero_def rounds_to_zero_def)
qed

lemma norm4_zero_iff: "norm4 (x, y, z, w) = 0 \<longleftrightarrow> x = 0 \<and> y = 0 \<and> z = 0 \<and> w = 0"
proof -
  have nn: "0 \<le> x\<^sup>2" "0 \<le> y\<^sup>2" "0 \<le> z\<^sup>2" "0 \<le> w\<^sup>2" by simp_all
  have "x\<^sup>2 + y\<^sup>2 + z\<^sup>2 + w\<^sup>2 = 0 \<longleftrightarrow> x = 0 \<and> y = 0 \<and> z = 0 \<and> w = 0"
    using nn by (smt (verit) power2_eq_iff_nonneg zero_eq_power2)
  then show ?thesis by (simp add: norm4_def)
qed

lemma length4: "length q = 4 \<Longrightarrow> \<exists>w x y z. q = [w, x, y, z]"
  by (cases q; simp; rename_tac a q1; case_tac q1; simp; rename_tac b q2; case_tac q2; simp;
      rename_tac c q3; case_tac q3; simp)

lemma quat_to_rotation_matrix_returns:
  "\<not> isl (quat_to_rotation_matrix q)
   \<longleftrightarrow> length q = 4 \<and> \<not> norm_is_zero (q ! 1, q ! 2, q ! 3, q ! 0)"
proof (cases "length q = 4")
  case True
  then obtain w x y z where q: "q = [w, x, y, z]" using length4 by blast
  show ?thesis
    by (simp add: q quat_to_rotation_matrix_def from_quat_def Let_def)
next
  case False
  then have "quat_to_rotation_matrix q = Inl UnpackError"
    by (auto simp: quat_to_rotation_matrix_def split: list.splits)
  with False show ?thesis by simp
qed

lemma rotate_inertia_returns:
  "\<not> isl (rotate_inertia d q)
   \<longleftrightarrow> length q = 4 \<and> \<not> norm_is_zero (q ! 1, q ! 2, q ! 3, q ! 0)"
proof -
  have "\<not> isl (rotate_inertia d q) \<longleftrightarrow> \<not> isl (quat_to_rotation_matrix q)"
    by (cases "quat_to_rotation_matrix q") (simp_all add: rotate_inertia_def)
  then show ?thesis by (simp add: quat_to_rotation_matrix_returns)
qed

lemma rotate_never_unknown: "rotate_inertia d q \<noteq> Inl (UnknownShape s)"
  by (auto simp: rotate_inertia_def quat_to_rotation_matrix_def from_quat_def Let_def
      split: list.splits sum.splits if_splits)

lemma take3_nth: "3 \<le> length d \<Longrightarrow> take 3 d = [d ! 0, d ! 1, d ! 2]"
  by (cases d; simp; rename_tac a d1; case_tac d1; simp; rename_tac b d2; case_tac d2; simp)

lemma take2_nth: "2 \<le> length d \<Longrightarrow> take 2 d = [d ! 0, d ! 1]"
  by (cases d; simp; rename_tac a d1; case_tac d1; simp)

lemma take1_nth: "1 \<le> length d \<Longrightarrow> take 1 d = [d ! 0]"
  by (cases d; simp)

lemma take1_nth_Suc: "Suc 0 \<le> length d \<Longrightarrow> take (Suc 0) d = [d ! 0]"
  by (cases d; simp)

lemma shape_diag_unknown:
  "(\<exists>s. shape_diag link = Inl (UnknownShape s)) \<longleftrightarrow> shape link \<notin> supported_shapes"
  by (auto simp: shape_diag_def supported_shapes_def index_def Let_def
      split: sum.splits if_splits)

lemma shape_diag_unknown_eq:
  "shape link \<notin> supported_shapes \<Longrightarrow> shape_diag link = Inl (UnknownShape (shape link))"
  by (auto simp: shape_diag_def supported_shapes_def Let_def)

lemma shape_diag_returns:
  assumes "shape link \<in> supported_shapes"
  shows "\<not> isl (shape_diag link)
     \<longleftrightarrow> required_dims (shape link) \<le> length (dims link)
         \<and> list_all (\<lambda>d. \<not> pow_overflows d) (take (required_dims (shape link)) (dims link))"
proof -
  from assms consider (box) "shape link = ''box''" | (cz) "shape link = ''cylinder_z''"
    | (cy) "shape link = ''cylinder_y''" | (sp) "shape link = ''sphere''"
    by (auto simp: supported_shapes_def)
  then show ?thesis
  proof cases
    case box
    show ?thesis
    proof (cases "3 \<le> length (dims link)")
      case True
      then show ?thesis
        by (auto simp: shape_diag_def box required_dims_def index_def take3_nth Let_def)
    next
      case False
      then show ?thesis
        by (simp add: shape_diag_def box required_dims_def index_def Let_def)
    qed
  next
    case cz
    show ?thesis
    proof (cases "2 \<le> length (dims link)")
      case True
      then show ?thesis
        by (auto simp: shape_diag_def cz required_dims_def index_def take2_nth Let_def)
    next
      case False
      then show ?thesis
        by (simp add: shape_diag_def cz required_dims_def index_def Let_def)
    qed
  next
    case cy
    show ?thesis
    proof (cases "2 \<le> length (dims link)")
      case True
      then show ?thesis
        by (auto simp: shape_diag_def cy required_dims_def index_def take2_nth Let_def)
    next
      case False
      then show ?thesis
        by (simp add: shape_diag_def cy required_dims_def index_def Let_def)
    qed
  next
    case sp
    show ?thesis
    proof (cases "1 \<le> length (dims link)")
      case True
      then show ?thesis
        by (auto simp: shape_diag_def sp required_dims_def index_def take1_nth_Suc Let_def)
    next
      case False
      then show ?thesis
        by (cases "dims link") (simp_all add: shape_diag_def sp required_dims_def index_def Let_def)
    qed
  qed
qed

lemma calc_unknown:
  "(\<exists>s. calculate_inertia link = Inl (UnknownShape s)) \<longleftrightarrow> shape link \<notin> supported_shapes"
proof
  assume "\<exists>s. calculate_inertia link = Inl (UnknownShape s)"
  then obtain s where s: "calculate_inertia link = Inl (UnknownShape s)" by blast
  have "shape_diag link = Inl (UnknownShape s)"
  proof (cases "shape_diag link")
    case (Inl e)
    with s show ?thesis by (simp add: calculate_inertia_def)
  next
    case (Inr d)
    with s rotate_never_unknown show ?thesis
      by (auto simp: calculate_inertia_def split: prod.splits option.splits sum.splits)
  qed
  then show "shape link \<notin> supported_shapes" using shape_diag_unknown by blast
next
  assume "shape link \<notin> supported_shapes"
  then have "shape_diag link = Inl (UnknownShape (shape link))"
    by (rule shape_diag_unknown_eq)
  then show "\<exists>s. calculate_inertia link = Inl (UnknownShape s)"
    by (simp add: calculate_inertia_def)
qed

lemma calc_returns_iff:
  assumes "shape link \<in> supported_shapes"
  shows "\<not> isl (calculate_inertia link) \<longleftrightarrow> well_formed link"
proof (cases "shape_diag link")
  case (Inl e)
  then have "isl (shape_diag link)" by simp
  with shape_diag_returns [OF assms] have "\<not> well_formed link"
    by (auto simp: well_formed_def)
  with Inl show ?thesis by (simp add: calculate_inertia_def)
next
  case (Inr d)
  then have "\<not> isl (shape_diag link)" by simp
  then have sd: "required_dims (shape link) \<le> length (dims link)
         \<and> list_all (\<lambda>d. \<not> pow_overflows d) (take (required_dims (shape link)) (dims link))"
    using shape_diag_returns [OF assms] by blast
  obtain d0 d1 d2 where dd: "d = (d0, d1, d2)" by (cases d) auto
  show ?thesis
  proof (cases "quat link")
    case None
    with Inr dd sd show ?thesis by (simp add: calculate_inertia_def well_formed_def)
  next
    case (Some q)
    have "\<not> isl (calculate_inertia link) \<longleftrightarrow> \<not> isl (rotate_inertia d q)"
      by (cases "rotate_inertia d q") (simp_all add: calculate_inertia_def Inr dd Some)
    with sd Some show ?thesis
      by (simp add: rotate_inertia_returns well_formed_def)
  qed
qed

lemma calc_returns:
  assumes "well_formed link" and "shape link \<in> supported_shapes"
  shows "\<exists>r. calculate_inertia link = Inr r"
  using assms calc_returns_iff [of link] unfolding ex_Inr_iff by blast

lemma shape_diag_reads:
  assumes "mass l' = mass l" "shape l' = shape l" "dims l' = dims l"
  shows "shape_diag l' = shape_diag l"
  using assms by (simp add: shape_diag_def)

lemma calculate_inertia_reads:
  assumes "mass l' = mass l" "shape l' = shape l" "dims l' = dims l" "quat l' = quat l"
  shows "calculate_inertia l' = calculate_inertia l"
  unfolding calculate_inertia_def shape_diag_reads [OF assms(1-3)] assms(4) ..

text \<open>
  Claim C7, as stated: \<^verbatim>\<open>calculate_inertia\<close> fails with the unknown-shape error
  exactly when the shape is not one of the four, returns normally for every shape
  among the four, has no side effect and is deterministic. The middle part fails on a
  box whose entry has two dimensions only: the shape is supported and the call raises
  \<^verbatim>\<open>IndexError\<close>.
\<close>

theorem calculate_inertia_short_dims:
  "shape short_box \<in> supported_shapes \<and> calculate_inertia short_box = Inl IndexError"
  by (simp add: short_box_def supported_shapes_def calculate_inertia_def shape_diag_def
      index_def)

text \<open>
  Claim C7, amended. \<^verbatim>\<open>calculate_inertia\<close> raises the unknown-shape
  \<^verbatim>\<open>ValueError\<close>, which names the shape, exactly when the shape is not one of
  \<^verbatim>\<open>box\<close>, \<^verbatim>\<open>cylinder_y\<close>, \<^verbatim>\<open>cylinder_z\<close>, \<^verbatim>\<open>sphere\<close>. For a shape among the
  four it returns exactly when the entry has the dimensions the shape reads, each with
  a square in the range of a double, and its quaternion, if it has one, has four
  components and a norm that does not round to zero; on the other entries it raises
  another exception. The result is a function of the mass, the shape, the dimensions
  and the quaternion of the entry alone: the call reads nothing else and writes
  nothing.
\<close>

theorem calculate_inertia_unsupported_shape:
  "((\<exists>s. calculate_inertia link = Inl (UnknownShape s)) \<longleftrightarrow> shape link \<notin> supported_shapes)
   \<and> (shape link \<notin> supported_shapes \<longrightarrow>
        calculate_inertia link = Inl (UnknownShape (shape link)))
   \<and> (shape link \<in> supported_shapes \<longrightarrow>
        ((\<exists>r. calculate_inertia link = Inr r) \<longleftrightarrow> well_formed link))
   \<and> (mass link' = mass link \<and> shape link' = shape link \<and> dims link' = dims link
        \<and> quat link' = quat link \<longrightarrow> calculate_inertia link' = calculate_inertia link)"
proof (intro conjI impI)
  show "(\<exists>s. calculate_inertia link = Inl (UnknownShape s)) \<longleftrightarrow> shape link \<notin> supported_shapes"
    by (rule calc_unknown)
next
  assume "shape link \<notin> supported_shapes"
  then show "calculate_inertia link = Inl (UnknownShape (shape link))"
    by (simp add: calculate_inertia_def shape_diag_unknown_eq)
next
  assume "shape link \<in> supported_shapes"
  then show "(\<exists>r. calculate_inertia link = Inr r) \<longleftrightarrow> well_formed link"
    unfolding ex_Inr_iff by (rule calc_returns_iff)
next
  assume "mass link' = mass link \<and> shape link' = shape link \<and> dims link' = dims link
        \<and> quat link' = quat link"
  then show "calculate_inertia link' = calculate_inertia link"
    using calculate_inertia_reads by blast
qed

theorem calculate_inertia_unsupported_shape_witness:
  "shape cone_link \<notin> supported_shapes
   \<and> calculate_inertia cone_link = Inl (UnknownShape ''cone'')
   \<and> shape neck_pitch_link \<in> supported_shapes \<and> well_formed neck_pitch_link
   \<and> (\<exists>r. calculate_inertia neck_pitch_link = Inr r)
   \<and> shape (short_box\<lparr>dims := [10 ^ 200, 1, 1]\<rparr>) \<in> supported_shapes
   \<and> \<not> well_formed (short_box\<lparr>dims := [10 ^ 200, 1, 1]\<rparr>)
   \<and> \<not> (\<exists>r. calculate_inertia (short_box\<lparr>dims := [10 ^ 200, 1, 1]\<rparr>) = Inr r)
   \<and> calculate_inertia (pelvis\<lparr>com := [0, 0, 0]\<rparr>) = calculate_inertia pelvis"
proof -
  have c: "shape cone_link \<notin> supported_shapes"
    by (simp add: cone_link_def supported_shapes_def)
  have n: "shape neck_pitch_link \<in> supported_shapes"
    by (simp add: neck_pitch_link_def supported_shapes_def)
  have nw: "well_formed neck_pitch_link"
    by (simp add: neck_pitch_link_def well_formed_def required_dims_def pow_overflows_small
        norm_is_zero_large)
  have h: "shape (short_box\<lparr>dims := [10 ^ 200, 1, 1]\<rparr>) \<in> supported_shapes"
    by (simp add: short_box_def supported_shapes_def)
  have "pow_overflows (10 ^ 200)"
    by (simp add: pow_overflows_def)
  then have hw: "\<not> well_formed (short_box\<lparr>dims := [10 ^ 200, 1, 1]\<rparr>)"
    by (simp add: short_box_def well_formed_def required_dims_def)
  have p: "mass (pelvis\<lparr>com := [0, 0, 0]\<rparr>) = mass pelvis
     \<and> shape (pelvis\<lparr>com := [0, 0, 0]\<rparr>) = shape pelvis
     \<and> dims (pelvis\<lparr>com := [0, 0, 0]\<rparr>) = dims pelvis
     \<and> quat (pelvis\<lparr>com := [0, 0, 0]\<rparr>) = quat pelvis"
    by simp
  have "calculate_inertia cone_link = Inl (UnknownShape (shape cone_link))"
    using c calculate_inertia_unsupported_shape [of cone_link] by blast
  then have c': "calculate_inertia cone_link = Inl (UnknownShape ''cone'')"
    by (simp add: cone_link_def)
  have n': "\<exists>r. calculate_inertia neck_pitch_link = Inr r"
    using n nw calculate_inertia_unsupported_shape [of neck_pitch_link] by blast
  have h': "\<not> (\<exists>r. calculate_inertia (short_box\<lparr>dims := [10 ^ 200, 1, 1]\<rparr>) = Inr r)"
    using h hw calculate_inertia_unsupported_shape [of "short_box\<lparr>dims := [10 ^ 200, 1, 1]\<rparr>"]
    by blast
  have p': "calculate_inertia (pelvis\<lparr>com := [0, 0, 0]\<rparr>) = calculate_inertia pelvis"
    using p calculate_inertia_unsupported_shape [of pelvis "pelvis\<lparr>com := [0, 0, 0]\<rparr>"]
    by blast
  from c c' n nw n' h hw h' p' show ?thesis by (intro conjI)
qed

subsection \<open>Rotation of a diagonal tensor\<close>

lemma similarity_symmetric: "symmetric3 (matmul (matmul R (np_diag d)) (transpose3 R))"
  by (cases R rule: prod_cases3; cases d rule: prod_cases3)
     (auto simp: symmetric3_def matmul_def np_diag_def transpose3_def dot3_def algebra_simps)

lemma similarity_trace:
  "trace3 (matmul (matmul ((r00, r01, r02), (r10, r11, r12), (r20, r21, r22)) (np_diag (a, b, c)))
       (transpose3 ((r00, r01, r02), (r10, r11, r12), (r20, r21, r22))))
   = a * (r00\<^sup>2 + r10\<^sup>2 + r20\<^sup>2) + b * (r01\<^sup>2 + r11\<^sup>2 + r21\<^sup>2)
     + c * (r02\<^sup>2 + r12\<^sup>2 + r22\<^sup>2)"
  by (simp add: trace3_def matmul_def np_diag_def transpose3_def dot3_def power2_eq_square
      algebra_simps)

lemma as_matrix_columns:
  assumes "w\<^sup>2 + x\<^sup>2 + y\<^sup>2 + z\<^sup>2 = (1::real)"
  shows "(x\<^sup>2 - y\<^sup>2 - z\<^sup>2 + w\<^sup>2)\<^sup>2 + (2 * (x * y + z * w))\<^sup>2 + (2 * (x * z - y * w))\<^sup>2 = 1"
    and "(2 * (x * y - z * w))\<^sup>2 + (- x\<^sup>2 + y\<^sup>2 - z\<^sup>2 + w\<^sup>2)\<^sup>2 + (2 * (y * z + x * w))\<^sup>2 = 1"
    and "(2 * (x * z + y * w))\<^sup>2 + (2 * (y * z - x * w))\<^sup>2 + (- x\<^sup>2 - y\<^sup>2 + z\<^sup>2 + w\<^sup>2)\<^sup>2 = 1"
proof -
  have e: "(w\<^sup>2 + x\<^sup>2 + y\<^sup>2 + z\<^sup>2)\<^sup>2 = 1" using assms by simp
  show "(x\<^sup>2 - y\<^sup>2 - z\<^sup>2 + w\<^sup>2)\<^sup>2 + (2 * (x * y + z * w))\<^sup>2 + (2 * (x * z - y * w))\<^sup>2 = 1"
    using e by (simp add: power2_eq_square algebra_simps)
  show "(2 * (x * y - z * w))\<^sup>2 + (- x\<^sup>2 + y\<^sup>2 - z\<^sup>2 + w\<^sup>2)\<^sup>2 + (2 * (y * z + x * w))\<^sup>2 = 1"
    using e by (simp add: power2_eq_square algebra_simps)
  show "(2 * (x * z + y * w))\<^sup>2 + (2 * (y * z - x * w))\<^sup>2 + (- x\<^sup>2 - y\<^sup>2 + z\<^sup>2 + w\<^sup>2)\<^sup>2 = 1"
    using e by (simp add: power2_eq_square algebra_simps)
qed

lemma unit_norm_not_zero:
  assumes "w\<^sup>2 + x\<^sup>2 + y\<^sup>2 + z\<^sup>2 = (1::real)"
  shows "\<not> norm_is_zero (x, y, z, w)"
proof
  assume "norm_is_zero (x, y, z, w)"
  then have "x\<^sup>2 \<le> 1 / 2 ^ 1075" "y\<^sup>2 \<le> 1 / 2 ^ 1075" "z\<^sup>2 \<le> 1 / 2 ^ 1075" "w\<^sup>2 \<le> 1 / 2 ^ 1075"
    by (simp_all add: norm_is_zero_def rounds_to_zero_def)
  then have "w\<^sup>2 + x\<^sup>2 + y\<^sup>2 + z\<^sup>2 \<le> 4 * (1 / 2 ^ 1075)" by linarith
  moreover have "4 * (1 / 2 ^ 1075) < (1::real)" by simp
  ultimately show False using assms by linarith
qed

lemma from_quat_unit:
  assumes "w\<^sup>2 + x\<^sup>2 + y\<^sup>2 + z\<^sup>2 = (1::real)"
  shows "from_quat (x, y, z, w) = Inr (x, y, z, w)"
proof -
  have "x\<^sup>2 + y\<^sup>2 + z\<^sup>2 + w\<^sup>2 = 1" using assms by simp
  then have "norm4 (x, y, z, w) = 1" by (simp add: norm4_def)
  then show ?thesis using unit_norm_not_zero [OF assms] by (simp add: from_quat_def)
qed

text \<open>
  Claim C6. For principal moments \<open>(a, b, c)\<close> and a unit quaternion \<open>[w, x, y, z]\<close>,
  \<^verbatim>\<open>rotate_inertia\<close> returns \<open>R diag(a, b, c) R\<^sup>T\<close> with \<open>R\<close> the rotation matrix of
  the quaternion, and the trace of that tensor is \<open>a + b + c\<close>.
\<close>

theorem rotate_inertia_similarity_trace:
  assumes "w\<^sup>2 + x\<^sup>2 + y\<^sup>2 + z\<^sup>2 = 1"
  shows "rotate_inertia (a, b, c) [w, x, y, z] =
           Inr (matmul (matmul (as_matrix (x, y, z, w)) (np_diag (a, b, c)))
                  (transpose3 (as_matrix (x, y, z, w))))
       \<and> trace3 (matmul (matmul (as_matrix (x, y, z, w)) (np_diag (a, b, c)))
                  (transpose3 (as_matrix (x, y, z, w)))) = a + b + c"
proof -
  have r: "rotate_inertia (a, b, c) [w, x, y, z] =
           Inr (matmul (matmul (as_matrix (x, y, z, w)) (np_diag (a, b, c)))
                  (transpose3 (as_matrix (x, y, z, w))))"
    using from_quat_unit [OF assms]
    by (simp add: rotate_inertia_def quat_to_rotation_matrix_def)
  have t: "trace3 (matmul (matmul (as_matrix (x, y, z, w)) (np_diag (a, b, c)))
                  (transpose3 (as_matrix (x, y, z, w)))) = a + b + c"
    unfolding as_matrix_def prod.case similarity_trace
    using as_matrix_columns [OF assms] by simp
  from r t show ?thesis by simp
qed

theorem rotate_inertia_similarity_trace_witness:
  "(0.6::real)\<^sup>2 + 0.8\<^sup>2 + 0\<^sup>2 + 0\<^sup>2 = 1
   \<and> rotate_inertia (1, 2, 3) [0.6, 0.8, 0, 0] =
       Inr ((1, 0, 0), (0, 2.9216, 0.2688), (0, 0.2688, 2.0784))
   \<and> trace3 ((1, 0, 0), (0, 2.9216, 0.2688), (0, 0.2688, 2.0784)) = 1 + 2 + 3"
proof -
  have h: "(0.6::real)\<^sup>2 + 0.8\<^sup>2 + 0\<^sup>2 + 0\<^sup>2 = 1" by (simp add: power2_eq_square)
  have m: "matmul (matmul (as_matrix (0.8, 0, 0, 0.6)) (np_diag (1, 2, 3)))
                  (transpose3 (as_matrix (0.8, 0, 0, 0.6)))
           = ((1, 0, 0), (0, 2.9216, 0.2688), (0, 0.2688, 2.0784))"
    by (simp add: as_matrix_def matmul_def np_diag_def transpose3_def dot3_def power2_eq_square)
  note t = rotate_inertia_similarity_trace [OF h, of 1 2 3, unfolded m]
  from conjI [OF h t] show ?thesis .
qed

lemma symmetric3_entries:
  "symmetric3 ((a00, a01, a02), (a10, a11, a12), (a20, a21, a22))
   \<longleftrightarrow> a01 = a10 \<and> a02 = a20 \<and> a12 = a21"
  unfolding symmetric3_def transpose3_def by auto

lemma urdf_keeps_symmetric:
  assumes "symmetric3 T"
  shows "(case inertia_tensor_to_urdf T of (ixx, ixy, ixz, iyy, iyz, izz) \<Rightarrow>
              T = ((ixx, ixy, ixz), (ixy, iyy, iyz), (ixz, iyz, izz)))"
proof -
  obtain a00 a01 a02 a10 a11 a12 a20 a21 a22
    where T: "T = ((a00, a01, a02), (a10, a11, a12), (a20, a21, a22))"
    by (metis prod_cases3)
  from assms have "a01 = a10 \<and> a02 = a20 \<and> a12 = a21"
    unfolding T symmetric3_entries .
  then show ?thesis
    unfolding T by (simp add: inertia_tensor_to_urdf_def)
qed

lemma rotate_result_symmetric:
  assumes "rotate_inertia d q = Inr T"
  shows "symmetric3 T"
proof -
  from assms obtain R where "T = matmul (matmul R (np_diag d)) (transpose3 R)"
    by (auto simp: rotate_inertia_def Let_def split: sum.splits)
  then show ?thesis by (simp add: similarity_symmetric)
qed

text \<open>
  The tensor of the moments \<open>(1, 3, 4)\<close> under the quaternion \<open>[1, 4, 0, 0]\<close>,
  operation by operation on doubles. Every sum of the two matrix products has at most
  two terms that are not zero, so the order of the summation does not matter.
\<close>

lemma rot_step_1: "double_mul (Finite 4) (Finite 4) = Finite 16"
  by (rule double_mul_eval, rule to_double_near [where e = "4" and n = "4503599627370496"])
    (simp_all add: power_int_minus)

lemma rot_step_2: "double_mul (Finite 0) (Finite 0) = Finite 0"
  by (rule double_mul_eval, rule to_double_zero) simp

lemma rot_step_3: "double_add (Finite 16) (Finite 0) = Finite 16"
  by (rule double_add_eval, rule to_double_near [where e = "4" and n = "4503599627370496"])
    (simp_all add: power_int_minus)

lemma rot_step_4: "double_mul (Finite 1) (Finite 1) = Finite 1"
  by (rule double_mul_eval, rule to_double_near [where e = "0" and n = "4503599627370496"])
    (simp_all add: power_int_minus)

lemma rot_step_5: "double_add (Finite 16) (Finite 1) = Finite 17"
  by (rule double_add_eval, rule to_double_near [where e = "4" and n = "4785074604081152"])
    (simp_all add: power_int_minus)

lemma rot_step_6: "double_sqrt (Finite 17) = Finite (4642204239785223 / 2 ^ 50)"
  by (rule double_sqrt_eval, simp, rule to_double_sqrt [where e = "2" and n = "4642204239785223"])
    (simp_all add: power_int_minus power2_eq_square)

lemma rot_step_7:
  "double_div (Finite 4)
     (Finite (4642204239785223 / 2 ^ 50))
   = Finite (2184566701075399 / 2 ^ 51)"
  by (rule double_div_eval, simp, rule to_double_near [where e = "- 1" and n = "8738266804301596"])
    (simp_all add: power_int_minus)

lemma rot_step_8: "double_div (Finite 0) (Finite (4642204239785223 / 2 ^ 50)) = Finite 0"
  by (rule double_div_eval, simp, rule to_double_zero) simp

lemma rot_step_9:
  "double_div (Finite 1)
     (Finite (4642204239785223 / 2 ^ 50))
   = Finite (2184566701075399 / 2 ^ 53)"
  by (rule double_div_eval, simp, rule to_double_near [where e = "- 3" and n = "8738266804301596"])
    (simp_all add: power_int_minus)

lemma rot_step_10:
  "double_mul (Finite (2184566701075399 / 2 ^ 51))
     (Finite (2184566701075399 / 2 ^ 51))
   = Finite (4238682002231055 / 2 ^ 52)"
  by (rule double_mul_eval, rule to_double_near [where e = "- 1" and n = "8477364004462110"])
    (simp_all add: power_int_minus)

lemma rot_step_11:
  "double_mul (Finite (2184566701075399 / 2 ^ 53))
     (Finite (2184566701075399 / 2 ^ 53))
   = Finite (4238682002231055 / 2 ^ 56)"
  by (rule double_mul_eval, rule to_double_near [where e = "- 5" and n = "8477364004462110"])
    (simp_all add: power_int_minus)

lemma rot_step_12: "double_mul (Finite (2184566701075399 / 2 ^ 51)) (Finite 0) = Finite 0"
  by (rule double_mul_eval, rule to_double_zero) simp

lemma rot_step_13: "double_mul (Finite 0) (Finite (2184566701075399 / 2 ^ 53)) = Finite 0"
  by (rule double_mul_eval, rule to_double_zero) simp

lemma rot_step_14:
  "double_mul (Finite (2184566701075399 / 2 ^ 51))
     (Finite (2184566701075399 / 2 ^ 53))
   = Finite (4238682002231055 / 2 ^ 54)"
  by (rule double_mul_eval, rule to_double_near [where e = "- 3" and n = "8477364004462110"])
    (simp_all add: power_int_minus)

lemma rot_step_15: "double_neg (Finite 0) = Finite 0"
  by simp

lemma rot_step_16:
  "double_add (Finite (4238682002231055 / 2 ^ 52))
     (Finite 0)
   = Finite (4238682002231055 / 2 ^ 52)"
  by (rule double_add_eval, rule to_double_near [where e = "- 1" and n = "8477364004462110"])
    (simp_all add: power_int_minus)

lemma rot_step_17:
  "double_add (Finite (4238682002231055 / 2 ^ 52))
     (Finite (4238682002231055 / 2 ^ 56))
   = Finite 1"
  by (rule double_add_eval, rule to_double_near [where e = "- 1" and n = "9007199254740992"])
    (simp_all add: power_int_minus)

lemma rot_step_18: "double_add (Finite 0) (Finite 0) = Finite 0"
  by (rule double_add_eval, rule to_double_zero) simp

lemma rot_step_19: "double_mul (Finite 2) (Finite 0) = Finite 0"
  by (rule double_mul_eval, rule to_double_zero) simp

lemma rot_step_20:
  "double_neg (Finite (4238682002231055 / 2 ^ 52))
   = Finite (- (4238682002231055 / 2 ^ 52))"
  by simp

lemma rot_step_21:
  "double_add (Finite (- (4238682002231055 / 2 ^ 52)))
     (Finite 0)
   = Finite (- (4238682002231055 / 2 ^ 52))"
  by (rule double_add_eval, rule to_double_near [where e = "- 1" and n = "- 8477364004462110"])
    (simp_all add: power_int_minus)

lemma rot_step_22:
  "double_add (Finite (- (4238682002231055 / 2 ^ 52)))
     (Finite (4238682002231055 / 2 ^ 56))
   = Finite (- (1986882188545807 / 2 ^ 51))"
  by (rule double_add_eval, rule to_double_near [where e = "- 1" and n = "- 7947528754183228"])
    (simp_all add: power_int_minus)

lemma rot_step_23:
  "double_neg (Finite (4238682002231055 / 2 ^ 54))
   = Finite (- (4238682002231055 / 2 ^ 54))"
  by simp

lemma rot_step_24:
  "double_add (Finite 0)
     (Finite (- (4238682002231055 / 2 ^ 54)))
   = Finite (- (4238682002231055 / 2 ^ 54))"
  by (rule double_add_eval, rule to_double_near [where e = "- 3" and n = "- 8477364004462110"])
    (simp_all add: power_int_minus)

lemma rot_step_25:
  "double_mul (Finite 2)
     (Finite (- (4238682002231055 / 2 ^ 54)))
   = Finite (- (4238682002231055 / 2 ^ 53))"
  by (rule double_mul_eval, rule to_double_near [where e = "- 2" and n = "- 8477364004462110"])
    (simp_all add: power_int_minus)

lemma rot_step_26:
  "double_add (Finite 0)
     (Finite (4238682002231055 / 2 ^ 54))
   = Finite (4238682002231055 / 2 ^ 54)"
  by (rule double_add_eval, rule to_double_near [where e = "- 3" and n = "8477364004462110"])
    (simp_all add: power_int_minus)

lemma rot_step_27:
  "double_mul (Finite 2)
     (Finite (4238682002231055 / 2 ^ 54))
   = Finite (4238682002231055 / 2 ^ 53)"
  by (rule double_mul_eval, rule to_double_near [where e = "- 2" and n = "8477364004462110"])
    (simp_all add: power_int_minus)

lemma rot_step_28: "double_add (Finite 1) (Finite 0) = Finite 1"
  by (rule double_add_eval, rule to_double_near [where e = "0" and n = "4503599627370496"])
    (simp_all add: power_int_minus)

lemma rot_step_29: "double_mul (Finite 1) (Finite 0) = Finite 0"
  by (rule double_mul_eval, rule to_double_zero) simp

lemma rot_step_30: "double_mul (Finite 0) (Finite 3) = Finite 0"
  by (rule double_mul_eval, rule to_double_zero) simp

lemma rot_step_31: "double_mul (Finite 0) (Finite 4) = Finite 0"
  by (rule double_mul_eval, rule to_double_zero) simp

lemma rot_step_32: "double_mul (Finite 0) (Finite 1) = Finite 0"
  by (rule double_mul_eval, rule to_double_zero) simp

lemma rot_step_33: "double_mul (Finite (- (1986882188545807 / 2 ^ 51))) (Finite 0) = Finite 0"
  by (rule double_mul_eval, rule to_double_zero) simp

lemma rot_step_34: "double_mul (Finite (- (4238682002231055 / 2 ^ 53))) (Finite 0) = Finite 0"
  by (rule double_mul_eval, rule to_double_zero) simp

lemma rot_step_35:
  "double_mul (Finite (- (1986882188545807 / 2 ^ 51)))
     (Finite 3)
   = Finite (- (5960646565637421 / 2 ^ 51))"
  by (rule double_mul_eval, rule to_double_near [where e = "1" and n = "- 5960646565637421"])
    (simp_all add: power_int_minus)

lemma rot_step_36:
  "double_add (Finite 0)
     (Finite (- (5960646565637421 / 2 ^ 51)))
   = Finite (- (5960646565637421 / 2 ^ 51))"
  by (rule double_add_eval, rule to_double_near [where e = "1" and n = "- 5960646565637421"])
    (simp_all add: power_int_minus)

lemma rot_step_37:
  "double_add (Finite (- (5960646565637421 / 2 ^ 51)))
     (Finite 0)
   = Finite (- (5960646565637421 / 2 ^ 51))"
  by (rule double_add_eval, rule to_double_near [where e = "1" and n = "- 5960646565637421"])
    (simp_all add: power_int_minus)

lemma rot_step_38:
  "double_mul (Finite (- (4238682002231055 / 2 ^ 53)))
     (Finite 4)
   = Finite (- (4238682002231055 / 2 ^ 51))"
  by (rule double_mul_eval, rule to_double_near [where e = "0" and n = "- 8477364004462110"])
    (simp_all add: power_int_minus)

lemma rot_step_39:
  "double_add (Finite 0)
     (Finite (- (4238682002231055 / 2 ^ 51)))
   = Finite (- (4238682002231055 / 2 ^ 51))"
  by (rule double_add_eval, rule to_double_near [where e = "0" and n = "- 8477364004462110"])
    (simp_all add: power_int_minus)

lemma rot_step_40: "double_mul (Finite (4238682002231055 / 2 ^ 53)) (Finite 0) = Finite 0"
  by (rule double_mul_eval, rule to_double_zero) simp

lemma rot_step_41:
  "double_mul (Finite (4238682002231055 / 2 ^ 53))
     (Finite 3)
   = Finite (3179011501673291 / 2 ^ 51)"
  by (rule double_mul_eval, rule to_double_near [where e = "0" and n = "6358023003346582"])
    (simp_all add: power_int_minus)

lemma rot_step_42:
  "double_add (Finite 0)
     (Finite (3179011501673291 / 2 ^ 51))
   = Finite (3179011501673291 / 2 ^ 51)"
  by (rule double_add_eval, rule to_double_near [where e = "0" and n = "6358023003346582"])
    (simp_all add: power_int_minus)

lemma rot_step_43:
  "double_add (Finite (3179011501673291 / 2 ^ 51))
     (Finite 0)
   = Finite (3179011501673291 / 2 ^ 51)"
  by (rule double_add_eval, rule to_double_near [where e = "0" and n = "6358023003346582"])
    (simp_all add: power_int_minus)

lemma rot_step_44:
  "double_mul (Finite (- (1986882188545807 / 2 ^ 51)))
     (Finite 4)
   = Finite (- (1986882188545807 / 2 ^ 49))"
  by (rule double_mul_eval, rule to_double_near [where e = "1" and n = "- 7947528754183228"])
    (simp_all add: power_int_minus)

lemma rot_step_45:
  "double_add (Finite 0)
     (Finite (- (1986882188545807 / 2 ^ 49)))
   = Finite (- (1986882188545807 / 2 ^ 49))"
  by (rule double_add_eval, rule to_double_near [where e = "1" and n = "- 7947528754183228"])
    (simp_all add: power_int_minus)

lemma rot_step_46: "double_mul (Finite 0) (Finite (- (1986882188545807 / 2 ^ 51))) = Finite 0"
  by (rule double_mul_eval, rule to_double_zero) simp

lemma rot_step_47: "double_mul (Finite 0) (Finite (- (4238682002231055 / 2 ^ 53))) = Finite 0"
  by (rule double_mul_eval, rule to_double_zero) simp

lemma rot_step_48: "double_mul (Finite 0) (Finite (4238682002231055 / 2 ^ 53)) = Finite 0"
  by (rule double_mul_eval, rule to_double_zero) simp

lemma rot_step_49: "double_mul (Finite (- (5960646565637421 / 2 ^ 51))) (Finite 0) = Finite 0"
  by (rule double_mul_eval, rule to_double_zero) simp

lemma rot_step_50: "double_mul (Finite (- (4238682002231055 / 2 ^ 51))) (Finite 0) = Finite 0"
  by (rule double_mul_eval, rule to_double_zero) simp

lemma rot_step_51:
  "double_mul (Finite (- (5960646565637421 / 2 ^ 51)))
     (Finite (- (1986882188545807 / 2 ^ 51)))
   = Finite (5259394028503607 / 2 ^ 51)"
  by (rule double_mul_eval, rule to_double_near [where e = "1" and n = "5259394028503607"])
    (simp_all add: power_int_minus)

lemma rot_step_52:
  "double_add (Finite 0)
     (Finite (5259394028503607 / 2 ^ 51))
   = Finite (5259394028503607 / 2 ^ 51)"
  by (rule double_add_eval, rule to_double_near [where e = "1" and n = "5259394028503607"])
    (simp_all add: power_int_minus)

lemma rot_step_53:
  "double_mul (Finite (- (4238682002231055 / 2 ^ 51)))
     (Finite (- (4238682002231055 / 2 ^ 53)))
   = Finite (3989347766805699 / 2 ^ 52)"
  by (rule double_mul_eval, rule to_double_near [where e = "- 1" and n = "7978695533611398"])
    (simp_all add: power_int_minus)

lemma rot_step_54:
  "double_add (Finite (5259394028503607 / 2 ^ 51))
     (Finite (3989347766805699 / 2 ^ 52))
   = Finite (906758488988307 / 2 ^ 48)"
  by (rule double_add_eval, rule to_double_near [where e = "1" and n = "7254067911906456"])
    (simp_all add: power_int_minus)

lemma rot_step_55:
  "double_mul (Finite (- (5960646565637421 / 2 ^ 51)))
     (Finite (4238682002231055 / 2 ^ 53))
   = Finite (- (2805010148535257 / 2 ^ 51))"
  by (rule double_mul_eval, rule to_double_near [where e = "0" and n = "- 5610020297070514"])
    (simp_all add: power_int_minus)

lemma rot_step_56:
  "double_add (Finite 0)
     (Finite (- (2805010148535257 / 2 ^ 51)))
   = Finite (- (2805010148535257 / 2 ^ 51))"
  by (rule double_add_eval, rule to_double_near [where e = "0" and n = "- 5610020297070514"])
    (simp_all add: power_int_minus)

lemma rot_step_57:
  "double_mul (Finite (- (4238682002231055 / 2 ^ 51)))
     (Finite (- (1986882188545807 / 2 ^ 51)))
   = Finite (7480027062760685 / 2 ^ 52)"
  by (rule double_mul_eval, rule to_double_near [where e = "0" and n = "7480027062760685"])
    (simp_all add: power_int_minus)

lemma rot_step_58:
  "double_add (Finite (- (2805010148535257 / 2 ^ 51)))
     (Finite (7480027062760685 / 2 ^ 52))
   = Finite (1870006765690171 / 2 ^ 52)"
  by (rule double_add_eval, rule to_double_near [where e = "- 2" and n = "7480027062760684"])
    (simp_all add: power_int_minus)

lemma rot_step_59: "double_mul (Finite (3179011501673291 / 2 ^ 51)) (Finite 0) = Finite 0"
  by (rule double_mul_eval, rule to_double_zero) simp

lemma rot_step_60: "double_mul (Finite (- (1986882188545807 / 2 ^ 49))) (Finite 0) = Finite 0"
  by (rule double_mul_eval, rule to_double_zero) simp

lemma rot_step_61:
  "double_mul (Finite (3179011501673291 / 2 ^ 51))
     (Finite (- (1986882188545807 / 2 ^ 51)))
   = Finite (- (5610020297070513 / 2 ^ 52))"
  by (rule double_mul_eval, rule to_double_near [where e = "0" and n = "- 5610020297070513"])
    (simp_all add: power_int_minus)

lemma rot_step_62:
  "double_add (Finite 0)
     (Finite (- (5610020297070513 / 2 ^ 52)))
   = Finite (- (5610020297070513 / 2 ^ 52))"
  by (rule double_add_eval, rule to_double_near [where e = "0" and n = "- 5610020297070513"])
    (simp_all add: power_int_minus)

lemma rot_step_63:
  "double_mul (Finite (- (1986882188545807 / 2 ^ 49)))
     (Finite (- (4238682002231055 / 2 ^ 53)))
   = Finite (7480027062760685 / 2 ^ 52)"
  by (rule double_mul_eval, rule to_double_near [where e = "0" and n = "7480027062760685"])
    (simp_all add: power_int_minus)

lemma rot_step_64:
  "double_add (Finite (- (5610020297070513 / 2 ^ 52)))
     (Finite (7480027062760685 / 2 ^ 52))
   = Finite (467501691422543 / 2 ^ 50)"
  by (rule double_add_eval, rule to_double_near [where e = "- 2" and n = "7480027062760688"])
    (simp_all add: power_int_minus)

lemma rot_step_65:
  "double_mul (Finite (3179011501673291 / 2 ^ 51))
     (Finite (4238682002231055 / 2 ^ 53))
   = Finite (1496005412552137 / 2 ^ 51)"
  by (rule double_mul_eval, rule to_double_near [where e = "- 1" and n = "5984021650208548"])
    (simp_all add: power_int_minus)

lemma rot_step_66:
  "double_add (Finite 0)
     (Finite (1496005412552137 / 2 ^ 51))
   = Finite (1496005412552137 / 2 ^ 51)"
  by (rule double_add_eval, rule to_double_near [where e = "- 1" and n = "5984021650208548"])
    (simp_all add: power_int_minus)

lemma rot_step_67:
  "double_mul (Finite (- (1986882188545807 / 2 ^ 49)))
     (Finite (- (1986882188545807 / 2 ^ 51)))
   = Finite (3506262685669071 / 2 ^ 50)"
  by (rule double_mul_eval, rule to_double_near [where e = "1" and n = "7012525371338142"])
    (simp_all add: power_int_minus)

lemma rot_step_68:
  "double_add (Finite (1496005412552137 / 2 ^ 51))
     (Finite (3506262685669071 / 2 ^ 50))
   = Finite (8508530783890279 / 2 ^ 51)"
  by (rule double_add_eval, rule to_double_near [where e = "1" and n = "8508530783890279"])
    (simp_all add: power_int_minus)

lemmas rot_steps =
  rot_step_1 rot_step_2 rot_step_3 rot_step_4 rot_step_5 rot_step_6 rot_step_7
  rot_step_8 rot_step_9 rot_step_10 rot_step_11 rot_step_12 rot_step_13 rot_step_14
  rot_step_15 rot_step_16 rot_step_17 rot_step_18 rot_step_19 rot_step_20 rot_step_21
  rot_step_22 rot_step_23 rot_step_24 rot_step_25 rot_step_26 rot_step_27 rot_step_28
  rot_step_29 rot_step_30 rot_step_31 rot_step_32 rot_step_33 rot_step_34 rot_step_35
  rot_step_36 rot_step_37 rot_step_38 rot_step_39 rot_step_40 rot_step_41 rot_step_42
  rot_step_43 rot_step_44 rot_step_45 rot_step_46 rot_step_47 rot_step_48 rot_step_49
  rot_step_50 rot_step_51 rot_step_52 rot_step_53 rot_step_54 rot_step_55 rot_step_56
  rot_step_57 rot_step_58 rot_step_59 rot_step_60 rot_step_61 rot_step_62 rot_step_63
  rot_step_64 rot_step_65 rot_step_66 rot_step_67 rot_step_68

lemma rot_norm: "double_norm4 (Finite 4, Finite 0, Finite 0, Finite 1) = Finite (4642204239785223 / 2 ^ 50)"
  by (simp only: double_norm4_def prod.case rot_steps)

lemma rot_norm_nonzero: "(Finite (4642204239785223 / 2 ^ 50) = Finite 0) = False"
  by simp

lemma rot_quat:
  "double_from_quat (Finite 4, Finite 0, Finite 0, Finite 1)
     = Inr (Finite (2184566701075399 / 2 ^ 51), Finite 0, Finite 0, Finite (2184566701075399 / 2 ^ 53))"
  by (simp only: double_from_quat_def prod.case Let_def rot_norm rot_norm_nonzero if_False rot_steps)

lemma rot_matrix:
  "double_as_matrix (Finite (2184566701075399 / 2 ^ 51), Finite 0, Finite 0, Finite (2184566701075399 / 2 ^ 53))
     = ((Finite 1, Finite 0, Finite 0),
        (Finite 0, Finite (- (1986882188545807 / 2 ^ 51)), Finite (- (4238682002231055 / 2 ^ 53))),
        (Finite 0, Finite (4238682002231055 / 2 ^ 53), Finite (- (1986882188545807 / 2 ^ 51))))"
  by (simp only: double_as_matrix_def double_sub_def prod.case Let_def rot_steps)

lemma rot_R:
  "double_quat_to_rotation_matrix [Finite 1, Finite 4, Finite 0, Finite 0]
     = Inr ((Finite 1, Finite 0, Finite 0),
            (Finite 0, Finite (- (1986882188545807 / 2 ^ 51)), Finite (- (4238682002231055 / 2 ^ 53))),
            (Finite 0, Finite (4238682002231055 / 2 ^ 53), Finite (- (1986882188545807 / 2 ^ 51))))"
  by (simp only: double_quat_to_rotation_matrix_def list.case rot_quat sum.case rot_matrix)

lemma rot_RD:
  "double_matmul ((Finite 1, Finite 0, Finite 0),
       (Finite 0, Finite (- (1986882188545807 / 2 ^ 51)), Finite (- (4238682002231055 / 2 ^ 53))),
       (Finite 0, Finite (4238682002231055 / 2 ^ 53), Finite (- (1986882188545807 / 2 ^ 51))))
      (double_np_diag (Finite 1, Finite 3, Finite 4))
     = ((Finite 1, Finite 0, Finite 0),
        (Finite 0, Finite (- (5960646565637421 / 2 ^ 51)), Finite (- (4238682002231055 / 2 ^ 51))),
        (Finite 0, Finite (3179011501673291 / 2 ^ 51), Finite (- (1986882188545807 / 2 ^ 49))))"
  by (simp only: double_matmul_def double_np_diag_def double_transpose3_def double_dot3_def
      prod.case rot_steps)

lemma rot_T:
  "double_matmul ((Finite 1, Finite 0, Finite 0),
       (Finite 0, Finite (- (5960646565637421 / 2 ^ 51)), Finite (- (4238682002231055 / 2 ^ 51))),
       (Finite 0, Finite (3179011501673291 / 2 ^ 51), Finite (- (1986882188545807 / 2 ^ 49))))
      (double_transpose3 ((Finite 1, Finite 0, Finite 0),
         (Finite 0, Finite (- (1986882188545807 / 2 ^ 51)), Finite (- (4238682002231055 / 2 ^ 53))),
         (Finite 0, Finite (4238682002231055 / 2 ^ 53), Finite (- (1986882188545807 / 2 ^ 51)))))
     = ((Finite 1, Finite 0, Finite 0),
        (Finite 0, Finite (906758488988307 / 2 ^ 48), Finite (1870006765690171 / 2 ^ 52)),
        (Finite 0, Finite (467501691422543 / 2 ^ 50), Finite (8508530783890279 / 2 ^ 51)))"
  by (simp only: double_matmul_def double_transpose3_def double_dot3_def prod.case rot_steps)

text \<open>
  Claim C10, as stated: for every diagonal triple and every quaternion the tensor
  \<^verbatim>\<open>rotate_inertia\<close> returns is symmetric, entry \<open>(i, j)\<close> equal to entry \<open>(j, i)\<close>,
  so that the six components of the extraction lose nothing. It fails on the doubles
  the code computes: for the moments \<open>(1, 3, 4)\<close> and the quaternion \<open>[1, 4, 0, 0]\<close>
  entry \<open>(1, 2)\<close> of the tensor is \<open>0.4152249134948096\<close> and entry \<open>(2, 1)\<close> is
  \<open>0.41522491349480983\<close>, counting rows and columns from zero.
\<close>

theorem rotate_inertia_doubles_not_symmetric:
  "double_rotate_inertia (Finite 1, Finite 3, Finite 4)
       [Finite 1, Finite 4, Finite 0, Finite 0]
     = Inr ((Finite 1, Finite 0, Finite 0),
          (Finite 0, Finite (906758488988307 / 2 ^ 48), Finite (1870006765690171 / 2 ^ 52)),
          (Finite 0, Finite (467501691422543 / 2 ^ 50), Finite (8508530783890279 / 2 ^ 51)))
   \<and> \<not> double_symmetric3
         ((Finite 1, Finite 0, Finite 0),
          (Finite 0, Finite (906758488988307 / 2 ^ 48), Finite (1870006765690171 / 2 ^ 52)),
          (Finite 0, Finite (467501691422543 / 2 ^ 50), Finite (8508530783890279 / 2 ^ 51)))"
proof -
  have r: "double_rotate_inertia (Finite 1, Finite 3, Finite 4)
       [Finite 1, Finite 4, Finite 0, Finite 0]
     = Inr ((Finite 1, Finite 0, Finite 0),
          (Finite 0, Finite (906758488988307 / 2 ^ 48), Finite (1870006765690171 / 2 ^ 52)),
          (Finite 0, Finite (467501691422543 / 2 ^ 50), Finite (8508530783890279 / 2 ^ 51)))"
    by (simp only: double_rotate_inertia_def Let_def rot_R sum.case rot_RD rot_T)
  have n: "\<not> double_symmetric3
         ((Finite 1, Finite 0, Finite 0),
          (Finite 0, Finite (906758488988307 / 2 ^ 48), Finite (1870006765690171 / 2 ^ 52)),
          (Finite 0, Finite (467501691422543 / 2 ^ 50), Finite (8508530783890279 / 2 ^ 51)))"
    by (simp add: double_symmetric3_def)
  from r n show ?thesis by (rule conjI)
qed

text \<open>
  Claim C10, amended. \<^verbatim>\<open>rotate_inertia\<close> returns a tensor exactly for the
  quaternions of four components whose norm does not round to zero, of unit norm or
  not. In exact arithmetic that tensor is symmetric and is the symmetric matrix of the
  six components \<^verbatim>\<open>inertia_tensor_to_urdf\<close> extracts. The extraction keeps the
  diagonal and the entries above it; in double precision an entry below the diagonal
  can differ from its mirror image in the last bits, and is then not recovered.
\<close>

theorem rotate_inertia_symmetric:
  "((\<exists>T. rotate_inertia d q = Inr T)
      \<longleftrightarrow> length q = 4 \<and> \<not> norm_is_zero (q ! 1, q ! 2, q ! 3, q ! 0))
   \<and> (\<forall>T. rotate_inertia d q = Inr T \<longrightarrow>
         symmetric3 T
         \<and> (case inertia_tensor_to_urdf T of (ixx, ixy, ixz, iyy, iyz, izz) \<Rightarrow>
              T = ((ixx, ixy, ixz), (ixy, iyy, iyz), (ixz, iyz, izz))))
   \<and> inertia_tensor_to_urdf ((a00, a01, a02), (a10, a11, a12), (a20, a21, a22))
        = (a00, a01, a02, a11, a12, a22)"
proof (intro conjI allI impI)
  show "(\<exists>T. rotate_inertia d q = Inr T)
      \<longleftrightarrow> length q = 4 \<and> \<not> norm_is_zero (q ! 1, q ! 2, q ! 3, q ! 0)"
    unfolding ex_Inr_iff by (rule rotate_inertia_returns)
next
  fix T assume "rotate_inertia d q = Inr T"
  then show "symmetric3 T" by (rule rotate_result_symmetric)
next
  fix T assume "rotate_inertia d q = Inr T"
  then have "symmetric3 T" by (rule rotate_result_symmetric)
  then show "(case inertia_tensor_to_urdf T of (ixx, ixy, ixz, iyy, iyz, izz) \<Rightarrow>
              T = ((ixx, ixy, ixz), (ixy, iyy, iyz), (ixz, iyz, izz)))"
    by (rule urdf_keeps_symmetric)
next
  show "inertia_tensor_to_urdf ((a00, a01, a02), (a10, a11, a12), (a20, a21, a22))
        = (a00, a01, a02, a11, a12, a22)"
    by (simp add: inertia_tensor_to_urdf_def)
qed

theorem rotate_inertia_symmetric_witness:
  "length [1, 4, 0, 0 :: real] = 4
   \<and> \<not> norm_is_zero ([1, 4, 0, 0] ! 1, [1, 4, 0, 0] ! 2, [1, 4, 0, 0] ! 3, [1, 4, 0, 0] ! 0)
   \<and> (\<exists>T. rotate_inertia (1, 3, 4) [1, 4, 0, 0] = Inr T \<and> symmetric3 T
          \<and> (case inertia_tensor_to_urdf T of (ixx, ixy, ixz, iyy, iyz, izz) \<Rightarrow>
              T = ((ixx, ixy, ixz), (ixy, iyy, iyz), (ixz, iyz, izz))))
   \<and> rotate_inertia (1, 3, 4) [1 / 10 ^ 200, 0, 0, 0] = Inl ZeroNormQuaternion"
proof -
  have nz: "norm_is_zero (0, 0, 0, 1 / 10 ^ 200)"
    by (simp add: norm_is_zero_def rounds_to_zero_def power_divide)
  have u: "rotate_inertia (1, 3, 4) [1 / 10 ^ 200, 0, 0, 0] = Inl ZeroNormQuaternion"
    by (simp only: rotate_inertia_def quat_to_rotation_matrix_def from_quat_def list.case
        prod.case Let_def nz if_True sum.case)
  have l: "length [1, 4, 0, 0 :: real] = 4" by simp
  have z: "\<not> norm_is_zero ([1, 4, 0, 0] ! 1, [1, 4, 0, 0] ! 2, [1, 4, 0, 0] ! 3, [1, 4, 0, 0] ! 0)"
    by (simp add: norm_is_zero_large)
  note t = rotate_inertia_symmetric [of "(1, 3, 4)" "[1, 4, 0, 0]"]
  from t [THEN conjunct1] l z
  obtain T where T: "rotate_inertia (1, 3, 4) [1, 4, 0, 0] = Inr T" by blast
  from t [THEN conjunct2, THEN conjunct1, rule_format, OF T] T
  have "\<exists>T. rotate_inertia (1, 3, 4) [1, 4, 0, 0] = Inr T \<and> symmetric3 T
          \<and> (case inertia_tensor_to_urdf T of (ixx, ixy, ixz, iyy, iyz, izz) \<Rightarrow>
              T = ((ixx, ixy, ixz), (ixy, iyy, iyz), (ixz, iyz, izz)))"
    by (intro exI [of _ T]) blast
  with l z u show ?thesis by (intro conjI)
qed

subsection \<open>The tolerance of the checkers\<close>

text \<open>
  Claim C2. The checker tests the three inequalities, each with a small absolute
  tolerance such as \<open>1e-10\<close>, never raises, returns the flag that is true exactly when
  no inequality is violated, and names each violated pair. The checker of the mesh
  script does so (lemmas \<open>validate_inertia_stl_flag\<close> and
  \<open>validate_inertia_stl_warnings\<close>). The checker of the primitive script compares
  without tolerance: moments \<open>(1, 1, 2 + 5e-11)\<close>, inside the tolerance, are accepted
  by the first and rejected by the second.
\<close>

theorem validate_inertia_without_tolerance:
  "validate_inertia ''pelvis'' 1 1 (2 + 5 / 10 ^ 11)
     = ([IxxIyy_lt_Izz ''pelvis'' 1 1 (2 + 5 / 10 ^ 11)], False)
   \<and> validate_inertia_stl ''pelvis'' 1 1 (2 + 5 / 10 ^ 11) = ([], True)"
  by (simp add: validate_inertia_def validate_inertia_stl_def eps_def Let_def)

subsection \<open>The mesh calculator\<close>

text \<open>
  Claim C4. For a mesh of volume at most zero and any mass,
  \<^verbatim>\<open>compute_inertia_from_mesh\<close> returns the centre of the bounding box as centre of
  mass and the diagonal tensor of the box formula on the extents of the bounding box;
  for extents \<open>(2, 2, 2)\<close> and mass 1 the tensor is \<open>diag(2/3, 2/3, 2/3)\<close>.
\<close>

theorem degenerate_mesh_fallback:
  assumes "volume mesh0 \<le> 0" and "bounds mesh0 = ((lo0, lo1, lo2), (hi0, hi1, hi2))"
  shows "compute_inertia_from_mesh mesh0 m =
           (mesh0, [VolumeInvalid],
            ((lo0 + hi0) / 2, (lo1 + hi1) / 2, (lo2 + hi2) / 2),
            np_diag (inertia_box m (hi0 - lo0) (hi1 - lo1) (hi2 - lo2)))
       \<and> (hi0 - lo0 = 2 \<and> hi1 - lo1 = 2 \<and> hi2 - lo2 = 2 \<and> m = 1 \<longrightarrow>
            snd (snd (snd (compute_inertia_from_mesh mesh0 m)))
              = ((2/3, 0, 0), (0, 2/3, 0), (0, 0, 2/3)))"
proof -
  have a: "compute_inertia_from_mesh mesh0 m =
           (mesh0, [VolumeInvalid],
            ((lo0 + hi0) / 2, (lo1 + hi1) / 2, (lo2 + hi2) / 2),
            np_diag (inertia_box m (hi0 - lo0) (hi1 - lo1) (hi2 - lo2)))"
    using assms by (simp add: compute_inertia_from_mesh_def inertia_box_def Let_def)
  have b: "np_diag (inertia_box 1 2 2 2) = ((2/3, 0, 0), (0, 2/3, 0), (0, 0, 2/3))"
    by (simp add: np_diag_def inertia_box_def)
  have c: "snd (snd (snd (compute_inertia_from_mesh mesh0 m)))
              = ((2/3, 0, 0), (0, 2/3, 0), (0, 0, 2/3))"
    if "hi0 - lo0 = 2 \<and> hi1 - lo1 = 2 \<and> hi2 - lo2 = 2 \<and> m = 1"
    using that b unfolding a by simp
  from a c show ?thesis by blast
qed

theorem degenerate_mesh_fallback_witness:
  "volume flat_mesh \<le> 0 \<and> bounds flat_mesh = ((-1, -1, -1), (1, 1, 1))
   \<and> compute_inertia_from_mesh flat_mesh 1 =
       (flat_mesh, [VolumeInvalid], (0, 0, 0), ((2/3, 0, 0), (0, 2/3, 0), (0, 0, 2/3)))"
proof -
  have h: "volume flat_mesh \<le> 0" "bounds flat_mesh = ((-1, -1, -1), (1, 1, 1))"
    by (simp_all add: flat_mesh_def)
  from degenerate_mesh_fallback [OF h, of 1] h show ?thesis
    by (simp add: np_diag_def inertia_box_def)
qed

text \<open>
  Claim C9, as stated: the mesh passed to \<^verbatim>\<open>compute_inertia_from_mesh\<close> is read
  only, and none of its fields is modified. It fails on the unit cube with target mass
  2: the call leaves the density of the mesh at 2, where it was 1.
\<close>

theorem mesh_density_overwritten:
  "fst (compute_inertia_from_mesh unit_cube 2) \<noteq> unit_cube
   \<and> density (fst (compute_inertia_from_mesh unit_cube 2)) = 2 \<and> density unit_cube = 1"
  by (simp add: compute_inertia_from_mesh_def unit_cube_def Let_def)

text \<open>
  Claim C9, amended. \<^verbatim>\<open>compute_inertia_from_mesh\<close> changes no field of the mesh but
  its density: a mesh of positive volume leaves the call with density
  \<open>mass / volume\<close>, a mesh of volume at most zero is left as it was.
\<close>

theorem mesh_only_density_written:
  "(case compute_inertia_from_mesh mesh0 m of (mesh1, out, c, inertia) \<Rightarrow>
      mesh1 = (if volume mesh0 > 0 then mesh0\<lparr>density := m / volume mesh0\<rparr> else mesh0)
      \<and> is_watertight mesh1 = is_watertight mesh0
      \<and> volume mesh1 = volume mesh0
      \<and> center_mass mesh1 = center_mass mesh0
      \<and> unit_inertia mesh1 = unit_inertia mesh0
      \<and> bounds mesh1 = bounds mesh0
      \<and> density mesh1 = (if volume mesh0 > 0 then m / volume mesh0 else density mesh0))"
  by (auto simp: compute_inertia_from_mesh_def Let_def split: prod.splits)

subsection \<open>The batch loops\<close>

lemma main_step_value:
  assumes "calculate_inertia d = Inr (ixx, iyy, izz, I_full, q)"
  shows "snd (main_step (n, d) st) = None
       \<and> m_results (fst (main_step (n, d) st)) = (m_results st)(n \<mapsto>
            \<lparr>r_mass = mass d, r_com = com d, diag_inertia = (ixx, iyy, izz),
             full_inertia = I_full, r_quat = q\<rparr>)"
proof -
  obtain ws v where v: "validate_inertia n ixx iyy izz = (ws, v)"
    by (cases "validate_inertia n ixx iyy izz")
  show ?thesis by (simp add: main_step_def assms v)
qed

lemma main_step_ok:
  assumes "\<not> isl (calculate_inertia d)"
  shows "snd (main_step (n, d) st) = None
       \<and> dom (m_results (fst (main_step (n, d) st))) = insert n (dom (m_results st))"
proof -
  from assms obtain r where r: "calculate_inertia d = Inr r" by (cases "calculate_inertia d") auto
  obtain ixx iyy izz I_full q where rr: "r = (ixx, iyy, izz, I_full, q)" by (metis prod_cases5)
  from main_step_value [OF r [unfolded rr], of n st] show ?thesis by simp
qed

lemma main_step_fail:
  assumes "calculate_inertia d = Inl e"
  shows "main_step (n, d) st = (st, Some e)"
  using assms by (simp add: main_step_def)

lemma main_loop_append:
  assumes "\<forall>item \<in> set pre. \<not> isl (calculate_inertia (snd item))"
  shows "snd (main_loop pre st) = None
       \<and> main_loop (pre @ rest) st = main_loop rest (fst (main_loop pre st))"
  using assms
proof (induction pre arbitrary: st)
  case Nil
  then show ?case by simp
next
  case (Cons item pre)
  obtain n d where item: "item = (n, d)" by (cases item)
  from Cons.prems have ok: "\<not> isl (calculate_inertia d)" by (simp add: item)
  obtain st' where st': "main_step (n, d) st = (st', None)"
    using main_step_ok [OF ok, of n st] by (cases "main_step (n, d) st") auto
  from Cons.prems have "\<forall>item \<in> set pre. \<not> isl (calculate_inertia (snd item))" by simp
  from Cons.IH [OF this, of st'] show ?case by (simp add: item st')
qed

lemma main_loop_keeps:
  assumes "n \<notin> fst ` set items"
  shows "m_results (fst (main_loop items st)) n = m_results st n"
  using assms
proof (induction items arbitrary: st)
  case Nil
  then show ?case by simp
next
  case (Cons item items)
  obtain n' d where item: "item = (n', d)" by (cases item)
  from Cons.prems have ne: "n \<noteq> n'" and rest: "n \<notin> fst ` set items" by (auto simp: item)
  show ?case
  proof (cases "calculate_inertia d")
    case (Inl e)
    then show ?thesis by (simp add: item main_step_fail)
  next
    case (Inr r)
    obtain ixx iyy izz I_full q where rr: "r = (ixx, iyy, izz, I_full, q)" by (metis prod_cases5)
    note sv = main_step_value [OF Inr [unfolded rr], of n' st]
    obtain st' where st': "main_step (n', d) st = (st', None)"
      using sv by (cases "main_step (n', d) st") auto
    have "m_results st' n = m_results st n" using sv ne by (simp add: st')
    with Cons.IH [OF rest, of st'] show ?thesis by (simp add: item st')
  qed
qed

lemma main_loop_ok:
  assumes "\<forall>item \<in> set items. \<not> isl (calculate_inertia (snd item))"
  shows "snd (main_loop items st) = None
       \<and> dom (m_results (fst (main_loop items st))) = dom (m_results st) \<union> fst ` set items"
  using assms
proof (induction items arbitrary: st)
  case Nil
  then show ?case by simp
next
  case (Cons item items)
  obtain n d where item: "item = (n, d)" by (cases item)
  from Cons.prems have ok: "\<not> isl (calculate_inertia d)" by (simp add: item)
  obtain st' where st': "main_step (n, d) st = (st', None)"
    using main_step_ok [OF ok, of n st] by (cases "main_step (n, d) st") auto
  have dom': "dom (m_results st') = insert n (dom (m_results st))"
    using main_step_ok [OF ok, of n st] by (simp add: st')
  from Cons.prems have "\<forall>item \<in> set items. \<not> isl (calculate_inertia (snd item))" by simp
  from Cons.IH [OF this, of st'] show ?case
    by (auto simp: item st' dom')
qed

lemma main_loop_values:
  assumes "distinct (map fst items)"
    and "\<forall>item \<in> set items. \<not> isl (calculate_inertia (snd item))"
    and "(n, d) \<in> set items"
  shows "\<exists>ixx iyy izz I_full q. calculate_inertia d = Inr (ixx, iyy, izz, I_full, q)
           \<and> m_results (fst (main_loop items st)) n = Some
                \<lparr>r_mass = mass d, r_com = com d, diag_inertia = (ixx, iyy, izz),
                 full_inertia = I_full, r_quat = q\<rparr>"
  using assms
proof (induction items arbitrary: st)
  case Nil
  then show ?case by simp
next
  case (Cons item items)
  obtain n' d' where item: "item = (n', d')" by (cases item)
  from Cons.prems have ok: "\<not> isl (calculate_inertia d')" by (simp add: item)
  then obtain r where r: "calculate_inertia d' = Inr r" by (cases "calculate_inertia d'") auto
  obtain ixx iyy izz I_full q where rr: "r = (ixx, iyy, izz, I_full, q)" by (metis prod_cases5)
  note sv = main_step_value [OF r [unfolded rr], of n' st]
  obtain st' where st': "main_step (n', d') st = (st', None)"
    using sv by (cases "main_step (n', d') st") auto
  from Cons.prems have dist: "distinct (map fst items)" and fresh: "n' \<notin> fst ` set items"
    and oks: "\<forall>item \<in> set items. \<not> isl (calculate_inertia (snd item))"
    by (auto simp: item)
  show ?case
  proof (cases "(n, d) = (n', d')")
    case True
    have "m_results (fst (main_loop items st')) n' = m_results st' n'"
      using fresh by (rule main_loop_keeps)
    also have "\<dots> = Some \<lparr>r_mass = mass d', r_com = com d', diag_inertia = (ixx, iyy, izz),
                 full_inertia = I_full, r_quat = q\<rparr>"
      using sv by (simp add: st')
    finally show ?thesis using True r rr by (simp add: item st')
  next
    case False
    with Cons.prems have "(n, d) \<in> set items" by (auto simp: item)
    from Cons.IH [OF dist oks this, of st'] show ?thesis by (simp add: item st')
  qed
qed

lemma main_of_loop:
  "snd (main links) = (case snd (main_loop links main_init) of
       Some e \<Rightarrow> Inl e | None \<Rightarrow> Inr (m_results (fst (main_loop links main_init))))"
  by (simp add: main_def split: prod.splits option.splits)

lemma process_one_value:
  assumes "trimesh_load f = Inr mesh0"
  shows "snd (process_one trimesh_load eigh masses (n, f) st) = None
       \<and> s_results (fst (process_one trimesh_load eigh masses (n, f) st)) = (s_results st)(n \<mapsto>
            (let m = (case masses n of Some v \<Rightarrow> v | None \<Rightarrow> 1);
                  cm = compute_inertia_from_mesh mesh0 m;
                  dg = diagonalize_inertia eigh (snd (snd (snd cm)))
              in \<lparr>s_mass = m, s_com = fst (snd (snd cm)), inertia_full = snd (snd (snd cm)),
                  principal_inertia = fst dg, rotation_matrix = fst (snd dg),
                  s_quat = snd (snd dg)\<rparr>))"
  by (simp add: process_one_def load_stl_def assms Let_def split: prod.splits)

lemma process_one_fail:
  assumes "trimesh_load f = Inl e"
  shows "snd (process_one trimesh_load eigh masses (n, f) st) = Some e
       \<and> s_results (fst (process_one trimesh_load eigh masses (n, f) st)) = s_results st"
  using assms by (simp add: process_one_def load_stl_def Let_def)

lemma process_stl_files_append:
  assumes "\<forall>fl \<in> set pre. \<not> isl (trimesh_load (snd fl))"
  shows "snd (process_stl_files trimesh_load eigh masses pre st) = None
       \<and> process_stl_files trimesh_load eigh masses (pre @ rest) st
           = process_stl_files trimesh_load eigh masses rest
               (fst (process_stl_files trimesh_load eigh masses pre st))"
  using assms
proof (induction pre arbitrary: st)
  case Nil
  then show ?case by simp
next
  case (Cons fl pre)
  obtain n f where fl_eq: "fl = (n, f)" by (cases fl)
  from Cons.prems obtain mesh0 where m: "trimesh_load f = Inr mesh0"
    by (cases "trimesh_load f") (auto simp: fl_eq)
  obtain st' where st': "process_one trimesh_load eigh masses (n, f) st = (st', None)"
    using process_one_value [where trimesh_load = trimesh_load and f = f, OF m, of eigh masses n st]
    by (cases "process_one trimesh_load eigh masses (n, f) st") auto
  from Cons.prems have "\<forall>fl \<in> set pre. \<not> isl (trimesh_load (snd fl))" by simp
  from Cons.IH [OF this, of st'] show ?case by (simp add: fl_eq st')
qed

lemma process_stl_files_keeps:
  assumes "n \<notin> fst ` set files"
  shows "s_results (fst (process_stl_files trimesh_load eigh masses files st)) n = s_results st n"
  using assms
proof (induction files arbitrary: st)
  case Nil
  then show ?case by simp
next
  case (Cons fl files)
  obtain n' f where fl_eq: "fl = (n', f)" by (cases fl)
  from Cons.prems have ne: "n \<noteq> n'" and rest: "n \<notin> fst ` set files" by (auto simp: fl_eq)
  show ?case
  proof (cases "trimesh_load f")
    case (Inl e)
    note pf = process_one_fail [where trimesh_load = trimesh_load and f = f, OF Inl, of eigh masses n' st]
    obtain st' where st': "process_one trimesh_load eigh masses (n', f) st = (st', Some e)"
      using pf by (cases "process_one trimesh_load eigh masses (n', f) st") auto
    have "s_results st' = s_results st" using pf by (simp add: st')
    then show ?thesis by (simp add: fl_eq st')
  next
    case (Inr mesh0)
    note pv = process_one_value [where trimesh_load = trimesh_load and f = f, OF Inr, of eigh masses n' st]
    obtain st' where st': "process_one trimesh_load eigh masses (n', f) st = (st', None)"
      using pv by (cases "process_one trimesh_load eigh masses (n', f) st") auto
    have "s_results st' n = s_results st n" using pv ne by (simp add: st')
    with Cons.IH [OF rest, of st'] show ?thesis by (simp add: fl_eq st')
  qed
qed

lemma process_stl_files_dom:
  assumes "\<forall>fl \<in> set files. \<not> isl (trimesh_load (snd fl))"
  shows "dom (s_results (fst (process_stl_files trimesh_load eigh masses files st)))
           = dom (s_results st) \<union> fst ` set files"
  using assms
proof (induction files arbitrary: st)
  case Nil
  then show ?case by simp
next
  case (Cons fl files)
  obtain n f where fl_eq: "fl = (n, f)" by (cases fl)
  from Cons.prems obtain mesh0 where m: "trimesh_load f = Inr mesh0"
    by (cases "trimesh_load f") (auto simp: fl_eq)
  note pv = process_one_value [where trimesh_load = trimesh_load and f = f, OF m, of eigh masses n st]
  obtain st' where st': "process_one trimesh_load eigh masses (n, f) st = (st', None)"
    using pv by (cases "process_one trimesh_load eigh masses (n, f) st") auto
  have dom': "dom (s_results st') = insert n (dom (s_results st))"
    using pv by (simp add: st')
  from Cons.prems have "\<forall>fl \<in> set files. \<not> isl (trimesh_load (snd fl))" by simp
  from Cons.IH [OF this, of st'] show ?case
    by (auto simp: fl_eq st' dom')
qed

lemma process_stl_files_values:
  assumes "distinct (map fst files)"
    and "\<forall>fl \<in> set files. \<not> isl (trimesh_load (snd fl))"
    and "(n, f) \<in> set files"
  shows "\<exists>mesh0. trimesh_load f = Inr mesh0
           \<and> s_results (fst (process_stl_files trimesh_load eigh masses files st)) n = Some
             (let m = (case masses n of Some v \<Rightarrow> v | None \<Rightarrow> 1);
                  cm = compute_inertia_from_mesh mesh0 m;
                  dg = diagonalize_inertia eigh (snd (snd (snd cm)))
              in \<lparr>s_mass = m, s_com = fst (snd (snd cm)), inertia_full = snd (snd (snd cm)),
                  principal_inertia = fst dg, rotation_matrix = fst (snd dg),
                  s_quat = snd (snd dg)\<rparr>)"
  using assms
proof (induction files arbitrary: st)
  case Nil
  then show ?case by simp
next
  case (Cons fl files)
  obtain n' f' where fl_eq: "fl = (n', f')" by (cases fl)
  from Cons.prems obtain mesh0 where m: "trimesh_load f' = Inr mesh0"
    by (cases "trimesh_load f'") (auto simp: fl_eq)
  note pv = process_one_value [where trimesh_load = trimesh_load and f = f', OF m, of eigh masses n' st]
  obtain st' where st': "process_one trimesh_load eigh masses (n', f') st = (st', None)"
    using pv by (cases "process_one trimesh_load eigh masses (n', f') st") auto
  from Cons.prems have dist: "distinct (map fst files)" and fresh: "n' \<notin> fst ` set files"
    and oks: "\<forall>fl \<in> set files. \<not> isl (trimesh_load (snd fl))"
    by (auto simp: fl_eq)
  show ?case
  proof (cases "(n, f) = (n', f')")
    case True
    have "s_results (fst (process_stl_files trimesh_load eigh masses files st')) n'
          = s_results st' n'"
      using fresh by (rule process_stl_files_keeps)
    with pv True m show ?thesis by (simp add: fl_eq st')
  next
    case False
    with Cons.prems have "(n, f) \<in> set files" by (auto simp: fl_eq)
    from Cons.IH [OF dist oks this, of st'] show ?thesis by (simp add: fl_eq st')
  qed
qed

lemma cone_link_fails: "calculate_inertia cone_link = Inl (UnknownShape ''cone'')"
  by (simp add: calculate_inertia_def shape_diag_def cone_link_def)

lemma pelvis_value:
  "calculate_inertia pelvis = Inr (167 / 15000, 6513 / 500000, 4843 / 300000, None, None)"
  by (simp add: calculate_inertia_def shape_diag_def pelvis_def index_def inertia_box_def
      pow_overflows_small Let_def power2_eq_square)

lemma neck_roll_link_value:
  "calculate_inertia neck_roll_link = Inr (13 / 3125000, 13 / 3125000, 13 / 3125000, None, None)"
  by (simp add: calculate_inertia_def shape_diag_def neck_roll_link_def index_def
      inertia_sphere_def pow_overflows_small Let_def power2_eq_square)

lemma main_abort:
  assumes dist: "distinct (map fst pre)"
    and ok: "\<forall>item \<in> set pre. \<not> isl (calculate_inertia (snd item))"
    and fail: "calculate_inertia d = Inl e"
  shows "snd (main (pre @ (n, d) # post)) = Inl e"
    and "dom (m_results (fst (main_loop (pre @ (n, d) # post) main_init))) = fst ` set pre"
    and "\<forall>item \<in> set pre. \<exists>ixx iyy izz I_full q.
             calculate_inertia (snd item) = Inr (ixx, iyy, izz, I_full, q)
             \<and> m_results (fst (main_loop (pre @ (n, d) # post) main_init)) (fst item) = Some
                 \<lparr>r_mass = mass (snd item), r_com = com (snd item),
                   diag_inertia = (ixx, iyy, izz), full_inertia = I_full, r_quat = q\<rparr>"
proof -
  have "main_loop (pre @ (n, d) # post) main_init
          = main_loop ((n, d) # post) (fst (main_loop pre main_init))"
    using main_loop_append [OF ok] by blast
  then have l: "main_loop (pre @ (n, d) # post) main_init = (fst (main_loop pre main_init), Some e)"
    by (simp add: main_step_fail [OF fail])
  show "snd (main (pre @ (n, d) # post)) = Inl e"
    unfolding main_of_loop l by simp
  have "dom (m_results (fst (main_loop pre main_init))) = dom (m_results main_init) \<union> fst ` set pre"
    using main_loop_ok [OF ok] by blast
  then show "dom (m_results (fst (main_loop (pre @ (n, d) # post) main_init))) = fst ` set pre"
    unfolding l fst_conv by (simp add: main_init_def)
  show "\<forall>item \<in> set pre. \<exists>ixx iyy izz I_full q.
             calculate_inertia (snd item) = Inr (ixx, iyy, izz, I_full, q)
             \<and> m_results (fst (main_loop (pre @ (n, d) # post) main_init)) (fst item) = Some
                 \<lparr>r_mass = mass (snd item), r_com = com (snd item),
                   diag_inertia = (ixx, iyy, izz), full_inertia = I_full, r_quat = q\<rparr>"
    unfolding l fst_conv
  proof
    fix item assume "item \<in> set pre"
    then have "(fst item, snd item) \<in> set pre" by simp
    from main_loop_values [OF dist ok this]
    show "\<exists>ixx iyy izz I_full q.
             calculate_inertia (snd item) = Inr (ixx, iyy, izz, I_full, q)
             \<and> m_results (fst (main_loop pre main_init)) (fst item) = Some
                 \<lparr>r_mass = mass (snd item), r_com = com (snd item),
                   diag_inertia = (ixx, iyy, izz), full_inertia = I_full, r_quat = q\<rparr>" .
  qed
qed

lemma main_all:
  assumes dist: "distinct (map fst links)"
    and ok: "\<forall>item \<in> set links. \<not> isl (calculate_inertia (snd item))"
  shows "snd (main links) = Inr (m_results (fst (main_loop links main_init)))"
    and "dom (m_results (fst (main_loop links main_init))) = fst ` set links"
    and "\<forall>item \<in> set links. \<exists>ixx iyy izz I_full q.
                calculate_inertia (snd item) = Inr (ixx, iyy, izz, I_full, q)
                \<and> m_results (fst (main_loop links main_init)) (fst item) = Some
                 \<lparr>r_mass = mass (snd item), r_com = com (snd item),
                   diag_inertia = (ixx, iyy, izz), full_inertia = I_full, r_quat = q\<rparr>"
proof -
  have lo: "snd (main_loop links main_init) = None"
    "dom (m_results (fst (main_loop links main_init))) = dom (m_results main_init) \<union> fst ` set links"
    using main_loop_ok [OF ok] by blast+
  show "snd (main links) = Inr (m_results (fst (main_loop links main_init)))"
    unfolding main_of_loop lo(1) by simp
  show "dom (m_results (fst (main_loop links main_init))) = fst ` set links"
    unfolding lo(2) by (simp add: main_init_def)
  show "\<forall>item \<in> set links. \<exists>ixx iyy izz I_full q.
                calculate_inertia (snd item) = Inr (ixx, iyy, izz, I_full, q)
                \<and> m_results (fst (main_loop links main_init)) (fst item) = Some
                 \<lparr>r_mass = mass (snd item), r_com = com (snd item),
                   diag_inertia = (ixx, iyy, izz), full_inertia = I_full, r_quat = q\<rparr>"
  proof
    fix item assume "item \<in> set links"
    then have "(fst item, snd item) \<in> set links" by simp
    from main_loop_values [OF dist ok this]
    show "\<exists>ixx iyy izz I_full q.
                calculate_inertia (snd item) = Inr (ixx, iyy, izz, I_full, q)
                \<and> m_results (fst (main_loop links main_init)) (fst item) = Some
                 \<lparr>r_mass = mass (snd item), r_com = com (snd item),
                   diag_inertia = (ixx, iyy, izz), full_inertia = I_full, r_quat = q\<rparr>" .
  qed
qed

lemma stl_abort:
  assumes dist: "distinct (map fst fpre)"
    and ok: "\<forall>fl \<in> set fpre. \<not> isl (trimesh_load (snd fl))"
    and fail: "trimesh_load f = Inl e'"
  shows "snd (process_stl_files trimesh_load eigh masses (fpre @ (fname, f) # fpost) stl_init) = Some e'"
    and "dom (s_results (fst (process_stl_files trimesh_load eigh masses
              (fpre @ (fname, f) # fpost) stl_init))) = fst ` set fpre"
    and "\<forall>fl \<in> set fpre. \<exists>mesh0. trimesh_load (snd fl) = Inr mesh0
             \<and> s_results (fst (process_stl_files trimesh_load eigh masses
                  (fpre @ (fname, f) # fpost) stl_init)) (fst fl) = Some
                 (let m = (case masses (fst fl) of Some v \<Rightarrow> v | None \<Rightarrow> 1);
                      cm = compute_inertia_from_mesh mesh0 m;
                      dg = diagonalize_inertia eigh (snd (snd (snd cm)))
                  in \<lparr>s_mass = m, s_com = fst (snd (snd cm)),
                      inertia_full = snd (snd (snd cm)), principal_inertia = fst dg,
                      rotation_matrix = fst (snd dg), s_quat = snd (snd dg)\<rparr>)"
proof -
  define st1 where "st1 = fst (process_stl_files trimesh_load eigh masses fpre stl_init)"
  note pf = process_one_fail [where trimesh_load = trimesh_load and f = f, OF fail, of eigh masses fname st1]
  obtain st2 where st2: "process_one trimesh_load eigh masses (fname, f) st1 = (st2, Some e')"
    using pf by (cases "process_one trimesh_load eigh masses (fname, f) st1") auto
  have keep: "s_results st2 = s_results st1" using pf by (simp add: st2)
  have "process_stl_files trimesh_load eigh masses (fpre @ (fname, f) # fpost) stl_init
           = process_stl_files trimesh_load eigh masses ((fname, f) # fpost) st1"
    unfolding st1_def using process_stl_files_append [OF ok] by blast
  then have l: "process_stl_files trimesh_load eigh masses (fpre @ (fname, f) # fpost) stl_init
           = (st2, Some e')"
    by (simp add: st2)
  show "snd (process_stl_files trimesh_load eigh masses (fpre @ (fname, f) # fpost) stl_init) = Some e'"
    unfolding l by simp
  have "dom (s_results st1) = dom (s_results stl_init) \<union> fst ` set fpre"
    unfolding st1_def by (rule process_stl_files_dom [OF ok])
  then show "dom (s_results (fst (process_stl_files trimesh_load eigh masses
              (fpre @ (fname, f) # fpost) stl_init))) = fst ` set fpre"
    unfolding l fst_conv keep by (simp add: stl_init_def)
  show "\<forall>fl \<in> set fpre. \<exists>mesh0. trimesh_load (snd fl) = Inr mesh0
             \<and> s_results (fst (process_stl_files trimesh_load eigh masses
                  (fpre @ (fname, f) # fpost) stl_init)) (fst fl) = Some
                 (let m = (case masses (fst fl) of Some v \<Rightarrow> v | None \<Rightarrow> 1);
                      cm = compute_inertia_from_mesh mesh0 m;
                      dg = diagonalize_inertia eigh (snd (snd (snd cm)))
                  in \<lparr>s_mass = m, s_com = fst (snd (snd cm)),
                      inertia_full = snd (snd (snd cm)), principal_inertia = fst dg,
                      rotation_matrix = fst (snd dg), s_quat = snd (snd dg)\<rparr>)"
    unfolding l fst_conv keep st1_def
  proof
    fix fl assume "fl \<in> set fpre"
    then have "(fst fl, snd fl) \<in> set fpre" by simp
    from process_stl_files_values [OF dist ok this]
    show "\<exists>mesh0. trimesh_load (snd fl) = Inr mesh0
             \<and> s_results (fst (process_stl_files trimesh_load eigh masses fpre stl_init))
                  (fst fl) = Some
                 (let m = (case masses (fst fl) of Some v \<Rightarrow> v | None \<Rightarrow> 1);
                      cm = compute_inertia_from_mesh mesh0 m;
                      dg = diagonalize_inertia eigh (snd (snd (snd cm)))
                  in \<lparr>s_mass = m, s_com = fst (snd (snd cm)),
                      inertia_full = snd (snd (snd cm)), principal_inertia = fst dg,
                      rotation_matrix = fst (snd dg), s_quat = snd (snd dg)\<rparr>)" .
  qed
qed

lemma stl_all:
  assumes dist: "distinct (map fst files)"
    and ok: "\<forall>fl \<in> set files. \<not> isl (trimesh_load (snd fl))"
  shows "snd (process_stl_files trimesh_load eigh masses files stl_init) = None"
    and "dom (s_results (fst (process_stl_files trimesh_load eigh masses files stl_init)))
           = fst ` set files"
    and "\<forall>fl \<in> set files. \<exists>mesh0. trimesh_load (snd fl) = Inr mesh0
             \<and> s_results (fst (process_stl_files trimesh_load eigh masses files stl_init))
                  (fst fl) = Some
                 (let m = (case masses (fst fl) of Some v \<Rightarrow> v | None \<Rightarrow> 1);
                      cm = compute_inertia_from_mesh mesh0 m;
                      dg = diagonalize_inertia eigh (snd (snd (snd cm)))
                  in \<lparr>s_mass = m, s_com = fst (snd (snd cm)),
                      inertia_full = snd (snd (snd cm)), principal_inertia = fst dg,
                      rotation_matrix = fst (snd dg), s_quat = snd (snd dg)\<rparr>)"
proof -
  show "snd (process_stl_files trimesh_load eigh masses files stl_init) = None"
    using process_stl_files_append [OF ok] by blast
  have "dom (s_results (fst (process_stl_files trimesh_load eigh masses files stl_init)))
           = dom (s_results stl_init) \<union> fst ` set files"
    by (rule process_stl_files_dom [OF ok])
  then show "dom (s_results (fst (process_stl_files trimesh_load eigh masses files stl_init)))
           = fst ` set files"
    by (simp add: stl_init_def)
  show "\<forall>fl \<in> set files. \<exists>mesh0. trimesh_load (snd fl) = Inr mesh0
             \<and> s_results (fst (process_stl_files trimesh_load eigh masses files stl_init))
                  (fst fl) = Some
                 (let m = (case masses (fst fl) of Some v \<Rightarrow> v | None \<Rightarrow> 1);
                      cm = compute_inertia_from_mesh mesh0 m;
                      dg = diagonalize_inertia eigh (snd (snd (snd cm)))
                  in \<lparr>s_mass = m, s_com = fst (snd (snd cm)),
                      inertia_full = snd (snd (snd cm)), principal_inertia = fst dg,
                      rotation_matrix = fst (snd dg), s_quat = snd (snd dg)\<rparr>)"
  proof
    fix fl assume "fl \<in> set files"
    then have "(fst fl, snd fl) \<in> set files" by simp
    from process_stl_files_values [OF dist ok this]
    show "\<exists>mesh0. trimesh_load (snd fl) = Inr mesh0
             \<and> s_results (fst (process_stl_files trimesh_load eigh masses files stl_init))
                  (fst fl) = Some
                 (let m = (case masses (fst fl) of Some v \<Rightarrow> v | None \<Rightarrow> 1);
                      cm = compute_inertia_from_mesh mesh0 m;
                      dg = diagonalize_inertia eigh (snd (snd (snd cm)))
                  in \<lparr>s_mass = m, s_com = fst (snd (snd cm)),
                      inertia_full = snd (snd (snd cm)), principal_inertia = fst dg,
                      rotation_matrix = fst (snd dg), s_quat = snd (snd dg)\<rparr>)" .
  qed
qed

text \<open>
  Claim C3, as stated: a failure in one body does not keep the later bodies of the
  batch from being computed and recorded. It fails on the batch of a link of unknown
  shape followed by the pelvis: the run ends with the error of the first, and the
  pelvis, which computes on its own, is not recorded.
\<close>

theorem batch_failure_counterexample:
  "calculate_inertia cone_link = Inl (UnknownShape ''cone'')
   \<and> \<not> isl (calculate_inertia pelvis)
   \<and> snd (main [(''cone_link'', cone_link), (''pelvis'', pelvis)]) = Inl (UnknownShape ''cone'')
   \<and> m_results (fst (main_loop [(''cone_link'', cone_link), (''pelvis'', pelvis)] main_init))
        ''pelvis'' = None"
  using cone_link_fails pelvis_value
  by (simp add: main_def main_step_def main_init_def)

text \<open>
  Claim C3, amended. In both loops, over bodies of distinct names, the first body
  whose computation fails ends the run with the error of that body: every body before
  it is recorded with the values computed for it (its mass and centre of mass, its
  moments, tensor and quaternion), and no body after it is recorded. A batch in which
  no body fails has every body recorded with the values computed for it. In the mesh
  loop the step that can fail is the loading of the file.
\<close>

theorem batch_stops_at_first_failure:
  "(distinct (map fst pre) \<and> (\<forall>item \<in> set pre. \<not> isl (calculate_inertia (snd item)))
      \<and> calculate_inertia d = Inl e \<longrightarrow>
       snd (main (pre @ (n, d) # post)) = Inl e
       \<and> dom (m_results (fst (main_loop (pre @ (n, d) # post) main_init))) = fst ` set pre
       \<and> (\<forall>item \<in> set pre. \<exists>ixx iyy izz I_full q.
             calculate_inertia (snd item) = Inr (ixx, iyy, izz, I_full, q)
             \<and> m_results (fst (main_loop (pre @ (n, d) # post) main_init)) (fst item) = Some
                 \<lparr>r_mass = mass (snd item), r_com = com (snd item),
                   diag_inertia = (ixx, iyy, izz), full_inertia = I_full, r_quat = q\<rparr>))
   \<and> (distinct (map fst links) \<and> (\<forall>item \<in> set links. \<not> isl (calculate_inertia (snd item))) \<longrightarrow>
       (\<exists>results. snd (main links) = Inr results \<and> dom results = fst ` set links
          \<and> (\<forall>item \<in> set links. \<exists>ixx iyy izz I_full q.
                calculate_inertia (snd item) = Inr (ixx, iyy, izz, I_full, q)
                \<and> results (fst item) = Some
                 \<lparr>r_mass = mass (snd item), r_com = com (snd item),
                   diag_inertia = (ixx, iyy, izz), full_inertia = I_full, r_quat = q\<rparr>)))
   \<and> (distinct (map fst fpre) \<and> (\<forall>fl \<in> set fpre. \<not> isl (trimesh_load (snd fl)))
      \<and> trimesh_load f = Inl e' \<longrightarrow>
       snd (process_stl_files trimesh_load eigh masses (fpre @ (fname, f) # fpost) stl_init) = Some e'
       \<and> dom (s_results (fst (process_stl_files trimesh_load eigh masses
              (fpre @ (fname, f) # fpost) stl_init))) = fst ` set fpre
       \<and> (\<forall>fl \<in> set fpre. \<exists>mesh0. trimesh_load (snd fl) = Inr mesh0
             \<and> s_results (fst (process_stl_files trimesh_load eigh masses
                  (fpre @ (fname, f) # fpost) stl_init)) (fst fl) = Some
                 (let m = (case masses (fst fl) of Some v \<Rightarrow> v | None \<Rightarrow> 1);
                      cm = compute_inertia_from_mesh mesh0 m;
                      dg = diagonalize_inertia eigh (snd (snd (snd cm)))
                  in \<lparr>s_mass = m, s_com = fst (snd (snd cm)),
                      inertia_full = snd (snd (snd cm)), principal_inertia = fst dg,
                      rotation_matrix = fst (snd dg), s_quat = snd (snd dg)\<rparr>)))
   \<and> (distinct (map fst files) \<and> (\<forall>fl \<in> set files. \<not> isl (trimesh_load (snd fl))) \<longrightarrow>
       snd (process_stl_files trimesh_load eigh masses files stl_init) = None
       \<and> dom (s_results (fst (process_stl_files trimesh_load eigh masses files stl_init)))
           = fst ` set files
       \<and> (\<forall>fl \<in> set files. \<exists>mesh0. trimesh_load (snd fl) = Inr mesh0
             \<and> s_results (fst (process_stl_files trimesh_load eigh masses files stl_init))
                  (fst fl) = Some
                 (let m = (case masses (fst fl) of Some v \<Rightarrow> v | None \<Rightarrow> 1);
                      cm = compute_inertia_from_mesh mesh0 m;
                      dg = diagonalize_inertia eigh (snd (snd (snd cm)))
                  in \<lparr>s_mass = m, s_com = fst (snd (snd cm)),
                      inertia_full = snd (snd (snd cm)), principal_inertia = fst dg,
                      rotation_matrix = fst (snd dg), s_quat = snd (snd dg)\<rparr>)))"
proof (intro conjI impI)
  assume a: "distinct (map fst pre) \<and> (\<forall>item \<in> set pre. \<not> isl (calculate_inertia (snd item)))
      \<and> calculate_inertia d = Inl e"
  then have h: "distinct (map fst pre)" "\<forall>item \<in> set pre. \<not> isl (calculate_inertia (snd item))"
    "calculate_inertia d = Inl e" by blast+
  show "snd (main (pre @ (n, d) # post)) = Inl e" by (rule main_abort(1) [OF h])
  show "dom (m_results (fst (main_loop (pre @ (n, d) # post) main_init))) = fst ` set pre"
    by (rule main_abort(2) [OF h])
  show "\<forall>item \<in> set pre. \<exists>ixx iyy izz I_full q.
             calculate_inertia (snd item) = Inr (ixx, iyy, izz, I_full, q)
             \<and> m_results (fst (main_loop (pre @ (n, d) # post) main_init)) (fst item) = Some
                 \<lparr>r_mass = mass (snd item), r_com = com (snd item),
                   diag_inertia = (ixx, iyy, izz), full_inertia = I_full, r_quat = q\<rparr>"
    by (rule main_abort(3) [OF h])
next
  assume a: "distinct (map fst links) \<and> (\<forall>item \<in> set links. \<not> isl (calculate_inertia (snd item)))"
  then have h: "distinct (map fst links)" "\<forall>item \<in> set links. \<not> isl (calculate_inertia (snd item))"
    by blast+
  from main_all [OF h]
  show "\<exists>results. snd (main links) = Inr results \<and> dom results = fst ` set links
          \<and> (\<forall>item \<in> set links. \<exists>ixx iyy izz I_full q.
                calculate_inertia (snd item) = Inr (ixx, iyy, izz, I_full, q)
                \<and> results (fst item) = Some
                 \<lparr>r_mass = mass (snd item), r_com = com (snd item),
                   diag_inertia = (ixx, iyy, izz), full_inertia = I_full, r_quat = q\<rparr>)"
    by (intro exI conjI)
next
  assume a: "distinct (map fst fpre) \<and> (\<forall>fl \<in> set fpre. \<not> isl (trimesh_load (snd fl)))
      \<and> trimesh_load f = Inl e'"
  then have h: "distinct (map fst fpre)" "\<forall>fl \<in> set fpre. \<not> isl (trimesh_load (snd fl))"
    "trimesh_load f = Inl e'" by blast+
  show "snd (process_stl_files trimesh_load eigh masses (fpre @ (fname, f) # fpost) stl_init) = Some e'"
    by (rule stl_abort(1) [OF h])
  show "dom (s_results (fst (process_stl_files trimesh_load eigh masses
              (fpre @ (fname, f) # fpost) stl_init))) = fst ` set fpre"
    by (rule stl_abort(2) [OF h])
  show "\<forall>fl \<in> set fpre. \<exists>mesh0. trimesh_load (snd fl) = Inr mesh0
             \<and> s_results (fst (process_stl_files trimesh_load eigh masses
                  (fpre @ (fname, f) # fpost) stl_init)) (fst fl) = Some
                 (let m = (case masses (fst fl) of Some v \<Rightarrow> v | None \<Rightarrow> 1);
                      cm = compute_inertia_from_mesh mesh0 m;
                      dg = diagonalize_inertia eigh (snd (snd (snd cm)))
                  in \<lparr>s_mass = m, s_com = fst (snd (snd cm)),
                      inertia_full = snd (snd (snd cm)), principal_inertia = fst dg,
                      rotation_matrix = fst (snd dg), s_quat = snd (snd dg)\<rparr>)"
    by (rule stl_abort(3) [OF h])
next
  assume a: "distinct (map fst files) \<and> (\<forall>fl \<in> set files. \<not> isl (trimesh_load (snd fl)))"
  then have h: "distinct (map fst files)" "\<forall>fl \<in> set files. \<not> isl (trimesh_load (snd fl))"
    by blast+
  show "snd (process_stl_files trimesh_load eigh masses files stl_init) = None"
    by (rule stl_all(1) [OF h])
  show "dom (s_results (fst (process_stl_files trimesh_load eigh masses files stl_init)))
           = fst ` set files"
    by (rule stl_all(2) [OF h])
  show "\<forall>fl \<in> set files. \<exists>mesh0. trimesh_load (snd fl) = Inr mesh0
             \<and> s_results (fst (process_stl_files trimesh_load eigh masses files stl_init))
                  (fst fl) = Some
                 (let m = (case masses (fst fl) of Some v \<Rightarrow> v | None \<Rightarrow> 1);
                      cm = compute_inertia_from_mesh mesh0 m;
                      dg = diagonalize_inertia eigh (snd (snd (snd cm)))
                  in \<lparr>s_mass = m, s_com = fst (snd (snd cm)),
                      inertia_full = snd (snd (snd cm)), principal_inertia = fst dg,
                      rotation_matrix = fst (snd dg), s_quat = snd (snd dg)\<rparr>)"
    by (rule stl_all(3) [OF h])
qed

theorem batch_stops_at_first_failure_witness:
  "\<not> isl (calculate_inertia pelvis) \<and> \<not> isl (calculate_inertia neck_roll_link)
   \<and> calculate_inertia cone_link = Inl (UnknownShape ''cone'')
   \<and> snd (main [(''pelvis'', pelvis), (''cone_link'', cone_link),
                 (''neck_roll_link'', neck_roll_link)]) = Inl (UnknownShape ''cone'')
   \<and> dom (m_results (fst (main_loop [(''pelvis'', pelvis), (''cone_link'', cone_link),
                 (''neck_roll_link'', neck_roll_link)] main_init))) = {''pelvis''}
   \<and> m_results (fst (main_loop [(''pelvis'', pelvis), (''cone_link'', cone_link),
                 (''neck_roll_link'', neck_roll_link)] main_init)) ''pelvis''
       = Some \<lparr>r_mass = 3.34, r_com = [0.00454, 0.0, -0.07726],
                diag_inertia = (167 / 15000, 6513 / 500000, 4843 / 300000),
                full_inertia = None, r_quat = None\<rparr>
   \<and> (\<exists>results. snd (main [(''pelvis'', pelvis), (''neck_roll_link'', neck_roll_link)])
          = Inr results \<and> dom results = {''pelvis'', ''neck_roll_link''}
          \<and> results ''neck_roll_link''
              = Some \<lparr>r_mass = 0.026, r_com = [0.05706, -0.000635, 0.0],
                       diag_inertia = (13 / 3125000, 13 / 3125000, 13 / 3125000),
                       full_inertia = None, r_quat = None\<rparr>)
   \<and> load_example ''meshes/head.STL'' = Inr unit_cube
   \<and> load_example ''meshes/pelvis.STL'' = Inl LoadError
   \<and> load_example ''meshes/torso.STL'' = Inr unit_cube
   \<and> snd (process_stl_files load_example eigh_example [''head'' \<mapsto> 2]
        [(''head'', ''meshes/head.STL''), (''pelvis'', ''meshes/pelvis.STL''),
         (''torso'', ''meshes/torso.STL'')] stl_init) = Some LoadError
   \<and> dom (s_results (fst (process_stl_files load_example eigh_example [''head'' \<mapsto> 2]
        [(''head'', ''meshes/head.STL''), (''pelvis'', ''meshes/pelvis.STL''),
         (''torso'', ''meshes/torso.STL'')] stl_init))) = {''head''}
   \<and> (\<exists>r. s_results (fst (process_stl_files load_example eigh_example [''head'' \<mapsto> 2]
        [(''head'', ''meshes/head.STL''), (''pelvis'', ''meshes/pelvis.STL''),
         (''torso'', ''meshes/torso.STL'')] stl_init)) ''head'' = Some r
        \<and> s_mass r = 2 \<and> s_com r = (0, 0, 0)
        \<and> inertia_full r = ((1/3, 0, 0), (0, 1/3, 0), (0, 0, 1/3))
        \<and> principal_inertia r = (1, 2, 3)
        \<and> rotation_matrix r = ((0, 1, 0), (- 1, 0, 0), (0, 0, 1)))
   \<and> snd (process_stl_files load_example eigh_example [''head'' \<mapsto> 2]
        [(''head'', ''meshes/head.STL''), (''torso'', ''meshes/torso.STL'')] stl_init) = None
   \<and> dom (s_results (fst (process_stl_files load_example eigh_example [''head'' \<mapsto> 2]
        [(''head'', ''meshes/head.STL''), (''torso'', ''meshes/torso.STL'')] stl_init)))
        = {''head'', ''torso''}"
proof -
  let ?L = "[(''pelvis'', pelvis), (''cone_link'', cone_link), (''neck_roll_link'', neck_roll_link)]"
  let ?L2 = "[(''pelvis'', pelvis), (''neck_roll_link'', neck_roll_link)]"
  let ?F = "[(''head'', ''meshes/head.STL''), (''pelvis'', ''meshes/pelvis.STL''),
         (''torso'', ''meshes/torso.STL'')]"
  let ?F2 = "[(''head'', ''meshes/head.STL''), (''torso'', ''meshes/torso.STL'')]"
  note t = batch_stops_at_first_failure
    [where pre = "[(''pelvis'', pelvis)]" and d = cone_link and e = "UnknownShape ''cone''"
       and n = "''cone_link''" and post = "[(''neck_roll_link'', neck_roll_link)]"
       and links = ?L2
       and trimesh_load = load_example and eigh = eigh_example and masses = "[''head'' \<mapsto> 2]"
       and fpre = "[(''head'', ''meshes/head.STL'')]" and f = "''meshes/pelvis.STL''"
       and e' = LoadError and fname = "''pelvis''" and fpost = "[(''torso'', ''meshes/torso.STL'')]"
       and files = ?F2]
  have pk: "\<not> isl (calculate_inertia pelvis)" "\<not> isl (calculate_inertia neck_roll_link)"
    by (simp_all add: pelvis_value neck_roll_link_value)
  have l: "load_example ''meshes/head.STL'' = Inr unit_cube"
    "load_example ''meshes/pelvis.STL'' = Inl LoadError"
    "load_example ''meshes/torso.STL'' = Inr unit_cube"
    by (simp_all add: load_example_def)
  have fields: "mass pelvis = 3.34" "com pelvis = [0.00454, 0.0, -0.07726]"
    "mass neck_roll_link = 0.026" "com neck_roll_link = [0.05706, -0.000635, 0.0]"
    by (simp_all add: pelvis_def neck_roll_link_def)
  have h1: "distinct (map fst [(''pelvis'', pelvis)])
      \<and> (\<forall>item \<in> set [(''pelvis'', pelvis)]. \<not> isl (calculate_inertia (snd item)))
      \<and> calculate_inertia cone_link = Inl (UnknownShape ''cone'')"
    using pk cone_link_fails by simp
  note r1 = t [THEN conjunct1, THEN mp, OF h1, unfolded append_Cons append_Nil]
  from r1 have a1: "snd (main ?L) = Inl (UnknownShape ''cone'')" by (rule conjunct1)
  from r1 have a2: "dom (m_results (fst (main_loop ?L main_init))) = {''pelvis''}"
    by (simp del: main_loop.simps)
  from r1 have "\<forall>item \<in> set [(''pelvis'', pelvis)]. \<exists>ixx iyy izz I_full q.
        calculate_inertia (snd item) = Inr (ixx, iyy, izz, I_full, q)
        \<and> m_results (fst (main_loop ?L main_init)) (fst item)
          = Some \<lparr>r_mass = mass (snd item), r_com = com (snd item),
                   diag_inertia = (ixx, iyy, izz), full_inertia = I_full, r_quat = q\<rparr>"
    by (elim conjE)
  then obtain ixx iyy izz I_full q where
     v: "calculate_inertia pelvis = Inr (ixx, iyy, izz, I_full, q)"
     and m: "m_results (fst (main_loop ?L main_init)) ''pelvis''
          = Some \<lparr>r_mass = mass pelvis, r_com = com pelvis,
                   diag_inertia = (ixx, iyy, izz), full_inertia = I_full, r_quat = q\<rparr>"
    by (auto simp del: main_loop.simps)
  from v have "ixx = 167 / 15000 \<and> iyy = 6513 / 500000 \<and> izz = 4843 / 300000
       \<and> I_full = None \<and> q = None"
    unfolding pelvis_value by simp
  with m have a3: "m_results (fst (main_loop ?L main_init)) ''pelvis''
       = Some \<lparr>r_mass = 3.34, r_com = [0.00454, 0.0, -0.07726],
                diag_inertia = (167 / 15000, 6513 / 500000, 4843 / 300000),
                full_inertia = None, r_quat = None\<rparr>"
    by (simp del: main_loop.simps add: fields)
  have h2: "distinct (map fst ?L2) \<and> (\<forall>item \<in> set ?L2. \<not> isl (calculate_inertia (snd item)))"
    using pk by simp
  note r2 = t [THEN conjunct2, THEN conjunct1, THEN mp, OF h2]
  then obtain results where
     b1: "snd (main ?L2) = Inr results" and b2: "dom results = fst ` set ?L2"
     and b3: "\<forall>item \<in> set ?L2. \<exists>ixx iyy izz I_full q.
        calculate_inertia (snd item) = Inr (ixx, iyy, izz, I_full, q)
        \<and> results (fst item)
          = Some \<lparr>r_mass = mass (snd item), r_com = com (snd item),
                   diag_inertia = (ixx, iyy, izz), full_inertia = I_full, r_quat = q\<rparr>"
    by blast
  from b3 obtain ixx' iyy' izz' I_full' q' where
     v': "calculate_inertia neck_roll_link = Inr (ixx', iyy', izz', I_full', q')"
     and m': "results ''neck_roll_link''
          = Some \<lparr>r_mass = mass neck_roll_link, r_com = com neck_roll_link,
                   diag_inertia = (ixx', iyy', izz'), full_inertia = I_full', r_quat = q'\<rparr>"
    by auto
  from v' have "ixx' = 13 / 3125000 \<and> iyy' = 13 / 3125000 \<and> izz' = 13 / 3125000
       \<and> I_full' = None \<and> q' = None"
    unfolding neck_roll_link_value by simp
  with m' have b4: "results ''neck_roll_link''
              = Some \<lparr>r_mass = 0.026, r_com = [0.05706, -0.000635, 0.0],
                       diag_inertia = (13 / 3125000, 13 / 3125000, 13 / 3125000),
                       full_inertia = None, r_quat = None\<rparr>"
    by (simp add: fields)
  from b2 have b2': "dom results = {''pelvis'', ''neck_roll_link''}" by simp
  have c2: "\<exists>results. snd (main ?L2) = Inr results
          \<and> dom results = {''pelvis'', ''neck_roll_link''}
          \<and> results ''neck_roll_link''
              = Some \<lparr>r_mass = 0.026, r_com = [0.05706, -0.000635, 0.0],
                       diag_inertia = (13 / 3125000, 13 / 3125000, 13 / 3125000),
                       full_inertia = None, r_quat = None\<rparr>"
    using b1 b2' b4 by blast
  have cm: "compute_inertia_from_mesh unit_cube 2
       = (unit_cube\<lparr>density := 2\<rparr>, [], (0, 0, 0), ((1/3, 0, 0), (0, 1/3, 0), (0, 0, 1/3)))"
    by (simp add: compute_inertia_from_mesh_def unit_cube_def moment_inertia_def scale3_def Let_def)
  have dg: "fst (diagonalize_inertia eigh_example A) = (1, 2, 3)
     \<and> fst (snd (diagonalize_inertia eigh_example A)) = ((0, 1, 0), (- 1, 0, 0), (0, 0, 1))" for A
    by (simp add: diagonalize_inertia_def eigh_example_def det3_def negate_column0_def
        argsort3_def nth3_def take3_def select_columns_def Let_def split: prod.splits)
  have h3: "distinct (map fst [(''head'', ''meshes/head.STL'')])
      \<and> (\<forall>fl \<in> set [(''head'', ''meshes/head.STL'')]. \<not> isl (load_example (snd fl)))
      \<and> load_example ''meshes/pelvis.STL'' = Inl LoadError"
    using l by simp
  note r3 = t [THEN conjunct2, THEN conjunct2, THEN conjunct1, THEN mp, OF h3,
      unfolded append_Cons append_Nil]
  from r3 have d1: "snd (process_stl_files load_example eigh_example [''head'' \<mapsto> 2] ?F stl_init)
       = Some LoadError" by (rule conjunct1)
  from r3 have d2: "dom (s_results (fst (process_stl_files load_example eigh_example
       [''head'' \<mapsto> 2] ?F stl_init))) = {''head''}"
    by (simp del: process_stl_files.simps)
  from r3 obtain mesh0 where
     w: "load_example ''meshes/head.STL'' = Inr mesh0"
     and sr: "s_results (fst (process_stl_files load_example eigh_example
       [''head'' \<mapsto> 2] ?F stl_init)) ''head''
        = Some (let m = (case [''head'' \<mapsto> 2::real] ''head'' of Some v \<Rightarrow> v | None \<Rightarrow> 1);
                    cm = compute_inertia_from_mesh mesh0 m;
                    dg = diagonalize_inertia eigh_example (snd (snd (snd cm)))
                in \<lparr>s_mass = m, s_com = fst (snd (snd cm)), inertia_full = snd (snd (snd cm)),
                     principal_inertia = fst dg, rotation_matrix = fst (snd dg),
                     s_quat = snd (snd dg)\<rparr>)"
    by (auto simp del: process_stl_files.simps)
  from w have mesh0: "mesh0 = unit_cube" unfolding l by simp
  have d3: "\<exists>r. s_results (fst (process_stl_files load_example eigh_example
       [''head'' \<mapsto> 2] ?F stl_init)) ''head'' = Some r
        \<and> s_mass r = 2 \<and> s_com r = (0, 0, 0)
        \<and> inertia_full r = ((1/3, 0, 0), (0, 1/3, 0), (0, 0, 1/3))
        \<and> principal_inertia r = (1, 2, 3)
        \<and> rotation_matrix r = ((0, 1, 0), (- 1, 0, 0), (0, 0, 1))"
    unfolding sr mesh0 by (simp add: cm dg Let_def)
  have h4: "distinct (map fst ?F2) \<and> (\<forall>fl \<in> set ?F2. \<not> isl (load_example (snd fl)))"
    using l by simp
  note r4 = t [THEN conjunct2, THEN conjunct2, THEN conjunct2, THEN mp, OF h4]
  from r4 have e1: "snd (process_stl_files load_example eigh_example [''head'' \<mapsto> 2] ?F2 stl_init)
       = None" by (rule conjunct1)
  from r4 have e2: "dom (s_results (fst (process_stl_files load_example eigh_example
       [''head'' \<mapsto> 2] ?F2 stl_init))) = {''head'', ''torso''}"
    by (simp del: process_stl_files.simps)
  show ?thesis
    using pk cone_link_fails a1 a2 a3 c2 l d1 d2 d3 e1 e2 by (intro conjI)
qed

subsection \<open>Diagonalisation\<close>

text \<open>
  A matrix with orthonormal columns and determinant one equals its matrix of
  cofactors; the four branches of \<^verbatim>\<open>from_matrix\<close> then give, before normalisation, a
  quaternion whose matrix is the rotation times four times the pivot component.
\<close>

lemma orthonormal_columns_entries:
  "orthonormal_columns ((a, b, c), (d, e, f), (g, h, i)) \<longleftrightarrow>
     a*a + d*d + g*g = 1 \<and> b*b + e*e + h*h = 1 \<and> c*c + f*f + i*i = 1
     \<and> a*b + d*e + g*h = 0 \<and> a*c + d*f + g*i = 0 \<and> b*c + e*f + h*i = 0"
  unfolding orthonormal_columns_def matmul_def transpose3_def dot3_def identity3_def
  by (auto simp: mult.commute)

lemma three_squares_zero:
  fixes x y z :: real
  assumes "x * x + y * y + z * z = 0"
  shows "x = 0" "y = 0" "z = 0"
proof -
  have nn: "0 \<le> x * x" "0 \<le> y * y" "0 \<le> z * z" by simp_all
  from assms nn have "x * x = 0" "y * y = 0" "z * z = 0" by linarith+
  then show "x = 0" "y = 0" "z = 0" by simp_all
qed

lemma cofactor_column0:
  fixes a b c d e f g h i :: real
  assumes n0: "a*a + d*d + g*g = 1" and n1: "b*b + e*e + h*h = 1" and n2: "c*c + f*f + i*i = 1"
    and o12: "b*c + e*f + h*i = 0"
    and dt: "a * (e * i - f * h) - b * (d * i - f * g) + c * (d * h - e * g) = 1"
  shows "a = e*i - f*h" "d = c*h - b*i" "g = b*f - c*e"
proof -
  have "(a - (e*i - f*h)) * (a - (e*i - f*h)) + (d - (c*h - b*i)) * (d - (c*h - b*i))
        + (g - (b*f - c*e)) * (g - (b*f - c*e))
      = (a*a + d*d + g*g)
        - 2 * (a * (e * i - f * h) - b * (d * i - f * g) + c * (d * h - e * g))
        + (b*b + e*e + h*h) * (c*c + f*f + i*i) - (b*c + e*f + h*i) * (b*c + e*f + h*i)"
    by (simp add: algebra_simps)
  also have "\<dots> = 0" unfolding n0 n1 n2 o12 dt by simp
  finally have "(a - (e*i - f*h)) * (a - (e*i - f*h)) + (d - (c*h - b*i)) * (d - (c*h - b*i))
        + (g - (b*f - c*e)) * (g - (b*f - c*e)) = 0" .
  from three_squares_zero [OF this] show "a = e*i - f*h" "d = c*h - b*i" "g = b*f - c*e"
    by simp_all
qed

lemma rotation_cofactors:
  fixes a b c d e f g h i :: real
  assumes n0: "a*a + d*d + g*g = 1" and n1: "b*b + e*e + h*h = 1" and n2: "c*c + f*f + i*i = 1"
    and o01: "a*b + d*e + g*h = 0" and o02: "a*c + d*f + g*i = 0" and o12: "b*c + e*f + h*i = 0"
    and dt: "a * (e * i - f * h) - b * (d * i - f * g) + c * (d * h - e * g) = 1"
  shows "a = e*i - f*h" "d = c*h - b*i" "g = b*f - c*e"
    and "b = f*g - d*i" "e = a*i - c*g" "h = c*d - a*f"
    and "c = d*h - e*g" "f = b*g - a*h" "i = a*e - b*d"
proof -
  show "a = e*i - f*h" "d = c*h - b*i" "g = b*f - c*e"
    using cofactor_column0 [OF n0 n1 n2 o12 dt] by simp_all
  have o20: "c*a + f*d + i*g = 0" using o02 by (simp add: mult.commute)
  have dt1: "b * (f * g - d * i) - c * (e * g - d * h) + a * (e * i - f * h) = 1"
    using dt by (simp add: algebra_simps)
  show "b = f*g - d*i" "e = a*i - c*g" "h = c*d - a*f"
    using cofactor_column0 [OF n1 n2 n0 o20 dt1] by simp_all
  have dt2: "c * (d * h - e * g) - a * (f * h - e * i) + b * (f * g - d * i) = 1"
    using dt by (simp add: algebra_simps)
  show "c = d*h - e*g" "f = b*g - a*h" "i = a*e - b*d"
    using cofactor_column0 [OF n2 n0 n1 o01 dt2] by simp_all
qed

lemma pivot_w_identities:
  fixes a b c d e f g h i :: real
  assumes n0: "a*a + d*d + g*g = 1" and n1: "b*b + e*e + h*h = 1" and n2: "c*c + f*f + i*i = 1"
    and o01: "a*b + d*e + g*h = 0" and o02: "a*c + d*f + g*i = 0" and o12: "b*c + e*f + h*i = 0"
    and c0: "a = e*i - f*h" "d = c*h - b*i" "g = b*f - c*e"
    and c1: "b = f*g - d*i" "e = a*i - c*g" "h = c*d - a*f"
    and c2: "c = d*h - e*g" "f = b*g - a*h" "i = a*e - b*d"
  defines "x \<equiv> h - f" and "y \<equiv> c - g" and "z \<equiv> d - b" and "w \<equiv> 1 + (a + e + i)"
  shows "x*x + y*y + z*z + w*w = 4 * w"
    and "x*x - y*y - z*z + w*w = 4 * w * a"
    and "2 * (x * y - z * w) = 4 * w * b"
    and "2 * (x * z + y * w) = 4 * w * c"
    and "2 * (x * y + z * w) = 4 * w * d"
    and "- (x*x) + y*y - z*z + w*w = 4 * w * e"
    and "2 * (y * z - x * w) = 4 * w * f"
    and "2 * (x * z - y * w) = 4 * w * g"
    and "2 * (y * z + x * w) = 4 * w * h"
    and "- (x*x) - y*y + z*z + w*w = 4 * w * i"
  unfolding x_def y_def z_def w_def
  using n0 n1 n2 o01 o02 o12 c0 c1 c2 by algebra+

lemma pivot_x_identities:
  fixes a b c d e f g h i :: real
  assumes n0: "a*a + d*d + g*g = 1" and n1: "b*b + e*e + h*h = 1" and n2: "c*c + f*f + i*i = 1"
    and o01: "a*b + d*e + g*h = 0" and o02: "a*c + d*f + g*i = 0" and o12: "b*c + e*f + h*i = 0"
    and c0: "a = e*i - f*h" "d = c*h - b*i" "g = b*f - c*e"
    and c1: "b = f*g - d*i" "e = a*i - c*g" "h = c*d - a*f"
    and c2: "c = d*h - e*g" "f = b*g - a*h" "i = a*e - b*d"
  defines "x \<equiv> 1 - (a + e + i) + 2 * a" and "y \<equiv> d + b" and "z \<equiv> g + c" and "w \<equiv> h - f"
  shows "x*x + y*y + z*z + w*w = 4 * x"
    and "x*x - y*y - z*z + w*w = 4 * x * a"
    and "2 * (x * y - z * w) = 4 * x * b"
    and "2 * (x * z + y * w) = 4 * x * c"
    and "2 * (x * y + z * w) = 4 * x * d"
    and "- (x*x) + y*y - z*z + w*w = 4 * x * e"
    and "2 * (y * z - x * w) = 4 * x * f"
    and "2 * (x * z - y * w) = 4 * x * g"
    and "2 * (y * z + x * w) = 4 * x * h"
    and "- (x*x) - y*y + z*z + w*w = 4 * x * i"
  unfolding x_def y_def z_def w_def
  using n0 n1 n2 o01 o02 o12 c0 c1 c2 by algebra+

lemma pivot_y_identities:
  fixes a b c d e f g h i :: real
  assumes n0: "a*a + d*d + g*g = 1" and n1: "b*b + e*e + h*h = 1" and n2: "c*c + f*f + i*i = 1"
    and o01: "a*b + d*e + g*h = 0" and o02: "a*c + d*f + g*i = 0" and o12: "b*c + e*f + h*i = 0"
    and c0: "a = e*i - f*h" "d = c*h - b*i" "g = b*f - c*e"
    and c1: "b = f*g - d*i" "e = a*i - c*g" "h = c*d - a*f"
    and c2: "c = d*h - e*g" "f = b*g - a*h" "i = a*e - b*d"
  defines "x \<equiv> b + d" and "y \<equiv> 1 - (a + e + i) + 2 * e" and "z \<equiv> h + f" and "w \<equiv> c - g"
  shows "x*x + y*y + z*z + w*w = 4 * y"
    and "x*x - y*y - z*z + w*w = 4 * y * a"
    and "2 * (x * y - z * w) = 4 * y * b"
    and "2 * (x * z + y * w) = 4 * y * c"
    and "2 * (x * y + z * w) = 4 * y * d"
    and "- (x*x) + y*y - z*z + w*w = 4 * y * e"
    and "2 * (y * z - x * w) = 4 * y * f"
    and "2 * (x * z - y * w) = 4 * y * g"
    and "2 * (y * z + x * w) = 4 * y * h"
    and "- (x*x) - y*y + z*z + w*w = 4 * y * i"
  unfolding x_def y_def z_def w_def
  using n0 n1 n2 o01 o02 o12 c0 c1 c2 by algebra+

lemma pivot_z_identities:
  fixes a b c d e f g h i :: real
  assumes n0: "a*a + d*d + g*g = 1" and n1: "b*b + e*e + h*h = 1" and n2: "c*c + f*f + i*i = 1"
    and o01: "a*b + d*e + g*h = 0" and o02: "a*c + d*f + g*i = 0" and o12: "b*c + e*f + h*i = 0"
    and c0: "a = e*i - f*h" "d = c*h - b*i" "g = b*f - c*e"
    and c1: "b = f*g - d*i" "e = a*i - c*g" "h = c*d - a*f"
    and c2: "c = d*h - e*g" "f = b*g - a*h" "i = a*e - b*d"
  defines "x \<equiv> c + g" and "y \<equiv> f + h" and "z \<equiv> 1 - (a + e + i) + 2 * i" and "w \<equiv> d - b"
  shows "x*x + y*y + z*z + w*w = 4 * z"
    and "x*x - y*y - z*z + w*w = 4 * z * a"
    and "2 * (x * y - z * w) = 4 * z * b"
    and "2 * (x * z + y * w) = 4 * z * c"
    and "2 * (x * y + z * w) = 4 * z * d"
    and "- (x*x) + y*y - z*z + w*w = 4 * z * e"
    and "2 * (y * z - x * w) = 4 * z * f"
    and "2 * (x * z - y * w) = 4 * z * g"
    and "2 * (y * z + x * w) = 4 * z * h"
    and "- (x*x) - y*y + z*z + w*w = 4 * z * i"
  unfolding x_def y_def z_def w_def
  using n0 n1 n2 o01 o02 o12 c0 c1 c2 by algebra+

lemma argmax4_cases:
  "(argmax4 a0 a1 a2 a3 = 0 \<and> a1 \<le> a0 \<and> a2 \<le> a0 \<and> a3 \<le> a0)
   \<or> (argmax4 a0 a1 a2 a3 = 1 \<and> a0 < a1 \<and> a2 \<le> a1 \<and> a3 \<le> a1)
   \<or> (argmax4 a0 a1 a2 a3 = 2 \<and> a0 < a2 \<and> a1 < a2 \<and> a3 \<le> a2)
   \<or> (argmax4 a0 a1 a2 a3 = 3 \<and> a0 < a3 \<and> a1 < a3 \<and> a2 < a3)"
  by (auto simp: argmax4_def Let_def)

lemma normalize4_unit_matrix:
  fixes x y z w k :: real
  assumes k: "0 < k"
    and N: "x*x + y*y + z*z + w*w = 4 * k"
    and m00: "x*x - y*y - z*z + w*w = 4 * k * a"
    and m01: "2 * (x * y - z * w) = 4 * k * b"
    and m02: "2 * (x * z + y * w) = 4 * k * c"
    and m10: "2 * (x * y + z * w) = 4 * k * d"
    and m11: "- (x*x) + y*y - z*z + w*w = 4 * k * e"
    and m12: "2 * (y * z - x * w) = 4 * k * f"
    and m20: "2 * (x * z - y * w) = 4 * k * g"
    and m21: "2 * (y * z + x * w) = 4 * k * h"
    and m22: "- (x*x) - y*y + z*z + w*w = 4 * k * i"
  shows "\<exists>qx qy qz qw. normalize4 (x, y, z, w) = (qx, qy, qz, qw)
           \<and> qw\<^sup>2 + qx\<^sup>2 + qy\<^sup>2 + qz\<^sup>2 = 1
           \<and> as_matrix (qx, qy, qz, qw) = ((a, b, c), (d, e, f), (g, h, i))"
proof -
  define n where "n = norm4 (x, y, z, w)"
  have nn: "n * n = 4 * k"
  proof -
    have "0 \<le> x\<^sup>2 + y\<^sup>2 + z\<^sup>2 + w\<^sup>2" by simp
    then have "n * n = x\<^sup>2 + y\<^sup>2 + z\<^sup>2 + w\<^sup>2"
      unfolding n_def norm4_def by simp
    with N show ?thesis by (simp add: power2_eq_square)
  qed
  with k have n0: "n \<noteq> 0" by auto
  have q: "normalize4 (x, y, z, w) = (x / n, y / n, z / n, w / n)"
    by (simp add: normalize4_def n_def Let_def)
  have dv: "\<And>u v. (u / n) * (v / n) = (u * v) / (4 * k)"
    using nn by simp
  have k4: "4 * k \<noteq> 0" using k by simp
  have unit: "(w / n)\<^sup>2 + (x / n)\<^sup>2 + (y / n)\<^sup>2 + (z / n)\<^sup>2 = 1"
  proof -
    have "(w / n)\<^sup>2 + (x / n)\<^sup>2 + (y / n)\<^sup>2 + (z / n)\<^sup>2
          = (x*x + y*y + z*z + w*w) / (4 * k)"
      unfolding power2_eq_square dv by (simp add: add_divide_distrib)
    also have "\<dots> = 1" unfolding N using k4 by simp
    finally show ?thesis .
  qed
  have e00: "(x / n)\<^sup>2 - (y / n)\<^sup>2 - (z / n)\<^sup>2 + (w / n)\<^sup>2 = a"
  proof -
    have "(x / n)\<^sup>2 - (y / n)\<^sup>2 - (z / n)\<^sup>2 + (w / n)\<^sup>2 = (x*x - y*y - z*z + w*w) / (4 * k)"
      unfolding power2_eq_square dv by (simp add: add_divide_distrib diff_divide_distrib)
    also have "\<dots> = a" unfolding m00 using k4 by simp
    finally show ?thesis .
  qed
  have e11: "- (x / n)\<^sup>2 + (y / n)\<^sup>2 - (z / n)\<^sup>2 + (w / n)\<^sup>2 = e"
  proof -
    have "- (x / n)\<^sup>2 + (y / n)\<^sup>2 - (z / n)\<^sup>2 + (w / n)\<^sup>2 = (- (x*x) + y*y - z*z + w*w) / (4 * k)"
      unfolding power2_eq_square dv by (simp add: add_divide_distrib diff_divide_distrib)
    also have "\<dots> = e" unfolding m11 using k4 by simp
    finally show ?thesis .
  qed
  have e22: "- (x / n)\<^sup>2 - (y / n)\<^sup>2 + (z / n)\<^sup>2 + (w / n)\<^sup>2 = i"
  proof -
    have "- (x / n)\<^sup>2 - (y / n)\<^sup>2 + (z / n)\<^sup>2 + (w / n)\<^sup>2 = (- (x*x) - y*y + z*z + w*w) / (4 * k)"
      unfolding power2_eq_square dv by (simp add: add_divide_distrib diff_divide_distrib)
    also have "\<dots> = i" unfolding m22 using k4 by simp
    finally show ?thesis .
  qed
  have off: "\<And>u1 v1 u2 v2 r. 2 * (u1 * v1 - u2 * v2) = 4 * k * r \<Longrightarrow>
                 2 * ((u1 / n) * (v1 / n) - (u2 / n) * (v2 / n)) = r"
    "\<And>u1 v1 u2 v2 r. 2 * (u1 * v1 + u2 * v2) = 4 * k * r \<Longrightarrow>
                 2 * ((u1 / n) * (v1 / n) + (u2 / n) * (v2 / n)) = r"
  proof -
    fix u1 v1 u2 v2 r :: real
    {
      assume h: "2 * (u1 * v1 - u2 * v2) = 4 * k * r"
      have "2 * ((u1 / n) * (v1 / n) - (u2 / n) * (v2 / n)) = (2 * (u1 * v1 - u2 * v2)) / (4 * k)"
        unfolding dv by (simp add: diff_divide_distrib)
      also have "\<dots> = r" unfolding h using k4 by simp
      finally show "2 * ((u1 / n) * (v1 / n) - (u2 / n) * (v2 / n)) = r" .
    }
    {
      assume h: "2 * (u1 * v1 + u2 * v2) = 4 * k * r"
      have "2 * ((u1 / n) * (v1 / n) + (u2 / n) * (v2 / n)) = (2 * (u1 * v1 + u2 * v2)) / (4 * k)"
        unfolding dv by (simp add: add_divide_distrib)
      also have "\<dots> = r" unfolding h using k4 by simp
      finally show "2 * ((u1 / n) * (v1 / n) + (u2 / n) * (v2 / n)) = r" .
    }
  qed
  have m: "as_matrix (x / n, y / n, z / n, w / n) = ((a, b, c), (d, e, f), (g, h, i))"
    unfolding as_matrix_def prod.case
    using e00 e11 e22 off(1) [OF m01] off(2) [OF m02] off(2) [OF m10] off(1) [OF m12]
      off(1) [OF m20] off(2) [OF m21]
    by simp
  from q unit m show ?thesis by blast
qed

lemma from_matrix_rotation:
  assumes orth: "orthonormal_columns R" and det: "det3 R = 1"
  shows "\<exists>qx qy qz qw. from_matrix R = (qx, qy, qz, qw)
           \<and> qw\<^sup>2 + qx\<^sup>2 + qy\<^sup>2 + qz\<^sup>2 = 1
           \<and> as_matrix (qx, qy, qz, qw) = R"
proof -
  obtain a b c d e f g h i where R: "R = ((a, b, c), (d, e, f), (g, h, i))"
    by (metis prod_cases3)
  from orth have n0: "a*a + d*d + g*g = 1" and n1: "b*b + e*e + h*h = 1"
    and n2: "c*c + f*f + i*i = 1" and o01: "a*b + d*e + g*h = 0"
    and o02: "a*c + d*f + g*i = 0" and o12: "b*c + e*f + h*i = 0"
    unfolding R orthonormal_columns_entries by simp_all
  from det have dt: "a * (e * i - f * h) - b * (d * i - f * g) + c * (d * h - e * g) = 1"
    unfolding R det3_def by simp
  note cof = rotation_cofactors [OF n0 n1 n2 o01 o02 o12 dt]
  note facts = n0 n1 n2 o01 o02 o12 cof
  from argmax4_cases [of a e i "a + e + i"]
  consider (c0) "argmax4 a e i (a + e + i) = 0" "e \<le> a" "i \<le> a" "a + e + i \<le> a"
    | (c1) "argmax4 a e i (a + e + i) = 1" "a < e" "i \<le> e" "a + e + i \<le> e"
    | (c2) "argmax4 a e i (a + e + i) = 2" "a < i" "e < i" "a + e + i \<le> i"
    | (c3) "argmax4 a e i (a + e + i) = 3" "a < a + e + i" "e < a + e + i" "i < a + e + i"
    by (elim disjE conjE) (erule meta_mp | assumption)+
  then show ?thesis
  proof cases
    case c0
    have k: "0 < 1 - (a + e + i) + 2 * a" using c0(2-4) by linarith
    have fm: "from_matrix R = normalize4 (1 - (a + e + i) + 2 * a, d + b, g + c, h - f)"
      by (simp add: from_matrix_def R Let_def c0(1))
    from normalize4_unit_matrix [OF k pivot_x_identities [OF facts]] show ?thesis
      unfolding fm unfolding R .
  next
    case c1
    have k: "0 < 1 - (a + e + i) + 2 * e" using c1(2-4) by linarith
    have fm: "from_matrix R = normalize4 (b + d, 1 - (a + e + i) + 2 * e, h + f, c - g)"
      by (simp add: from_matrix_def R Let_def c1(1))
    from normalize4_unit_matrix [OF k pivot_y_identities [OF facts]] show ?thesis
      unfolding fm unfolding R .
  next
    case c2
    have k: "0 < 1 - (a + e + i) + 2 * i" using c2(2-4) by linarith
    have fm: "from_matrix R = normalize4 (c + g, f + h, 1 - (a + e + i) + 2 * i, d - b)"
      by (simp add: from_matrix_def R Let_def c2(1))
    from normalize4_unit_matrix [OF k pivot_z_identities [OF facts]] show ?thesis
      unfolding fm unfolding R .
  next
    case c3
    have k: "0 < 1 + (a + e + i)" using c3(2-4) by linarith
    have fm: "from_matrix R = normalize4 (h - f, c - g, d - b, 1 + (a + e + i))"
      by (simp add: from_matrix_def R Let_def c3(1))
    from normalize4_unit_matrix [OF k pivot_w_identities [OF facts]] show ?thesis
      unfolding fm unfolding R .
  qed
qed

lemma orthonormal_det_square:
  assumes "orthonormal_columns V"
  shows "det3 V * det3 V = 1"
proof -
  obtain a b c d e f g h i where V: "V = ((a, b, c), (d, e, f), (g, h, i))"
    by (metis prod_cases3)
  from assms have n0: "a*a + d*d + g*g = 1" and n1: "b*b + e*e + h*h = 1"
    and n2: "c*c + f*f + i*i = 1" and o01: "a*b + d*e + g*h = 0"
    and o02: "a*c + d*f + g*i = 0" and o12: "b*c + e*f + h*i = 0"
    unfolding V orthonormal_columns_entries by simp_all
  have "(a * (e * i - f * h) - b * (d * i - f * g) + c * (d * h - e * g))
        * (a * (e * i - f * h) - b * (d * i - f * g) + c * (d * h - e * g))
      = (a*a + d*d + g*g) * (b*b + e*e + h*h) * (c*c + f*f + i*i)
        + 2 * (a*b + d*e + g*h) * (a*c + d*f + g*i) * (b*c + e*f + h*i)
        - (a*a + d*d + g*g) * (b*c + e*f + h*i) * (b*c + e*f + h*i)
        - (b*b + e*e + h*h) * (a*c + d*f + g*i) * (a*c + d*f + g*i)
        - (c*c + f*f + i*i) * (a*b + d*e + g*h) * (a*b + d*e + g*h)"
    by (simp add: algebra_simps)
  also have "\<dots> = 1" unfolding n0 n1 n2 o01 o02 o12 by simp
  finally show ?thesis unfolding V det3_def by simp
qed

lemma orthonormal_det: "orthonormal_columns V \<Longrightarrow> det3 V = 1 \<or> det3 V = - 1"
  using orthonormal_det_square [of V] by (simp add: square_eq_1_iff)

lemma det3_negate_column0: "det3 (negate_column0 V) = - det3 V"
  by (cases V rule: prod_cases3; rename_tac r0 r1 r2; case_tac r0 rule: prod_cases3;
      case_tac r1 rule: prod_cases3; case_tac r2 rule: prod_cases3)
     (simp add: det3_def negate_column0_def algebra_simps)

lemma orthonormal_negate_column0:
  "orthonormal_columns V \<Longrightarrow> orthonormal_columns (negate_column0 V)"
proof -
  assume o: "orthonormal_columns V"
  obtain a b c d e f g h i where V: "V = ((a, b, c), (d, e, f), (g, h, i))"
    by (metis prod_cases3)
  from o show ?thesis
    unfolding V negate_column0_def prod.case orthonormal_columns_entries by simp
qed

lemma eigen_negate_column0:
  assumes "matmul A V = matmul V (np_diag w)"
  shows "matmul A (negate_column0 V) = matmul (negate_column0 V) (np_diag w)"
proof -
  obtain a b c d e f g h i where V: "V = ((a, b, c), (d, e, f), (g, h, i))"
    by (metis prod_cases3)
  obtain a0 a1 a2 a3 a4 a5 a6 a7 a8 where A: "A = ((a0, a1, a2), (a3, a4, a5), (a6, a7, a8))"
    by (metis prod_cases3)
  obtain w0 w1 w2 where w: "w = (w0, w1, w2)" by (metis prod_cases3)
  from assms show ?thesis
    unfolding V A w matmul_def negate_column0_def np_diag_def transpose3_def dot3_def prod.case
    by (simp add: algebra_simps)
qed

lemma argsort3_ascending: "ascending3 w \<Longrightarrow> argsort3 w = [0, 1, 2]"
  by (cases w rule: prod_cases3) (simp add: ascending3_def argsort3_def nth3_def)

lemma take3_identity: "take3 v [0, 1, 2] = v"
  by (cases v rule: prod_cases3) (simp add: take3_def nth3_def)

lemma select_columns_identity: "select_columns V [0, 1, 2] = V"
  using take3_identity by (cases V rule: prod_cases3) (simp add: select_columns_def)

lemma take3_identity_Suc: "take3 v [0, Suc 0, 2] = v"
  using take3_identity [of v] by simp

lemma select_columns_identity_Suc: "select_columns V [0, Suc 0, 2] = V"
  using select_columns_identity [of V] by simp

lemma quat_roundtrip:
  assumes "qw\<^sup>2 + qx\<^sup>2 + qy\<^sup>2 + qz\<^sup>2 = 1"
  shows "quat_to_rotation_matrix [qw, qx, qy, qz] = Inr (as_matrix (qx, qy, qz, qw))"
  using from_quat_unit [OF assms] by (simp add: quat_to_rotation_matrix_def)

text \<open>
  Claim C5. For a symmetric tensor \<open>A\<close>, \<^verbatim>\<open>diagonalize_inertia\<close> returns the
  eigenvalues in ascending order, a matrix of eigenvectors that is a rotation
  (orthonormal columns, determinant one, the first column negated when needed) and the
  scalar-first quaternion of unit norm whose rotation matrix, by
  \<^verbatim>\<open>quat_to_rotation_matrix\<close>, is that matrix. The eigen-decomposition is the
  parameter \<open>eigh\<close>; what numpy documents of it on a symmetric matrix is assumed of its
  result on \<open>A\<close>: ascending eigenvalues \<open>w\<close> and orthonormal eigenvectors, the columns
  of \<open>V\<close>, with \<open>A V = V diag(w)\<close>.
\<close>

theorem diagonalize_inertia_proper_rotation:
  assumes eg: "eigh A = (w, V)"
    and asc: "ascending3 w"
    and orth: "orthonormal_columns V"
    and ev: "matmul A V = matmul V (np_diag w)"
  shows "case diagonalize_inertia eigh A of (p, R, q) \<Rightarrow>
           p = w \<and> ascending3 p
         \<and> matmul A R = matmul R (np_diag p)
         \<and> orthonormal_columns R \<and> det3 R = 1
         \<and> (\<exists>qw qx qy qz. q = [qw, qx, qy, qz] \<and> qw\<^sup>2 + qx\<^sup>2 + qy\<^sup>2 + qz\<^sup>2 = 1
               \<and> quat_to_rotation_matrix q = Inr R)"
proof -
  define R where "R = (if det3 V < 0 then negate_column0 V else V)"
  have oR: "orthonormal_columns R"
    using orth by (simp add: R_def orthonormal_negate_column0)
  have dR: "det3 R = 1"
    using orthonormal_det [OF orth] by (auto simp: R_def det3_negate_column0)
  have eR: "matmul A R = matmul R (np_diag w)"
    using ev by (simp add: R_def eigen_negate_column0)
  from from_matrix_rotation [OF oR dR] obtain qx qy qz qw
    where fm: "from_matrix R = (qx, qy, qz, qw)"
      and unit: "qw\<^sup>2 + qx\<^sup>2 + qy\<^sup>2 + qz\<^sup>2 = 1"
      and am: "as_matrix (qx, qy, qz, qw) = R"
    by blast
  have d: "diagonalize_inertia eigh A = (w, R, [qw, qx, qy, qz])"
    by (simp add: diagonalize_inertia_def eg argsort3_ascending [OF asc] take3_identity_Suc
        select_columns_identity_Suc as_quat_def Let_def fm flip: R_def)
  have rt: "quat_to_rotation_matrix [qw, qx, qy, qz] = Inr R"
    using quat_roundtrip [OF unit] by (simp add: am)
  from asc eR oR dR unit rt show ?thesis
    unfolding d by simp
qed

theorem diagonalize_inertia_proper_rotation_witness:
  "eigh_example (np_diag (2, 1, 3)) = ((1, 2, 3), ((0, 1, 0), (1, 0, 0), (0, 0, 1)))
   \<and> ascending3 (1, 2, 3)
   \<and> orthonormal_columns ((0, 1, 0), (1, 0, 0), (0, 0, 1))
   \<and> det3 ((0, 1, 0), (1, 0, 0), (0, 0, 1)) = - 1
   \<and> matmul (np_diag (2, 1, 3)) ((0, 1, 0), (1, 0, 0), (0, 0, 1))
       = matmul ((0, 1, 0), (1, 0, 0), (0, 0, 1)) (np_diag (1, 2, 3))
   \<and> fst (diagonalize_inertia eigh_example (np_diag (2, 1, 3))) = (1, 2, 3)
   \<and> fst (snd (diagonalize_inertia eigh_example (np_diag (2, 1, 3))))
       = ((0, 1, 0), (- 1, 0, 0), (0, 0, 1))
   \<and> det3 ((0, 1, 0), (- 1, 0, 0), (0, 0, 1)) = 1
   \<and> (\<exists>qw qx qy qz.
         snd (snd (diagonalize_inertia eigh_example (np_diag (2, 1, 3)))) = [qw, qx, qy, qz]
         \<and> qw\<^sup>2 + qx\<^sup>2 + qy\<^sup>2 + qz\<^sup>2 = 1
         \<and> quat_to_rotation_matrix [qw, qx, qy, qz] = Inr ((0, 1, 0), (- 1, 0, 0), (0, 0, 1)))"
proof -
  have eg: "eigh_example (np_diag (2, 1, 3)) = ((1, 2, 3), ((0, 1, 0), (1, 0, 0), (0, 0, 1)))"
    by (simp add: eigh_example_def)
  have asc: "ascending3 (1, 2, 3)" by (simp add: ascending3_def)
  have orth: "orthonormal_columns ((0, 1, 0), (1, 0, 0), (0, 0, 1))"
    by (simp add: orthonormal_columns_entries)
  have dm: "det3 ((0, 1, 0), (1, 0, 0), (0, 0, 1)) = - 1" by (simp add: det3_def)
  have ev: "matmul (np_diag (2, 1, 3)) ((0, 1, 0), (1, 0, 0), (0, 0, 1))
       = matmul ((0, 1, 0), (1, 0, 0), (0, 0, 1)) (np_diag (1, 2, 3))"
    by (simp add: matmul_def np_diag_def transpose3_def dot3_def)
  have R: "fst (snd (diagonalize_inertia eigh_example (np_diag (2, 1, 3))))
       = ((0, 1, 0), (- 1, 0, 0), (0, 0, 1))"
    by (simp add: diagonalize_inertia_def eigh_example_def det3_def negate_column0_def
        argsort3_ascending [OF asc] select_columns_identity_Suc Let_def split: prod.splits)
  note t = diagonalize_inertia_proper_rotation
    [where eigh = eigh_example and A = "np_diag (2, 1, 3)", OF eg asc orth ev]
  obtain p R' q where d: "diagonalize_inertia eigh_example (np_diag (2, 1, 3)) = (p, R', q)"
    by (metis prod_cases3)
  from R have R': "R' = ((0, 1, 0), (- 1, 0, 0), (0, 0, 1))" by (simp add: d)
  from t have "p = (1, 2, 3) \<and> det3 R' = 1
     \<and> (\<exists>qw qx qy qz. q = [qw, qx, qy, qz] \<and> qw\<^sup>2 + qx\<^sup>2 + qy\<^sup>2 + qz\<^sup>2 = 1
               \<and> quat_to_rotation_matrix q = Inr R')"
    unfolding d by simp
  then have c: "p = (1, 2, 3)" "det3 ((0, 1, 0), (- 1, 0, 0), (0, 0, 1)) = 1"
    "\<exists>qw qx qy qz. q = [qw, qx, qy, qz] \<and> qw\<^sup>2 + qx\<^sup>2 + qy\<^sup>2 + qz\<^sup>2 = 1
        \<and> quat_to_rotation_matrix [qw, qx, qy, qz] = Inr ((0, 1, 0), (- 1, 0, 0), (0, 0, 1))"
    unfolding R' by auto
  from eg asc orth dm ev c show ?thesis
    unfolding d by (simp add: R')
qed

end
